theory Spec2Isabelle
  imports Main "HOL-Library.Word"
begin

section \<open>Package userpassword: extraction of a username and a password\<close>

text \<open>
  The Go type \<open>data\<close> is \<open>map[string]interface{}\<close>. A value held in such a map is a
  string, a map of the same type (possibly the nil map), or anything else (a number, a
  slice, a nil interface, ...). A map is given as the list of its entries in the order
  in which \<open>range\<close> visits them in the execution at hand; a lookup \<open>m[k]\<close> is
  \<open>map_of\<close>.
\<close>

datatype val = VString string | VMap "(string \<times> val) list" | VNilMap | VOther

type_synonym data = "(string \<times> val) list"

text \<open>\<open>defaultUserPass\<close>: the named results start as the empty string and are set only
  when the key is present and holds a string.\<close>

definition lookupString :: "data \<Rightarrow> string \<Rightarrow> string" where
  "lookupString sd attr =
     (case map_of sd attr of
        Some (VString u) \<Rightarrow> u
      | _ \<Rightarrow> '''')"

definition defaultUserPass :: "data \<Rightarrow> string \<Rightarrow> string \<Rightarrow> string \<times> string" where
  "defaultUserPass sd usernameAttr passwordAttr =
     (lookupString sd usernameAttr, lookupString sd passwordAttr)"

text \<open>
  The \<open>range\<close> loop of \<open>kv2UserPass\<close>: the local variables \<open>data\<close> and \<open>metadata\<close>
  are \<open>None\<close> while nil. The result \<open>None\<close> is the early \<open>return\<close> of the loop.
  An assertion \<open>v.(map[string]interface{})\<close> succeeds on the nil map and yields nil.
\<close>

fun kv2Range :: "data \<Rightarrow> data option \<Rightarrow> data option \<Rightarrow> (data option \<times> data option) option" where
  "kv2Range [] dat metadata = Some (dat, metadata)"
| "kv2Range ((k, v) # rest) dat metadata =
     (if k = ''data'' then
        (case v of
           VMap m \<Rightarrow> kv2Range rest (Some m) metadata
         | VNilMap \<Rightarrow> kv2Range rest None metadata
         | _ \<Rightarrow> None)
      else if k = ''metadata'' then
        (case v of
           VMap m \<Rightarrow> kv2Range rest dat (Some m)
         | VNilMap \<Rightarrow> kv2Range rest dat None
         | _ \<Rightarrow> None)
      else None)"

definition kv2UserPass :: "data \<Rightarrow> string \<Rightarrow> string \<Rightarrow> string \<times> string" where
  "kv2UserPass d usernameAttr passwordAttr =
     (case kv2Range d None None of
        None \<Rightarrow> ('''', '''')
      | Some (dat, metadata) \<Rightarrow>
          (case (dat, metadata) of
             (Some dm, Some _) \<Rightarrow> (lookupString dm usernameAttr, lookupString dm passwordAttr)
           | _ \<Rightarrow> ('''', '''')))"

type_synonym userPassFunc = "data \<Rightarrow> string \<Rightarrow> string \<Rightarrow> string \<times> string"

text \<open>The loop of \<open>Extract\<close> over the slice of strategies.\<close>

fun ExtractFrom :: "userPassFunc list \<Rightarrow> data \<Rightarrow> string \<Rightarrow> string \<Rightarrow> string \<times> string" where
  "ExtractFrom [] d usernameAttr passwordAttr = ('''', '''')"
| "ExtractFrom (f # fs) d usernameAttr passwordAttr =
     (case f d usernameAttr passwordAttr of
        (username, password) \<Rightarrow>
          if username \<noteq> '''' \<and> password \<noteq> '''' then (username, password)
          else ExtractFrom fs d usernameAttr passwordAttr)"

definition Extract :: "data \<Rightarrow> string \<Rightarrow> string \<Rightarrow> string \<times> string" where
  "Extract d usernameAttr passwordAttr =
     ExtractFrom [defaultUserPass, kv2UserPass] d usernameAttr passwordAttr"

section \<open>Package vault: errors, atomics, durations\<close>

text \<open>
  Modelled from the spec: the package \<open>errors\<close> of the repository is outside the
  given sources; an error is a value carrying a code, an operation name and a message,
  or a wrapper around its cause that adds an operation name (a causal chain).

  The base errors are those the collaborators hand in: the two errors of a done
  context, a \<open>*vault.ResponseError\<close> with its HTTP status code, and any other error.
  \<open>New\<close> is \<open>errors.New(code, op, msg)\<close> and \<open>Wrap\<close> is \<open>errors.Wrap(err, op)\<close>,
  with the message of \<open>errors.WithMsg\<close> when one is given.
\<close>

datatype Code = InvalidParameter | Unknown | JobAlreadyRunning

datatype error =
    ContextCanceled
  | ContextDeadlineExceeded
  | ResponseError nat
  | OtherError string
  | New Code string string
  | Wrap error string "string option"

text \<open>\<open>errors.As(err, &respErr)\<close> for a target of type \<open>*vault.ResponseError\<close>: the first
  response error on the chain of wrapped errors, with its status code.\<close>

fun As_ResponseError :: "error \<Rightarrow> nat option" where
  "As_ResponseError (ResponseError statusCode) = Some statusCode"
| "As_ResponseError (Wrap err _ _) = As_ResponseError err"
| "As_ResponseError _ = None"

text \<open>
  What calling a method comes to: it returns its error (\<open>None\<close> for nil), or it panics
  because a nil pointer is dereferenced. A panic leaves the method and its callers at
  once; deferred calls are still run.
\<close>

datatype outcome = Returns "error option" | Panics

definition StatusBadRequest :: nat where
  "StatusBadRequest = 400"

definition StatusForbidden :: nat where
  "StatusForbidden = 403"

text \<open>
  The three operations of \<open>ua.Bool\<close> used by the jobs, as functions of the value the
  flag holds when the operation takes effect. \<open>CAS\<close> returns whether it swapped and the
  value the flag holds afterwards.
\<close>

definition Load :: "bool \<Rightarrow> bool" where
  "Load flag = flag"

definition CAS :: "bool \<Rightarrow> bool \<Rightarrow> bool \<Rightarrow> bool \<times> bool" where
  "CAS old new flag = (if flag = old then (True, new) else (False, flag))"

definition Store :: "bool \<Rightarrow> bool \<Rightarrow> bool" where
  "Store new flag = new"

text \<open>\<open>time.Duration\<close> is a signed 64-bit count of nanoseconds; its arithmetic wraps.\<close>

type_synonym Duration = "64 word"

definition Second :: Duration where
  "Second = 1000000000"

definition Minute :: Duration where
  "Minute = 60 * Second"

definition defaultNextRunIn :: Duration where
  "defaultNextRunIn = 5 * Minute"

definition renewalWindow :: Duration where
  "renewalWindow = 10 * Minute"

text \<open>\<open>Duration.Seconds\<close>, on durations of whole seconds such as \<open>renewalWindow\<close>.\<close>

definition Seconds :: "Duration \<Rightarrow> int" where
  "Seconds dur = sint dur div 1000000000"

text \<open>\<open>Time.Sub\<close> on instants given in nanoseconds: the difference, saturated to the
  range of a \<open>Duration\<close>.\<close>

definition Sub :: "int \<Rightarrow> int \<Rightarrow> Duration" where
  "Sub t u =
     (if t - u > 9223372036854775807 then word_of_int 9223372036854775807
      else if t - u < - 9223372036854775808 then word_of_int (- 9223372036854775808)
      else word_of_int (t - u))"

section \<open>Package vault: data\<close>

text \<open>
  Modelled from the spec: the status constants of tokens and credentials are declared
  outside the given sources; their values are the status names of the data model
  (\<open>current | maintaining | expired | revoked\<close> and \<open>active | revoke | expired | revoked\<close>).
\<close>

definition CurrentToken :: string where "CurrentToken = ''current''"
definition MaintainingToken :: string where "MaintainingToken = ''maintaining''"
definition ExpiredToken :: string where "ExpiredToken = ''expired''"
definition RevokedToken :: string where "RevokedToken = ''revoked''"

definition ActiveCredential :: string where "ActiveCredential = ''active''"
definition RevokeCredential :: string where "RevokeCredential = ''revoke''"
definition ExpiredCredential :: string where "ExpiredCredential = ''expired''"
definition RevokedCredential :: string where "RevokedCredential = ''revoked''"

text \<open>
  The rows the jobs select, with the fields the jobs read; the last field stands for the
  remaining columns (the encrypted and, after \<open>decrypt\<close>, decrypted connection
  material). Instants are in nanoseconds.
  \<open>Token\<close> is what \<open>privateStore.token\<close> returns and \<open>Credential\<close> what
  \<open>privateCredential.toCredential\<close> returns; both carry the \<open>expiration\<close> the jobs
  assign before the expiration update.
\<close>

record privateStore =
  StoreId :: string
  ScopeId :: string
  TokenStatus :: string
  StoreSecrets :: nat

record privateCredential =
  PublicId :: string
  ScopeId :: string
  ExternalId :: string
  ExpirationTime :: int
  LastRenewalTime :: int
  CredentialSecrets :: nat

record Token =
  TokenHmac :: string
  expiration :: Duration

record Credential =
  CredentialId :: string
  expiration :: Duration

text \<open>
  A \<open>vault.Secret\<close>: its field \<open>LeaseDuration\<close> (a 64-bit \<open>int\<close>); the last field
  stands for the rest. The backend calls return a pointer to a secret together with an
  error, and the pointer may be nil also when the error is nil: a returned secret is a
  \<open>Secret option\<close>, with \<open>None\<close> for the nil pointer.
\<close>

record Secret =
  LeaseDuration :: "64 word"
  SecretData :: nat

text \<open>
  Modelled from the spec: the builders of the update statements
  (\<open>updateStatusQuery\<close>, \<open>updateExpirationQuery\<close>) are outside the given sources. A
  statement is kept symbolic: which single conditional update it is, of which item, with
  which value.
\<close>

datatype stmt =
    TokenStatusUpdate Token string
  | TokenExpirationUpdate Token
  | CredentialStatusUpdate Credential string
  | CredentialExpirationUpdate Credential

definition Token_updateStatusQuery :: "Token \<Rightarrow> string \<Rightarrow> stmt" where
  "Token_updateStatusQuery token status = TokenStatusUpdate token status"

definition Token_updateExpirationQuery :: "Token \<Rightarrow> stmt" where
  "Token_updateExpirationQuery token = TokenExpirationUpdate token"

definition Credential_updateStatusQuery :: "Credential \<Rightarrow> string \<Rightarrow> stmt" where
  "Credential_updateStatusQuery cred status = CredentialStatusUpdate cred status"

definition Credential_updateExpirationQuery :: "Credential \<Rightarrow> stmt" where
  "Credential_updateExpirationQuery cred = CredentialExpirationUpdate cred"

text \<open>Arguments of a \<open>where\<close> clause, and the two queries of \<open>nextRenewal\<close> (constants
  declared outside the given sources, kept symbolic).\<close>

datatype arg = ArgNum int | ArgStr string

datatype nextRunInQuery = tokenRenewalNextRunInQuery | credentialRenewalNextRunInQuery

text \<open>
  The four job structs have the same fields: the collaborators (below), the batch
  \<open>limit\<close>, the atomic flag \<open>running\<close>, the batch total (\<open>numTokens\<close> in the token
  jobs, \<open>numCreds\<close> in the credential jobs; \<open>numTotal\<close> here) and \<open>numProcessed\<close>.
\<close>

record Job =
  limit :: int
  running :: bool
  numTotal :: int
  numProcessed :: int

record JobStatus =
  Completed :: int
  Total :: int

datatype jobKind =
  TokenRenewalJob | TokenRevocationJob | CredentialRenewalJob | CredentialRevocationJob

section \<open>Package vault: collaborators and observable effects\<close>

text \<open>
  What a run emits, in order: the calls to the reader, the key service, the backend and
  the writer (the latter two with their outcome), and the log entries. A log entry has
  its message and its key-value pairs.
\<close>

datatype vaultOp = RenewSelf | RevokeSelf | RenewLease string Duration | RevokeLease string

datatype logval = S string | E error

datatype event =
    SearchWhereCall string "arg list" int
  | GetWrapperCall string
  | VaultCall vaultOp "error option"
  | ExecCall stmt "error + int"
  | LogError string "(string \<times> logval) list"
  | LogInfo string "(string \<times> logval) list"

text \<open>
  The collaborators are parameters. \<open>'w\<close> is the state of everything outside the job
  (storage, backend, key service, clock, the context); a call that may block takes the
  state and returns its result with the state after it. \<open>ctx_Err\<close> is \<open>ctx.Err()\<close>.
  \<open>interleaved\<close> is what other goroutines do to the \<open>running\<close> flag between the
  \<open>Load\<close> and the \<open>CAS\<close> of one invocation of \<open>Run\<close>: the identity when nothing
  interferes. \<open>decrypt\<close> works on the item in place: it returns its error, if any,
  and the item as it leaves it. \<open>token\<close> is \<open>None\<close> when the store has no token.
  \<open>TokenTTL\<close> is the method of that name of the backend's library, called on the
  pointer that renew-self returned. A query of \<open>nextRenewal\<close> yields the rows
  that \<open>rows.Next\<close> steps through, each with the outcome of \<open>ScanRows\<close> on it.
\<close>

record 'w deps =
  interleaved :: "bool \<Rightarrow> bool"
  ctx_Err :: "'w \<Rightarrow> error option"
  SearchWhere_stores :: "string \<Rightarrow> arg list \<Rightarrow> int \<Rightarrow> 'w \<Rightarrow> (error + privateStore list) \<times> 'w"
  SearchWhere_creds :: "string \<Rightarrow> arg list \<Rightarrow> int \<Rightarrow> 'w \<Rightarrow> (error + privateCredential list) \<times> 'w"
  GetWrapper :: "string \<Rightarrow> 'w \<Rightarrow> (error + nat) \<times> 'w"
  store_decrypt :: "privateStore \<Rightarrow> nat \<Rightarrow> 'w \<Rightarrow> (error option \<times> privateStore) \<times> 'w"
  store_token :: "privateStore \<Rightarrow> Token option"
  store_client :: "privateStore \<Rightarrow> error + nat"
  cred_decrypt :: "privateCredential \<Rightarrow> nat \<Rightarrow> 'w \<Rightarrow> (error option \<times> privateCredential) \<times> 'w"
  cred_client :: "privateCredential \<Rightarrow> error + nat"
  toCredential :: "privateCredential \<Rightarrow> Credential"
  vc_renewToken :: "nat \<Rightarrow> 'w \<Rightarrow> (error + Secret option) \<times> 'w"
  TokenTTL :: "Secret option \<Rightarrow> error + Duration"
  vc_revokeToken :: "nat \<Rightarrow> 'w \<Rightarrow> error option \<times> 'w"
  vc_renewLease :: "nat \<Rightarrow> string \<Rightarrow> Duration \<Rightarrow> 'w \<Rightarrow> (error + Secret option) \<times> 'w"
  vc_revokeLease :: "nat \<Rightarrow> string \<Rightarrow> 'w \<Rightarrow> error option \<times> 'w"
  Exec :: "stmt \<Rightarrow> 'w \<Rightarrow> (error + int) \<times> 'w"
  Query :: "nextRunInQuery \<Rightarrow> 'w \<Rightarrow> error + (error + 64 word) list"

definition errOf :: "error + 'a \<Rightarrow> error option" where
  "errOf r = (case r of Inl err \<Rightarrow> Some err | Inr _ \<Rightarrow> None)"

definition Status :: "Job \<Rightarrow> JobStatus" where
  "Status r = \<lparr>Completed = numProcessed r, Total = numTotal r\<rparr>"

section \<open>Token renewal job\<close>

text \<open>
  A method that works on one item returns its error (\<open>None\<close> for nil), the item as the
  method leaves it, the outside state, and the events it emitted.
\<close>

definition renewToken ::
  "'w deps \<Rightarrow> privateStore \<Rightarrow> 'w \<Rightarrow> error option \<times> privateStore \<times> 'w \<times> event list" where
  "renewToken d s w =
     (let op = ''vault.(TokenRenewalJob).renewToken'';
          g = GetWrapperCall (privateStore.ScopeId s)
      in case GetWrapper d (privateStore.ScopeId s) w of (wr, w1) \<Rightarrow>
      (case wr of
         Inl err \<Rightarrow> (Some (Wrap err op (Some ''unable to get database wrapper'')), s, w1, [g])
       | Inr databaseWrapper \<Rightarrow>
      (case store_decrypt d s databaseWrapper w1 of ((derr, s1), w2) \<Rightarrow>
      (case derr of
         Some err \<Rightarrow> (Some (Wrap err op None), s1, w2, [g])
       | None \<Rightarrow>
      (case store_token d s1 of
         None \<Rightarrow> (None, s1, w2, [g])
       | Some token \<Rightarrow>
      (case store_client d s1 of
         Inl err \<Rightarrow> (Some (Wrap err op None), s1, w2, [g])
       | Inr vc \<Rightarrow>
      (case vc_renewToken d vc w2 of (rr, w3) \<Rightarrow>
      (let v = VaultCall RenewSelf (errOf rr)
       in case rr of
         Inl err \<Rightarrow>
           if As_ResponseError err = Some StatusForbidden then
             (let query = Token_updateStatusQuery token ExpiredToken
              in case Exec d query w3 of (xr, w4) \<Rightarrow>
              (case xr of
                 Inl err \<Rightarrow> (Some (Wrap err op None), s1, w4, [g, v, ExecCall query xr])
               | Inr numRows \<Rightarrow>
                   if numRows \<noteq> 1 then
                     (Some (New Unknown op ''token expired but failed to update repo''),
                      s1, w4, [g, v, ExecCall query xr])
                   else
                     (None, s1, w4,
                      [g, v, ExecCall query xr] @
                      (if TokenStatus s1 = CurrentToken then
                         [LogInfo ''Vault credential store current token has expired''
                            [(''credential store id'', S (StoreId s1))]]
                       else []))))
           else (Some (Wrap err op (Some ''unable to renew vault token'')), s1, w3, [g, v])
       | Inr renewedToken \<Rightarrow>
      (case TokenTTL d renewedToken of
         Inl err \<Rightarrow>
           (Some (Wrap err op (Some ''unable to get vault token expiration'')), s1, w3, [g, v])
       | Inr tokenExpires \<Rightarrow>
      (let query = Token_updateExpirationQuery (token\<lparr>Token.expiration := tokenExpires\<rparr>)
       in case Exec d query w3 of (xr, w4) \<Rightarrow>
      (case xr of
         Inl err \<Rightarrow> (Some (Wrap err op None), s1, w4, [g, v, ExecCall query xr])
       | Inr numRows \<Rightarrow>
           if numRows \<noteq> 1 then
             (Some (New Unknown op ''token renewed but failed to update repo''),
              s1, w4, [g, v, ExecCall query xr])
           else (None, s1, w4, [g, v, ExecCall query xr]))))))))))))"

text \<open>The \<open>range\<close> loop of \<open>Run\<close>. It gives what \<open>Run\<close> comes to (the error it returns, or
  a panic), the job, the outside state and the events emitted.\<close>

fun TokenRenewalJob_range ::
  "'w deps \<Rightarrow> privateStore list \<Rightarrow> Job \<Rightarrow> 'w \<Rightarrow> outcome \<times> Job \<times> 'w \<times> event list" where
  "TokenRenewalJob_range d [] r w = (Returns None, r, w, [])"
| "TokenRenewalJob_range d (s # ps) r w =
     (case ctx_Err d w of
        Some err \<Rightarrow> (Returns (Some (Wrap err ''vault.(TokenRenewalJob).Run'' None)), r, w, [])
      | None \<Rightarrow>
     (case renewToken d s w of (ierr, s1, w1, evs) \<Rightarrow>
     (let logged =
            (case ierr of
               Some err \<Rightarrow>
                 [LogError ''error renewing token''
                    [(''credential store id'', S (StoreId s1)),
                     (''token status'', S (TokenStatus s1)),
                     (''error'', E err)]]
             | None \<Rightarrow> []);
          r1 = r\<lparr>numProcessed := numProcessed r + 1\<rparr>
      in case TokenRenewalJob_range d ps r1 w1 of
           (res, r2, w2, evs2) \<Rightarrow> (res, r2, w2, evs @ logged @ evs2))))"

text \<open>\<open>Run\<close> from the first check of the context on, that is, under the deferred
  \<open>running.Store(false)\<close>.\<close>

definition TokenRenewalJob_whereClause :: string where
  "TokenRenewalJob_whereClause =
     ''token_renewal_time < wt_add_seconds_to_now(?)''"

definition TokenRenewalJob_whereArgs :: "arg list" where
  "TokenRenewalJob_whereArgs = [ArgNum (Seconds renewalWindow)]"

definition TokenRenewalJob_Run_deferred ::
  "'w deps \<Rightarrow> Job \<Rightarrow> 'w \<Rightarrow> outcome \<times> Job \<times> 'w \<times> event list" where
  "TokenRenewalJob_Run_deferred d r w =
     (let op = ''vault.(TokenRenewalJob).Run'';
          q = SearchWhereCall TokenRenewalJob_whereClause TokenRenewalJob_whereArgs (limit r)
      in case ctx_Err d w of
        Some err \<Rightarrow> (Returns (Some (Wrap err op None)), r, w, [])
      | None \<Rightarrow>
     (case SearchWhere_stores d TokenRenewalJob_whereClause TokenRenewalJob_whereArgs (limit r) w of
        (sr, w1) \<Rightarrow>
     (case sr of
        Inl err \<Rightarrow> (Returns (Some (Wrap err op None)), r, w1, [q])
      | Inr ps \<Rightarrow>
     (let r1 = r\<lparr>numProcessed := 0, numTotal := int (length ps)\<rparr>
      in case TokenRenewalJob_range d ps r1 w1 of
           (res, r2, w2, evs) \<Rightarrow> (res, r2, w2, q # evs)))))"

text \<open>
  \<open>Run\<close>: \<open>Load\<close> reads the flag; \<open>CAS\<close> takes effect on the flag as the other
  goroutines have left it in between; when it does not swap, \<open>Run\<close> returns before the
  \<open>defer\<close> statement is reached.
\<close>

definition TokenRenewalJob_Run ::
  "'w deps \<Rightarrow> Job \<Rightarrow> 'w \<Rightarrow> outcome \<times> Job \<times> 'w \<times> event list" where
  "TokenRenewalJob_Run d r w =
     (case CAS (Load (running r)) True (interleaved d (running r)) of (swapped, flag) \<Rightarrow>
        if \<not> swapped then
          (Returns (Some (New JobAlreadyRunning ''vault.(TokenRenewalJob).Run'' ''job already running'')),
           r\<lparr>running := flag\<rparr>, w, [])
        else
          (case TokenRenewalJob_Run_deferred d (r\<lparr>running := flag\<rparr>) w of
             (res, r1, w1, evs) \<Rightarrow> (res, r1\<lparr>running := Store False (running r1)\<rparr>, w1, evs)))"

section \<open>Token revocation job\<close>

definition revokeToken ::
  "'w deps \<Rightarrow> privateStore \<Rightarrow> 'w \<Rightarrow> error option \<times> privateStore \<times> 'w \<times> event list" where
  "revokeToken d s w =
     (let op = ''vault.(TokenRevocationJob).revokeToken'';
          g = GetWrapperCall (privateStore.ScopeId s)
      in case GetWrapper d (privateStore.ScopeId s) w of (wr, w1) \<Rightarrow>
      (case wr of
         Inl err \<Rightarrow> (Some (Wrap err op (Some ''unable to get database wrapper'')), s, w1, [g])
       | Inr databaseWrapper \<Rightarrow>
      (case store_decrypt d s databaseWrapper w1 of ((derr, s1), w2) \<Rightarrow>
      (case derr of
         Some err \<Rightarrow> (Some (Wrap err op None), s1, w2, [g])
       | None \<Rightarrow>
      (case store_token d s1 of
         None \<Rightarrow> (None, s1, w2, [g])
       | Some token \<Rightarrow>
      (case store_client d s1 of
         Inl err \<Rightarrow> (Some (Wrap err op None), s1, w2, [g])
       | Inr vc \<Rightarrow>
      (case vc_revokeToken d vc w2 of (verr, w3) \<Rightarrow>
      (let v = VaultCall RevokeSelf verr;
           err =
             (case verr of
                None \<Rightarrow> None
              | Some e \<Rightarrow> if As_ResponseError e = Some StatusForbidden then None else Some e)
       in case err of
         Some e \<Rightarrow> (Some (Wrap e op (Some ''unable to revoke vault token'')), s1, w3, [g, v])
       | None \<Rightarrow>
      (let query = Token_updateStatusQuery token RevokedToken
       in case Exec d query w3 of (xr, w4) \<Rightarrow>
      (case xr of
         Inl err \<Rightarrow> (Some (Wrap err op None), s1, w4, [g, v, ExecCall query xr])
       | Inr numRows \<Rightarrow>
           if numRows \<noteq> 1 then
             (Some (New Unknown op ''token revoked but failed to update repo''),
              s1, w4, [g, v, ExecCall query xr])
           else (None, s1, w4, [g, v, ExecCall query xr])))))))))))"

fun TokenRevocationJob_range ::
  "'w deps \<Rightarrow> privateStore list \<Rightarrow> Job \<Rightarrow> 'w \<Rightarrow> outcome \<times> Job \<times> 'w \<times> event list" where
  "TokenRevocationJob_range d [] r w = (Returns None, r, w, [])"
| "TokenRevocationJob_range d (s # ps) r w =
     (case ctx_Err d w of
        Some err \<Rightarrow> (Returns (Some (Wrap err ''vault.(TokenRevocationJob).Run'' None)), r, w, [])
      | None \<Rightarrow>
     (case revokeToken d s w of (ierr, s1, w1, evs) \<Rightarrow>
     (let logged =
            (case ierr of
               Some err \<Rightarrow>
                 [LogError ''error revoking token''
                    [(''credential store id'', S (StoreId s1)),
                     (''error'', E err)]]
             | None \<Rightarrow> []);
          r1 = r\<lparr>numProcessed := numProcessed r + 1\<rparr>
      in case TokenRevocationJob_range d ps r1 w1 of
           (res, r2, w2, evs2) \<Rightarrow> (res, r2, w2, evs @ logged @ evs2))))"

text \<open>The \<open>where\<close> clause is the source's, with its line breaks written as blanks.\<close>

definition TokenRevocationJob_whereClause :: string where
  "TokenRevocationJob_whereClause =
     ''token_status = ? and token_hmac not in ( select token_hmac from credential_vault_credential where status = ? )''"

definition TokenRevocationJob_whereArgs :: "arg list" where
  "TokenRevocationJob_whereArgs = [ArgStr MaintainingToken, ArgStr ActiveCredential]"

definition TokenRevocationJob_Run_deferred ::
  "'w deps \<Rightarrow> Job \<Rightarrow> 'w \<Rightarrow> outcome \<times> Job \<times> 'w \<times> event list" where
  "TokenRevocationJob_Run_deferred d r w =
     (let op = ''vault.(TokenRevocationJob).Run'';
          q = SearchWhereCall TokenRevocationJob_whereClause TokenRevocationJob_whereArgs (limit r)
      in case ctx_Err d w of
        Some err \<Rightarrow> (Returns (Some (Wrap err op None)), r, w, [])
      | None \<Rightarrow>
     (case SearchWhere_stores d TokenRevocationJob_whereClause TokenRevocationJob_whereArgs (limit r) w of
        (sr, w1) \<Rightarrow>
     (case sr of
        Inl err \<Rightarrow> (Returns (Some (Wrap err op None)), r, w1, [q])
      | Inr ps \<Rightarrow>
     (let r1 = r\<lparr>numProcessed := 0, numTotal := int (length ps)\<rparr>
      in case TokenRevocationJob_range d ps r1 w1 of
           (res, r2, w2, evs) \<Rightarrow> (res, r2, w2, q # evs)))))"

definition TokenRevocationJob_Run ::
  "'w deps \<Rightarrow> Job \<Rightarrow> 'w \<Rightarrow> outcome \<times> Job \<times> 'w \<times> event list" where
  "TokenRevocationJob_Run d r w =
     (case CAS (Load (running r)) True (interleaved d (running r)) of (swapped, flag) \<Rightarrow>
        if \<not> swapped then
          (Returns (Some (New JobAlreadyRunning ''vault.(TokenRevocationJob).Run'' ''job already running'')),
           r\<lparr>running := flag\<rparr>, w, [])
        else
          (case TokenRevocationJob_Run_deferred d (r\<lparr>running := flag\<rparr>) w of
             (res, r1, w1, evs) \<Rightarrow> (res, r1\<lparr>running := Store False (running r1)\<rparr>, w1, evs)))"

section \<open>Credential renewal job\<close>

text \<open>
  After a renew-lease call that returned no error, \<open>renewCred\<close> reads the field
  \<open>LeaseDuration\<close> through the returned pointer without testing it: on the nil pointer
  this panics.
\<close>

definition renewCred ::
  "'w deps \<Rightarrow> privateCredential \<Rightarrow> 'w \<Rightarrow> outcome \<times> privateCredential \<times> 'w \<times> event list" where
  "renewCred d c w =
     (let op = ''vault.(CredentialRenewalJob).renewCred'';
          g = GetWrapperCall (privateCredential.ScopeId c)
      in case GetWrapper d (privateCredential.ScopeId c) w of (wr, w1) \<Rightarrow>
      (case wr of
         Inl err \<Rightarrow> (Returns (Some (Wrap err op (Some ''unable to get database wrapper''))), c, w1, [g])
       | Inr databaseWrapper \<Rightarrow>
      (case cred_decrypt d c databaseWrapper w1 of ((derr, c1), w2) \<Rightarrow>
      (case derr of
         Some err \<Rightarrow> (Returns (Some (Wrap err op None)), c1, w2, [g])
       | None \<Rightarrow>
      (case cred_client d c1 of
         Inl err \<Rightarrow> (Returns (Some (Wrap err op None)), c1, w2, [g])
       | Inr vc \<Rightarrow>
      (let cred = toCredential d c1;
           leaseDuration = Sub (ExpirationTime c1) (LastRenewalTime c1)
       in case vc_renewLease d vc (ExternalId c1) leaseDuration w2 of (rr, w3) \<Rightarrow>
      (let v = VaultCall (RenewLease (ExternalId c1) leaseDuration) (errOf rr)
       in case rr of
         Inl err \<Rightarrow>
           if As_ResponseError err = Some StatusBadRequest then
             (let query = Credential_updateStatusQuery cred ExpiredCredential
              in case Exec d query w3 of (xr, w4) \<Rightarrow>
              (case xr of
                 Inl err \<Rightarrow> (Returns (Some (Wrap err op None)), c1, w4, [g, v, ExecCall query xr])
               | Inr numRows \<Rightarrow>
                   if numRows \<noteq> 1 then
                     (Returns (Some (New Unknown op ''credential expired but failed to update repo'')),
                      c1, w4, [g, v, ExecCall query xr])
                   else (Returns None, c1, w4, [g, v, ExecCall query xr])))
           else (Returns (Some (Wrap err op (Some ''unable to renew credential''))), c1, w3, [g, v])
       | Inr renewedCred \<Rightarrow>
      (case renewedCred of
         None \<Rightarrow> (Panics, c1, w3, [g, v])
       | Some secret \<Rightarrow>
      (let query =
             Credential_updateExpirationQuery
               (cred\<lparr>Credential.expiration := LeaseDuration secret * Second\<rparr>)
       in case Exec d query w3 of (xr, w4) \<Rightarrow>
      (case xr of
         Inl err \<Rightarrow> (Returns (Some (Wrap err op None)), c1, w4, [g, v, ExecCall query xr])
       | Inr numRows \<Rightarrow>
           if numRows \<noteq> 1 then
             (Returns (Some (New Unknown op ''credential renewed but failed to update repo'')),
              c1, w4, [g, v, ExecCall query xr])
           else (Returns None, c1, w4, [g, v, ExecCall query xr])))))))))))"

fun CredentialRenewalJob_range ::
  "'w deps \<Rightarrow> privateCredential list \<Rightarrow> Job \<Rightarrow> 'w \<Rightarrow> outcome \<times> Job \<times> 'w \<times> event list" where
  "CredentialRenewalJob_range d [] r w = (Returns None, r, w, [])"
| "CredentialRenewalJob_range d (c # creds) r w =
     (case ctx_Err d w of
        Some err \<Rightarrow> (Returns (Some (Wrap err ''vault.(CredentialRenewalJob).Run'' None)), r, w, [])
      | None \<Rightarrow>
     (case renewCred d c w of
        (Panics, c1, w1, evs) \<Rightarrow> (Panics, r, w1, evs)
      | (Returns ierr, c1, w1, evs) \<Rightarrow>
     (let logged =
            (case ierr of
               Some err \<Rightarrow>
                 [LogError ''error renewing credential''
                    [(''credential id'', S (PublicId c1)),
                     (''error'', E err)]]
             | None \<Rightarrow> []);
          r1 = r\<lparr>numProcessed := numProcessed r + 1\<rparr>
      in case CredentialRenewalJob_range d creds r1 w1 of
           (res, r2, w2, evs2) \<Rightarrow> (res, r2, w2, evs @ logged @ evs2))))"

definition CredentialRenewalJob_whereClause :: string where
  "CredentialRenewalJob_whereClause =
     ''renewal_time < wt_add_seconds_to_now(?) and status = ?''"

definition CredentialRenewalJob_whereArgs :: "arg list" where
  "CredentialRenewalJob_whereArgs = [ArgNum (Seconds renewalWindow), ArgStr ActiveCredential]"

definition CredentialRenewalJob_Run_deferred ::
  "'w deps \<Rightarrow> Job \<Rightarrow> 'w \<Rightarrow> outcome \<times> Job \<times> 'w \<times> event list" where
  "CredentialRenewalJob_Run_deferred d r w =
     (let op = ''vault.(CredentialRenewalJob).Run'';
          q = SearchWhereCall CredentialRenewalJob_whereClause CredentialRenewalJob_whereArgs (limit r)
      in case ctx_Err d w of
        Some err \<Rightarrow> (Returns (Some (Wrap err op None)), r, w, [])
      | None \<Rightarrow>
     (case SearchWhere_creds d CredentialRenewalJob_whereClause CredentialRenewalJob_whereArgs (limit r) w of
        (sr, w1) \<Rightarrow>
     (case sr of
        Inl err \<Rightarrow> (Returns (Some (Wrap err op None)), r, w1, [q])
      | Inr creds \<Rightarrow>
     (let r1 = r\<lparr>numProcessed := 0, numTotal := int (length creds)\<rparr>
      in case CredentialRenewalJob_range d creds r1 w1 of
           (res, r2, w2, evs) \<Rightarrow> (res, r2, w2, q # evs)))))"

definition CredentialRenewalJob_Run ::
  "'w deps \<Rightarrow> Job \<Rightarrow> 'w \<Rightarrow> outcome \<times> Job \<times> 'w \<times> event list" where
  "CredentialRenewalJob_Run d r w =
     (case CAS (Load (running r)) True (interleaved d (running r)) of (swapped, flag) \<Rightarrow>
        if \<not> swapped then
          (Returns (Some (New JobAlreadyRunning ''vault.(CredentialRenewalJob).Run'' ''job already running'')),
           r\<lparr>running := flag\<rparr>, w, [])
        else
          (case CredentialRenewalJob_Run_deferred d (r\<lparr>running := flag\<rparr>) w of
             (res, r1, w1, evs) \<Rightarrow> (res, r1\<lparr>running := Store False (running r1)\<rparr>, w1, evs)))"

section \<open>Credential revocation job\<close>

definition revokeCred ::
  "'w deps \<Rightarrow> privateCredential \<Rightarrow> 'w \<Rightarrow> error option \<times> privateCredential \<times> 'w \<times> event list" where
  "revokeCred d c w =
     (let op = ''vault.(CredentialRenewalJob).revokeCred'';
          g = GetWrapperCall (privateCredential.ScopeId c)
      in case GetWrapper d (privateCredential.ScopeId c) w of (wr, w1) \<Rightarrow>
      (case wr of
         Inl err \<Rightarrow> (Some (Wrap err op (Some ''unable to get database wrapper'')), c, w1, [g])
       | Inr databaseWrapper \<Rightarrow>
      (case cred_decrypt d c databaseWrapper w1 of ((derr, c1), w2) \<Rightarrow>
      (case derr of
         Some err \<Rightarrow> (Some (Wrap err op None), c1, w2, [g])
       | None \<Rightarrow>
      (case cred_client d c1 of
         Inl err \<Rightarrow> (Some (Wrap err op None), c1, w2, [g])
       | Inr vc \<Rightarrow>
      (case vc_revokeLease d vc (ExternalId c1) w2 of (verr, w3) \<Rightarrow>
      (let v = VaultCall (RevokeLease (ExternalId c1)) verr
       in case verr of
         Some err \<Rightarrow> (Some (Wrap err op (Some ''unable to revoke credential'')), c1, w3, [g, v])
       | None \<Rightarrow>
      (let cred = toCredential d c1;
           query = Credential_updateStatusQuery cred RevokedCredential
       in case Exec d query w3 of (xr, w4) \<Rightarrow>
      (case xr of
         Inl err \<Rightarrow> (Some (Wrap err op None), c1, w4, [g, v, ExecCall query xr])
       | Inr numRows \<Rightarrow>
           if numRows \<noteq> 1 then
             (Some (New Unknown op ''credential revoked but failed to update repo''),
              c1, w4, [g, v, ExecCall query xr])
           else (None, c1, w4, [g, v, ExecCall query xr]))))))))))"

fun CredentialRevocationJob_range ::
  "'w deps \<Rightarrow> privateCredential list \<Rightarrow> Job \<Rightarrow> 'w \<Rightarrow> outcome \<times> Job \<times> 'w \<times> event list" where
  "CredentialRevocationJob_range d [] r w = (Returns None, r, w, [])"
| "CredentialRevocationJob_range d (c # creds) r w =
     (case ctx_Err d w of
        Some err \<Rightarrow> (Returns (Some (Wrap err ''vault.(CredentialRevocationJob).Run'' None)), r, w, [])
      | None \<Rightarrow>
     (case revokeCred d c w of (ierr, c1, w1, evs) \<Rightarrow>
     (let logged =
            (case ierr of
               Some err \<Rightarrow>
                 [LogError ''error revoking credential''
                    [(''credential id'', S (PublicId c1)),
                     (''error'', E err)]]
             | None \<Rightarrow> []);
          r1 = r\<lparr>numProcessed := numProcessed r + 1\<rparr>
      in case CredentialRevocationJob_range d creds r1 w1 of
           (res, r2, w2, evs2) \<Rightarrow> (res, r2, w2, evs @ logged @ evs2))))"

definition CredentialRevocationJob_whereClause :: string where
  "CredentialRevocationJob_whereClause =
     ''status = ?''"

definition CredentialRevocationJob_whereArgs :: "arg list" where
  "CredentialRevocationJob_whereArgs = [ArgStr RevokeCredential]"

definition CredentialRevocationJob_Run_deferred ::
  "'w deps \<Rightarrow> Job \<Rightarrow> 'w \<Rightarrow> outcome \<times> Job \<times> 'w \<times> event list" where
  "CredentialRevocationJob_Run_deferred d r w =
     (let op = ''vault.(CredentialRevocationJob).Run'';
          q = SearchWhereCall CredentialRevocationJob_whereClause CredentialRevocationJob_whereArgs (limit r)
      in case ctx_Err d w of
        Some err \<Rightarrow> (Returns (Some (Wrap err op None)), r, w, [])
      | None \<Rightarrow>
     (case SearchWhere_creds d CredentialRevocationJob_whereClause CredentialRevocationJob_whereArgs (limit r) w of
        (sr, w1) \<Rightarrow>
     (case sr of
        Inl err \<Rightarrow> (Returns (Some (Wrap err op None)), r, w1, [q])
      | Inr creds \<Rightarrow>
     (let r1 = r\<lparr>numProcessed := 0, numTotal := int (length creds)\<rparr>
      in case CredentialRevocationJob_range d creds r1 w1 of
           (res, r2, w2, evs) \<Rightarrow> (res, r2, w2, q # evs)))))"

definition CredentialRevocationJob_Run ::
  "'w deps \<Rightarrow> Job \<Rightarrow> 'w \<Rightarrow> outcome \<times> Job \<times> 'w \<times> event list" where
  "CredentialRevocationJob_Run d r w =
     (case CAS (Load (running r)) True (interleaved d (running r)) of (swapped, flag) \<Rightarrow>
        if \<not> swapped then
          (Returns (Some (New JobAlreadyRunning ''vault.(CredentialRevocationJob).Run'' ''job already running'')),
           r\<lparr>running := flag\<rparr>, w, [])
        else
          (case CredentialRevocationJob_Run_deferred d (r\<lparr>running := flag\<rparr>) w of
             (res, r1, w1, evs) \<Rightarrow> (res, r1\<lparr>running := Store False (running r1)\<rparr>, w1, evs)))"

section \<open>Next run of the renewal jobs\<close>

definition nextRenewal :: "'w deps \<Rightarrow> jobKind \<Rightarrow> 'w \<Rightarrow> Duration \<times> error option" where
  "nextRenewal d j w =
     (let op = ''vault.nextRenewal''
      in case (case j of
                 TokenRenewalJob \<Rightarrow> Some tokenRenewalNextRunInQuery
               | CredentialRenewalJob \<Rightarrow> Some credentialRenewalNextRunInQuery
               | _ \<Rightarrow> None) of
        None \<Rightarrow> (0, Some (New Unknown op ''unknown job''))
      | Some query \<Rightarrow>
     (case Query d query w of
        Inl err \<Rightarrow> (0, Some (Wrap err op None))
      | Inr rows \<Rightarrow>
     (case rows of
        [] \<Rightarrow> (defaultNextRunIn, None)
      | row # _ \<Rightarrow>
     (case row of
        Inl err \<Rightarrow> (0, Some (Wrap err op None))
      | Inr RenewalIn \<Rightarrow>
          if RenewalIn <s 0 then (0, None)
          else (RenewalIn * Second, None)))))"

definition TokenRenewalJob_NextRunIn :: "'w deps \<Rightarrow> 'w \<Rightarrow> Duration \<times> error option" where
  "TokenRenewalJob_NextRunIn d w =
     (case nextRenewal d TokenRenewalJob w of
        (next, Some err) \<Rightarrow>
          (defaultNextRunIn, Some (Wrap err ''vault.(TokenRenewalJob).NextRunIn'' None))
      | (next, None) \<Rightarrow> (next, None))"

definition TokenRevocationJob_NextRunIn :: "'w deps \<Rightarrow> 'w \<Rightarrow> Duration \<times> error option" where
  "TokenRevocationJob_NextRunIn d w = (defaultNextRunIn, None)"

definition CredentialRenewalJob_NextRunIn :: "'w deps \<Rightarrow> 'w \<Rightarrow> Duration \<times> error option" where
  "CredentialRenewalJob_NextRunIn d w =
     (case nextRenewal d CredentialRenewalJob w of
        (next, Some err) \<Rightarrow>
          (defaultNextRunIn, Some (Wrap err ''vault.(CredentialRenewalJob).NextRunIn'' None))
      | (next, None) \<Rightarrow> (next, None))"

definition CredentialRevocationJob_NextRunIn :: "'w deps \<Rightarrow> 'w \<Rightarrow> Duration \<times> error option" where
  "CredentialRevocationJob_NextRunIn d w = (defaultNextRunIn, None)"

section \<open>Reading the events of a run\<close>

fun isGetWrapperCall :: "event \<Rightarrow> bool" where
  "isGetWrapperCall (GetWrapperCall _) = True"
| "isGetWrapperCall _ = False"

fun isExecCall :: "event \<Rightarrow> bool" where
  "isExecCall (ExecCall _ _) = True"
| "isExecCall _ = False"

fun isLogError :: "event \<Rightarrow> bool" where
  "isLogError (LogError _ _) = True"
| "isLogError _ = False"

text \<open>The number of items whose processing was started (each starts with one call of
  \<open>GetWrapper\<close>), the writes issued, and whether a given error was logged by
  \<open>logger.Error\<close>.\<close>

definition started :: "event list \<Rightarrow> int" where
  "started evs = int (length (filter isGetWrapperCall evs))"

definition writes :: "event list \<Rightarrow> event list" where
  "writes evs = filter isExecCall evs"

fun logsError :: "error \<Rightarrow> event \<Rightarrow> bool" where
  "logsError err (LogError _ kvs) = ((''error'', E err) \<in> set kvs)"
| "logsError err _ = False"

definition errorLogged :: "error \<Rightarrow> event list \<Rightarrow> bool" where
  "errorLogged err evs = list_ex (logsError err) evs"

section \<open>The common shape of the four loops\<close>

text \<open>
  The four \<open>range\<close> loops differ in the operation name, the method applied to an item
  and the log entry written for a failed item. \<open>rangeItems\<close> is the loop with these three
  as parameters; each loop is shown below to be an instance of it. \<open>returning\<close> turns a
  method that cannot panic into one whose result is an \<open>outcome\<close>.
\<close>

fun rangeItems ::
  "('w \<Rightarrow> error option) \<Rightarrow> string \<Rightarrow> ('a \<Rightarrow> 'w \<Rightarrow> outcome \<times> 'a \<times> 'w \<times> event list) \<Rightarrow>
   ('a \<Rightarrow> error \<Rightarrow> event) \<Rightarrow> 'a list \<Rightarrow> Job \<Rightarrow> 'w \<Rightarrow> outcome \<times> Job \<times> 'w \<times> event list" where
  "rangeItems cerr op item entry [] r w = (Returns None, r, w, [])"
| "rangeItems cerr op item entry (s # ps) r w =
     (case cerr w of
        Some err \<Rightarrow> (Returns (Some (Wrap err op None)), r, w, [])
      | None \<Rightarrow>
     (case item s w of
        (Panics, s1, w1, evs) \<Rightarrow> (Panics, r, w1, evs)
      | (Returns ierr, s1, w1, evs) \<Rightarrow>
     (case rangeItems cerr op item entry ps (r\<lparr>numProcessed := numProcessed r + 1\<rparr>) w1 of
        (res, r2, w2, evs2) \<Rightarrow>
          (res, r2, w2, evs @ (case ierr of Some err \<Rightarrow> [entry s1 err] | None \<Rightarrow> []) @ evs2))))"

definition returning ::
  "('a \<Rightarrow> 'w \<Rightarrow> error option \<times> 'a \<times> 'w \<times> event list) \<Rightarrow> 'a \<Rightarrow> 'w \<Rightarrow> outcome \<times> 'a \<times> 'w \<times> event list" where
  "returning item s w = (case item s w of (ierr, s1, w1, evs) \<Rightarrow> (Returns ierr, s1, w1, evs))"

definition TokenRenewalJob_entry :: "privateStore \<Rightarrow> error \<Rightarrow> event" where
  "TokenRenewalJob_entry s err =
     LogError ''error renewing token''
       [(''credential store id'', S (StoreId s)),
        (''token status'', S (TokenStatus s)),
        (''error'', E err)]"

definition TokenRevocationJob_entry :: "privateStore \<Rightarrow> error \<Rightarrow> event" where
  "TokenRevocationJob_entry s err =
     LogError ''error revoking token''
       [(''credential store id'', S (StoreId s)),
        (''error'', E err)]"

definition CredentialRenewalJob_entry :: "privateCredential \<Rightarrow> error \<Rightarrow> event" where
  "CredentialRenewalJob_entry c err =
     LogError ''error renewing credential''
       [(''credential id'', S (PublicId c)),
        (''error'', E err)]"

definition CredentialRevocationJob_entry :: "privateCredential \<Rightarrow> error \<Rightarrow> event" where
  "CredentialRevocationJob_entry c err =
     LogError ''error revoking credential''
       [(''credential id'', S (PublicId c)),
        (''error'', E err)]"

section \<open>The job interface\<close>

text \<open>
  The scheduler calls the four jobs through the interface \<open>scheduler.Job\<close>; \<open>Run j\<close> and
  \<open>NextRunIn j\<close> are the methods of the job of kind \<open>j\<close>, and \<open>Run_op j\<close> is the operation
  name under which its \<open>Run\<close> reports errors. \<open>selection j\<close> is the selection query of
  that \<open>Run\<close>, on its own: its error or the size of the batch, and the outside state after
  the query.
\<close>

definition Run ::
  "jobKind \<Rightarrow> 'w deps \<Rightarrow> Job \<Rightarrow> 'w \<Rightarrow> outcome \<times> Job \<times> 'w \<times> event list" where
  "Run j =
     (case j of
        TokenRenewalJob \<Rightarrow> TokenRenewalJob_Run
      | TokenRevocationJob \<Rightarrow> TokenRevocationJob_Run
      | CredentialRenewalJob \<Rightarrow> CredentialRenewalJob_Run
      | CredentialRevocationJob \<Rightarrow> CredentialRevocationJob_Run)"

definition NextRunIn :: "jobKind \<Rightarrow> 'w deps \<Rightarrow> 'w \<Rightarrow> Duration \<times> error option" where
  "NextRunIn j =
     (case j of
        TokenRenewalJob \<Rightarrow> TokenRenewalJob_NextRunIn
      | TokenRevocationJob \<Rightarrow> TokenRevocationJob_NextRunIn
      | CredentialRenewalJob \<Rightarrow> CredentialRenewalJob_NextRunIn
      | CredentialRevocationJob \<Rightarrow> CredentialRevocationJob_NextRunIn)"

definition Run_op :: "jobKind \<Rightarrow> string" where
  "Run_op j =
     (case j of
        TokenRenewalJob \<Rightarrow> ''vault.(TokenRenewalJob).Run''
      | TokenRevocationJob \<Rightarrow> ''vault.(TokenRevocationJob).Run''
      | CredentialRenewalJob \<Rightarrow> ''vault.(CredentialRenewalJob).Run''
      | CredentialRevocationJob \<Rightarrow> ''vault.(CredentialRevocationJob).Run'')"

definition sized :: "(error + 'a list) \<times> 'w \<Rightarrow> (error + int) \<times> 'w" where
  "sized x = (case x of (Inl err, w1) \<Rightarrow> (Inl err, w1) | (Inr ps, w1) \<Rightarrow> (Inr (int (length ps)), w1))"

definition selection :: "jobKind \<Rightarrow> 'w deps \<Rightarrow> Job \<Rightarrow> 'w \<Rightarrow> (error + int) \<times> 'w" where
  "selection j d r w =
     (case j of
        TokenRenewalJob \<Rightarrow>
          sized (SearchWhere_stores d TokenRenewalJob_whereClause TokenRenewalJob_whereArgs (limit r) w)
      | TokenRevocationJob \<Rightarrow>
          sized (SearchWhere_stores d TokenRevocationJob_whereClause TokenRevocationJob_whereArgs (limit r) w)
      | CredentialRenewalJob \<Rightarrow>
          sized (SearchWhere_creds d CredentialRenewalJob_whereClause CredentialRenewalJob_whereArgs (limit r) w)
      | CredentialRevocationJob \<Rightarrow>
          sized (SearchWhere_creds d CredentialRevocationJob_whereClause CredentialRevocationJob_whereArgs (limit r) w))"

text \<open>The four components of what a run gives: what it comes to, the job as it leaves
  it, the outside state, and the events emitted.\<close>

definition returned :: "outcome \<times> Job \<times> 'w \<times> event list \<Rightarrow> outcome" where
  "returned x = fst x"

definition jobAfter :: "outcome \<times> Job \<times> 'w \<times> event list \<Rightarrow> Job" where
  "jobAfter x = fst (snd x)"

definition stateAfter :: "outcome \<times> Job \<times> 'w \<times> event list \<Rightarrow> 'w" where
  "stateAfter x = fst (snd (snd x))"

definition emitted :: "outcome \<times> Job \<times> 'w \<times> event list \<Rightarrow> event list" where
  "emitted x = snd (snd (snd x))"

section \<open>Concrete collaborators\<close>

text \<open>
  A family of collaborators for concrete runs. The outside state counts the blocking
  calls made so far. The context is done from the moment \<open>cancelAt\<close> calls have been made
  (never, when \<open>None\<close>); selection returns the given batches; every backend call ends
  with \<open>verr\<close> (success, with a secret where one is returned, when \<open>None\<close>); every
  write ends with \<open>xr\<close>; nothing interferes with the \<open>running\<close> flag.
\<close>

definition scenario ::
  "nat option \<Rightarrow> privateStore list \<Rightarrow> privateCredential list \<Rightarrow> error option \<Rightarrow> error + int \<Rightarrow> nat deps" where
  "scenario cancelAt ps creds verr xr =
     \<lparr> interleaved = (\<lambda>flag. flag),
       ctx_Err = (\<lambda>w. case cancelAt of
                         None \<Rightarrow> None
                       | Some k \<Rightarrow> if k \<le> w then Some ContextCanceled else None),
       SearchWhere_stores = (\<lambda>_ _ _ w. (Inr ps, w + 1)),
       SearchWhere_creds = (\<lambda>_ _ _ w. (Inr creds, w + 1)),
       GetWrapper = (\<lambda>_ w. (Inr 7, w + 1)),
       store_decrypt = (\<lambda>s _ w. ((None, s), w + 1)),
       store_token = (\<lambda>s. Some \<lparr>TokenHmac = StoreId s, Token.expiration = 0\<rparr>),
       store_client = (\<lambda>_. Inr 1),
       cred_decrypt = (\<lambda>c _ w. ((None, c), w + 1)),
       cred_client = (\<lambda>_. Inr 1),
       toCredential = (\<lambda>c. \<lparr>CredentialId = PublicId c, Credential.expiration = 0\<rparr>),
       vc_renewToken =
         (\<lambda>_ w. (case verr of
                     Some e \<Rightarrow> Inl e
                   | None \<Rightarrow> Inr (Some \<lparr>LeaseDuration = 3600, SecretData = 0\<rparr>),
                  w + 1)),
       TokenTTL = (\<lambda>_. Inr (3600 * Second)),
       vc_revokeToken = (\<lambda>_ w. (verr, w + 1)),
       vc_renewLease =
         (\<lambda>_ _ _ w. (case verr of
                         Some e \<Rightarrow> Inl e
                       | None \<Rightarrow> Inr (Some \<lparr>LeaseDuration = 3600, SecretData = 0\<rparr>),
                      w + 1)),
       vc_revokeLease = (\<lambda>_ _ w. (verr, w + 1)),
       Exec = (\<lambda>_ w. (xr, w + 1)),
       Query = (\<lambda>_ _. Inr []) \<rparr>"

definition store1 :: privateStore where
  "store1 = \<lparr>StoreId = ''cs_1'', privateStore.ScopeId = ''p_1'', TokenStatus = ''maintaining'',
             StoreSecrets = 0\<rparr>"

definition cred1 :: privateCredential where
  "cred1 = \<lparr>PublicId = ''cred_1'', privateCredential.ScopeId = ''p_1'', ExternalId = ''lease/1'',
            ExpirationTime = 7200000000000, LastRenewalTime = 3600000000000,
            CredentialSecrets = 0\<rparr>"

definition token1 :: Token where
  "token1 = \<lparr>TokenHmac = ''cs_1'', Token.expiration = 0\<rparr>"

definition credential1 :: Credential where
  "credential1 = \<lparr>CredentialId = ''cred_1'', Credential.expiration = 0\<rparr>"

definition job0 :: Job where
  "job0 = \<lparr>limit = 10000, running = False, numTotal = 5, numProcessed = 5\<rparr>"

section \<open>Results about package userpassword\<close>

lemma ExtractFrom_total_or_empty:
  "ExtractFrom fs d u p = ('''', '''') \<or>
   (fst (ExtractFrom fs d u p) \<noteq> '''' \<and> snd (ExtractFrom fs d u p) \<noteq> '''')"
  by (induction fs) (auto split: prod.splits)

text \<open>
  Claim C10. For every input map and every pair of attribute names, \<open>Extract\<close> returns
  either the pair of empty strings or a pair in which both the username and the password
  are non-empty; a partial result is never returned. The second conjunct shows the case the
  claim singles out: the first strategy finds the username only, and the result is still
  the empty pair.
\<close>

theorem Extract_no_partial_result:
  "(Extract d usernameAttr passwordAttr = ('''', '''') \<or>
    (fst (Extract d usernameAttr passwordAttr) \<noteq> '''' \<and>
     snd (Extract d usernameAttr passwordAttr) \<noteq> ''''))
   \<and> defaultUserPass [(''username'', VString ''alice'')] ''username'' ''password'' = (''alice'', '''')
   \<and> Extract [(''username'', VString ''alice'')] ''username'' ''password'' = ('''', '''')"
proof -
  have a: "Extract d usernameAttr passwordAttr = ('''', '''') \<or>
    (fst (Extract d usernameAttr passwordAttr) \<noteq> '''' \<and>
     snd (Extract d usernameAttr passwordAttr) \<noteq> '''')"
    unfolding Extract_def by (rule ExtractFrom_total_or_empty)
  have b: "defaultUserPass [(''username'', VString ''alice'')] ''username'' ''password'' = (''alice'', '''')"
    by (simp add: defaultUserPass_def lookupString_def)
  have c: "Extract [(''username'', VString ''alice'')] ''username'' ''password'' = ('''', '''')"
    by (simp add: Extract_def defaultUserPass_def kv2UserPass_def lookupString_def)
  from a b c show ?thesis by blast
qed

theorem Extract_no_partial_result_witness:
  "Extract [(''data'', VMap [(''user'', VString ''bob''), (''pw'', VString ''s3'')]),
            (''metadata'', VMap [])] ''user'' ''pw'' = (''bob'', ''s3'')
   \<and> Extract [(''user'', VString ''bob''), (''pw'', VOther)] ''user'' ''pw'' = ('''', '''')"
  using Extract_no_partial_result [of "[(''user'', VString ''bob''), (''pw'', VOther)]" "''user''" "''pw''"]
  by (simp add: Extract_def defaultUserPass_def kv2UserPass_def lookupString_def)

section \<open>Results about the loops\<close>

lemmas item_splits = prod.splits sum.splits option.splits if_splits outcome.splits

lemmas item_splits_asm =
  prod.split_asm sum.split_asm option.split_asm if_split_asm outcome.split_asm

lemma started_append: "started (xs @ ys) = started xs + started ys"
  by (simp add: started_def)

lemma started_nonneg: "0 \<le> started xs"
  by (simp add: started_def)

lemma errorLogged_append:
  "errorLogged e (xs @ ys) = (errorLogged e xs \<or> errorLogged e ys)"
  by (simp add: errorLogged_def)

lemma rangeItems_cancelled:
  "cerr w = Some c \<Longrightarrow>
   rangeItems cerr op item entry (s # ps) r w = (Returns (Some (Wrap c op None)), r, w, [])"
  by simp

lemma rangeItems_panics:
  "cerr w = None \<Longrightarrow> item s w = (Panics, s1, w1, evs) \<Longrightarrow>
   rangeItems cerr op item entry (s # ps) r w = (Panics, r, w1, evs)"
  by simp

lemma rangeItems_step:
  assumes "cerr w = None"
    and "item s w = (Returns ierr, s1, w1, evs)"
    and "rangeItems cerr op item entry ps (r\<lparr>numProcessed := numProcessed r + 1\<rparr>) w1 = (res, r2, w2, t')"
  shows "rangeItems cerr op item entry (s # ps) r w =
         (res, r2, w2, evs @ (case ierr of Some err \<Rightarrow> [entry s1 err] | None \<Rightarrow> []) @ t')"
  using assms by simp

lemma rangeItems_Cons_cases:
  obtains
    (cancelled) c where "cerr w = Some c"
  | (panics) s1 w1 evs where "cerr w = None" "item s w = (Panics, s1, w1, evs)"
  | (returns) ierr s1 w1 evs res r2 w2 t' where "cerr w = None"
      "item s w = (Returns ierr, s1, w1, evs)"
      "rangeItems cerr op item entry ps (r\<lparr>numProcessed := numProcessed r + 1\<rparr>) w1 = (res, r2, w2, t')"
proof (cases "cerr w")
  case (Some c)
  then show ?thesis by (rule cancelled)
next
  case None
  obtain io s1 w1 evs where it: "item s w = (io, s1, w1, evs)"
    by (metis prod_cases4)
  show ?thesis
  proof (cases io)
    case Panics
    with None it show ?thesis by (auto intro: panics)
  next
    case (Returns ierr)
    obtain res r2 w2 t' where
      "rangeItems cerr op item entry ps (r\<lparr>numProcessed := numProcessed r + 1\<rparr>) w1 = (res, r2, w2, t')"
      by (metis prod_cases4)
    with None it Returns show ?thesis by (auto intro: returns)
  qed
qed

lemma rangeItems_error:
  "rangeItems cerr op item entry ps r w = (Returns (Some e), r2, w2, t) \<Longrightarrow>
   \<exists>c. cerr w2 = Some c \<and> e = Wrap c op None"
proof (induction ps arbitrary: r w t)
  case Nil
  then show ?case by simp
next
  case (Cons s ps)
  show ?case
  proof (cases rule: rangeItems_Cons_cases
      [where cerr = cerr and w = w and item = item and s = s and op = op and entry = entry
         and ps = ps and r = r])
    case (cancelled c)
    with Cons.prems show ?thesis by simp
  next
    case (panics s1 w1 evs)
    with Cons.prems show ?thesis by simp
  next
    case (returns ierr s1 w1 evs res r' w' t')
    from Cons.prems rangeItems_step [OF returns]
    have "res = Returns (Some e)" "r' = r2" "w' = w2" by simp_all
    with returns(3) show ?thesis by (auto dest: Cons.IH)
  qed
qed


lemma rangeItems_counts:
  assumes item1: "\<And>s w res s1 w1 t. item s w = (res, s1, w1, t) \<Longrightarrow> started t = 1"
    and entry: "\<And>s e. \<not> isGetWrapperCall (entry s e)"
  shows "rangeItems cerr op item entry ps r w = (res, r2, w2, t) \<Longrightarrow>
    numTotal r2 = numTotal r \<and> running r2 = running r \<and> limit r2 = limit r \<and>
    started t \<le> int (length ps) \<and>
    (res \<noteq> Panics \<longrightarrow> numProcessed r2 = numProcessed r + started t) \<and>
    (res = Panics \<longrightarrow> numProcessed r2 = numProcessed r + started t - 1) \<and>
    (res = Returns None \<longrightarrow> started t = int (length ps)) \<and>
    (\<forall>e. res = Returns (Some e) \<longrightarrow> started t < int (length ps))"
proof (induction ps arbitrary: r w res r2 w2 t)
  case Nil
  then show ?case by (auto simp: started_def)
next
  case (Cons s ps)
  show ?case
  proof (cases rule: rangeItems_Cons_cases
      [where cerr = cerr and w = w and item = item and s = s and op = op and entry = entry
         and ps = ps and r = r])
    case (cancelled c)
    with Cons.prems show ?thesis by (auto simp: started_def)
  next
    case (panics s1 w1 evs)
    with Cons.prems have eq: "res = Panics" "r2 = r" "t = evs" by simp_all
    from item1 [OF panics(2)] eq show ?thesis by simp
  next
    case (returns ierr s1 w1 evs res' r' w' t')
    from Cons.prems rangeItems_step [OF returns]
    have eq: "res = res'" "r2 = r'" "w2 = w'"
      "t = evs @ (case ierr of Some err \<Rightarrow> [entry s1 err] | None \<Rightarrow> []) @ t'"
      by simp_all
    have "started (case ierr of Some err \<Rightarrow> [entry s1 err] | None \<Rightarrow> []) = 0"
      using entry by (simp add: started_def split: option.splits)
    with item1 [OF returns(2)] eq(4) have st: "started t = 1 + started t'"
      by (simp add: started_append)
    from Cons.IH [OF returns(3)] st eq show ?thesis by simp
  qed
qed

lemma rangeItems_append:
  "rangeItems cerr op item entry xs r w = (Returns None, r1, w1, t1) \<Longrightarrow>
   rangeItems cerr op item entry ys r1 w1 = (res, r2, w2, t2) \<Longrightarrow>
   rangeItems cerr op item entry (xs @ ys) r w = (res, r2, w2, t1 @ t2)"
proof (induction xs arbitrary: r w t1)
  case Nil
  then show ?case by simp
next
  case (Cons s xs)
  show ?case
  proof (cases rule: rangeItems_Cons_cases
      [where cerr = cerr and w = w and item = item and s = s and op = op and entry = entry
         and ps = xs and r = r])
    case (cancelled c)
    with Cons.prems(1) show ?thesis by simp
  next
    case (panics s1 w' evs)
    with Cons.prems(1) show ?thesis by simp
  next
    case (returns ierr s1 w' evs res' r' w'' t')
    from Cons.prems(1) rangeItems_step [OF returns]
    have eq: "res' = Returns None" "r' = r1" "w'' = w1"
      "t1 = evs @ (case ierr of Some err \<Rightarrow> [entry s1 err] | None \<Rightarrow> []) @ t'"
      by simp_all
    from returns(3) eq have
      "rangeItems cerr op item entry xs (r\<lparr>numProcessed := numProcessed r + 1\<rparr>) w' =
       (Returns None, r1, w1, t')"
      by simp
    from Cons.IH [OF this Cons.prems(2)]
    have "rangeItems cerr op item entry (xs @ ys) (r\<lparr>numProcessed := numProcessed r + 1\<rparr>) w' =
       (res, r2, w2, t' @ t2)" .
    from rangeItems_step [OF returns(1) returns(2) this] eq(4)
    show ?thesis by simp
  qed
qed

lemma rangeItems_inconsistency:
  assumes item2: "\<And>s w res s1 w1 t. item s w = (res, s1, w1, t) \<Longrightarrow>
        ExecCall q (Inr n) \<in> set t \<Longrightarrow> \<exists>msg. res = Returns (Some (New Unknown iop msg))"
    and entry: "\<And>s e. logsError e (entry s e)" "\<And>s e. \<not> isExecCall (entry s e)"
  shows "rangeItems cerr op item entry ps r w = (res, r2, w2, t) \<Longrightarrow>
    ExecCall q (Inr n) \<in> set t \<Longrightarrow> \<exists>msg. errorLogged (New Unknown iop msg) t"
proof (induction ps arbitrary: r w res r2 w2 t)
  case Nil
  then show ?case by simp
next
  case (Cons s ps)
  show ?case
  proof (cases rule: rangeItems_Cons_cases
      [where cerr = cerr and w = w and item = item and s = s and op = op and entry = entry
         and ps = ps and r = r])
    case (cancelled c)
    with Cons.prems show ?thesis by simp
  next
    case (panics s1 w1 evs)
    with Cons.prems have "ExecCall q (Inr n) \<in> set evs" by simp
    from item2 [OF panics(2) this] show ?thesis by simp
  next
    case (returns ierr s1 w1 evs res' r' w' t')
    from Cons.prems(1) rangeItems_step [OF returns]
    have eq: "t = evs @ (case ierr of Some err \<Rightarrow> [entry s1 err] | None \<Rightarrow> []) @ t'"
      by simp
    have "ExecCall q (Inr n) \<noteq> entry s1 e" for e
      using entry(2) [of s1 e] by (metis isExecCall.simps(1))
    then have "ExecCall q (Inr n) \<notin> set (case ierr of Some err \<Rightarrow> [entry s1 err] | None \<Rightarrow> [])"
      by (simp split: option.splits)
    with Cons.prems(2) eq
    have "ExecCall q (Inr n) \<in> set evs \<or> ExecCall q (Inr n) \<in> set t'"
      by auto
    then show ?thesis
    proof
      assume "ExecCall q (Inr n) \<in> set evs"
      from item2 [OF returns(2) this]
      obtain msg where "ierr = Some (New Unknown iop msg)" by auto
      with eq entry(1) have "errorLogged (New Unknown iop msg) t"
        by (simp add: errorLogged_def)
      then show ?thesis by blast
    next
      assume "ExecCall q (Inr n) \<in> set t'"
      from Cons.IH [OF returns(3) this] obtain msg where
        "errorLogged (New Unknown iop msg) t'" by blast
      with eq have "errorLogged (New Unknown iop msg) t"
        by (simp add: errorLogged_append)
      then show ?thesis by blast
    qed
  qed
qed

subsection \<open>The loop of TokenRenewalJob\<close>

lemma TokenRenewalJob_range_eq:
  "TokenRenewalJob_range d ps r w =
   rangeItems (ctx_Err d) ''vault.(TokenRenewalJob).Run'' (returning (renewToken d)) TokenRenewalJob_entry ps r w"
  by (induction ps arbitrary: r w)
     (simp_all add: TokenRenewalJob_entry_def returning_def Let_def split: option.splits prod.splits outcome.splits)

lemma TokenRenewalJob_entry_facts:
  "logsError e (TokenRenewalJob_entry x e)" "\<not> isExecCall (TokenRenewalJob_entry x e)"
  "\<not> isGetWrapperCall (TokenRenewalJob_entry x e)" "isLogError (TokenRenewalJob_entry x e)"
  by (simp_all add: TokenRenewalJob_entry_def)

lemma renewToken_started:
  "renewToken d s w = (res, s1, w1, t) \<Longrightarrow> started t = 1"
  by (auto simp: renewToken_def started_def Let_def split: item_splits_asm)

lemma TokenRenewalJob_item_started:
  "(returning (renewToken d)) s w = (res, s1, w1, t) \<Longrightarrow> started t = 1"
  by (auto simp: returning_def dest: renewToken_started split: prod.split_asm)

lemma renewToken_inconsistency:
  "renewToken d s w = (res, s1, w1, t) \<Longrightarrow> ExecCall q (Inr n) \<in> set t \<Longrightarrow> n \<noteq> 1 \<Longrightarrow>
   \<exists>msg. res = Some (New Unknown ''vault.(TokenRenewalJob).renewToken'' msg)"
  by (auto simp: renewToken_def Let_def split: item_splits_asm)

lemma TokenRenewalJob_item_inconsistency:
  "(returning (renewToken d)) s w = (res, s1, w1, t) \<Longrightarrow> ExecCall q (Inr n) \<in> set t \<Longrightarrow> n \<noteq> 1 \<Longrightarrow>
   \<exists>msg. res = Returns (Some (New Unknown ''vault.(TokenRenewalJob).renewToken'' msg))"
  by (auto simp: returning_def dest: renewToken_inconsistency split: prod.split_asm)

lemma TokenRenewalJob_range_cancelled:
  "ctx_Err d w = Some c \<Longrightarrow>
   TokenRenewalJob_range d (s # ps) r w = (Returns (Some (Wrap c ''vault.(TokenRenewalJob).Run'' None)), r, w, [])"
  by simp

lemma TokenRenewalJob_range_error:
  "TokenRenewalJob_range d ps r w = (Returns (Some e), r2, w2, t) \<Longrightarrow>
   \<exists>c. ctx_Err d w2 = Some c \<and> e = Wrap c ''vault.(TokenRenewalJob).Run'' None"
  unfolding TokenRenewalJob_range_eq by (rule rangeItems_error)

lemma TokenRenewalJob_range_counts:
  "TokenRenewalJob_range d ps r w = (res, r2, w2, t) \<Longrightarrow>
    numTotal r2 = numTotal r \<and> running r2 = running r \<and> limit r2 = limit r \<and>
    started t \<le> int (length ps) \<and>
    (res \<noteq> Panics \<longrightarrow> numProcessed r2 = numProcessed r + started t) \<and>
    (res = Panics \<longrightarrow> numProcessed r2 = numProcessed r + started t - 1) \<and>
    (res = Returns None \<longrightarrow> started t = int (length ps)) \<and>
    (\<forall>e. res = Returns (Some e) \<longrightarrow> started t < int (length ps))"
  unfolding TokenRenewalJob_range_eq
  by (rule rangeItems_counts [where item = "returning (renewToken d)" and entry = TokenRenewalJob_entry])
     (auto simp: TokenRenewalJob_entry_facts dest: TokenRenewalJob_item_started)

lemma TokenRenewalJob_range_append:
  "TokenRenewalJob_range d xs r w = (Returns None, r1, w1, t1) \<Longrightarrow>
   TokenRenewalJob_range d ys r1 w1 = (res, r2, w2, t2) \<Longrightarrow>
   TokenRenewalJob_range d (xs @ ys) r w = (res, r2, w2, t1 @ t2)"
  unfolding TokenRenewalJob_range_eq by (rule rangeItems_append)

lemma TokenRenewalJob_range_inconsistency:
  "TokenRenewalJob_range d ps r w = (res, r2, w2, t) \<Longrightarrow> ExecCall q (Inr n) \<in> set t \<Longrightarrow> n \<noteq> 1 \<Longrightarrow>
   \<exists>msg. errorLogged (New Unknown ''vault.(TokenRenewalJob).renewToken'' msg) t"
  unfolding TokenRenewalJob_range_eq
  by (rule rangeItems_inconsistency
        [where item = "returning (renewToken d)" and entry = TokenRenewalJob_entry and q = q and n = n])
     (auto simp: TokenRenewalJob_entry_facts dest: TokenRenewalJob_item_inconsistency)



subsection \<open>The loop of TokenRevocationJob\<close>

lemma TokenRevocationJob_range_eq:
  "TokenRevocationJob_range d ps r w =
   rangeItems (ctx_Err d) ''vault.(TokenRevocationJob).Run'' (returning (revokeToken d)) TokenRevocationJob_entry ps r w"
  by (induction ps arbitrary: r w)
     (simp_all add: TokenRevocationJob_entry_def returning_def Let_def split: option.splits prod.splits outcome.splits)

lemma TokenRevocationJob_entry_facts:
  "logsError e (TokenRevocationJob_entry x e)" "\<not> isExecCall (TokenRevocationJob_entry x e)"
  "\<not> isGetWrapperCall (TokenRevocationJob_entry x e)" "isLogError (TokenRevocationJob_entry x e)"
  by (simp_all add: TokenRevocationJob_entry_def)

lemma revokeToken_started:
  "revokeToken d s w = (res, s1, w1, t) \<Longrightarrow> started t = 1"
  by (auto simp: revokeToken_def started_def Let_def split: item_splits_asm)

lemma TokenRevocationJob_item_started:
  "(returning (revokeToken d)) s w = (res, s1, w1, t) \<Longrightarrow> started t = 1"
  by (auto simp: returning_def dest: revokeToken_started split: prod.split_asm)

lemma revokeToken_inconsistency:
  "revokeToken d s w = (res, s1, w1, t) \<Longrightarrow> ExecCall q (Inr n) \<in> set t \<Longrightarrow> n \<noteq> 1 \<Longrightarrow>
   \<exists>msg. res = Some (New Unknown ''vault.(TokenRevocationJob).revokeToken'' msg)"
  by (auto simp: revokeToken_def Let_def split: item_splits_asm)

lemma TokenRevocationJob_item_inconsistency:
  "(returning (revokeToken d)) s w = (res, s1, w1, t) \<Longrightarrow> ExecCall q (Inr n) \<in> set t \<Longrightarrow> n \<noteq> 1 \<Longrightarrow>
   \<exists>msg. res = Returns (Some (New Unknown ''vault.(TokenRevocationJob).revokeToken'' msg))"
  by (auto simp: returning_def dest: revokeToken_inconsistency split: prod.split_asm)

lemma TokenRevocationJob_range_cancelled:
  "ctx_Err d w = Some c \<Longrightarrow>
   TokenRevocationJob_range d (s # ps) r w = (Returns (Some (Wrap c ''vault.(TokenRevocationJob).Run'' None)), r, w, [])"
  by simp

lemma TokenRevocationJob_range_error:
  "TokenRevocationJob_range d ps r w = (Returns (Some e), r2, w2, t) \<Longrightarrow>
   \<exists>c. ctx_Err d w2 = Some c \<and> e = Wrap c ''vault.(TokenRevocationJob).Run'' None"
  unfolding TokenRevocationJob_range_eq by (rule rangeItems_error)

lemma TokenRevocationJob_range_counts:
  "TokenRevocationJob_range d ps r w = (res, r2, w2, t) \<Longrightarrow>
    numTotal r2 = numTotal r \<and> running r2 = running r \<and> limit r2 = limit r \<and>
    started t \<le> int (length ps) \<and>
    (res \<noteq> Panics \<longrightarrow> numProcessed r2 = numProcessed r + started t) \<and>
    (res = Panics \<longrightarrow> numProcessed r2 = numProcessed r + started t - 1) \<and>
    (res = Returns None \<longrightarrow> started t = int (length ps)) \<and>
    (\<forall>e. res = Returns (Some e) \<longrightarrow> started t < int (length ps))"
  unfolding TokenRevocationJob_range_eq
  by (rule rangeItems_counts [where item = "returning (revokeToken d)" and entry = TokenRevocationJob_entry])
     (auto simp: TokenRevocationJob_entry_facts dest: TokenRevocationJob_item_started)

lemma TokenRevocationJob_range_append:
  "TokenRevocationJob_range d xs r w = (Returns None, r1, w1, t1) \<Longrightarrow>
   TokenRevocationJob_range d ys r1 w1 = (res, r2, w2, t2) \<Longrightarrow>
   TokenRevocationJob_range d (xs @ ys) r w = (res, r2, w2, t1 @ t2)"
  unfolding TokenRevocationJob_range_eq by (rule rangeItems_append)

lemma TokenRevocationJob_range_inconsistency:
  "TokenRevocationJob_range d ps r w = (res, r2, w2, t) \<Longrightarrow> ExecCall q (Inr n) \<in> set t \<Longrightarrow> n \<noteq> 1 \<Longrightarrow>
   \<exists>msg. errorLogged (New Unknown ''vault.(TokenRevocationJob).revokeToken'' msg) t"
  unfolding TokenRevocationJob_range_eq
  by (rule rangeItems_inconsistency
        [where item = "returning (revokeToken d)" and entry = TokenRevocationJob_entry and q = q and n = n])
     (auto simp: TokenRevocationJob_entry_facts dest: TokenRevocationJob_item_inconsistency)



subsection \<open>The loop of CredentialRenewalJob\<close>

lemma CredentialRenewalJob_range_eq:
  "CredentialRenewalJob_range d creds r w =
   rangeItems (ctx_Err d) ''vault.(CredentialRenewalJob).Run'' (renewCred d) CredentialRenewalJob_entry creds r w"
  by (induction creds arbitrary: r w)
     (simp_all add: CredentialRenewalJob_entry_def returning_def Let_def split: option.splits prod.splits outcome.splits)

lemma CredentialRenewalJob_entry_facts:
  "logsError e (CredentialRenewalJob_entry x e)" "\<not> isExecCall (CredentialRenewalJob_entry x e)"
  "\<not> isGetWrapperCall (CredentialRenewalJob_entry x e)" "isLogError (CredentialRenewalJob_entry x e)"
  by (simp_all add: CredentialRenewalJob_entry_def)

lemma renewCred_started:
  "renewCred d cr w = (res, cr1, w1, t) \<Longrightarrow> started t = 1"
  by (auto simp: renewCred_def started_def Let_def split: item_splits_asm)

lemma CredentialRenewalJob_item_started:
  "(renewCred d) cr w = (res, cr1, w1, t) \<Longrightarrow> started t = 1"
  by (auto simp: returning_def dest: renewCred_started split: prod.split_asm)

lemma renewCred_inconsistency:
  "renewCred d cr w = (res, cr1, w1, t) \<Longrightarrow> ExecCall q (Inr n) \<in> set t \<Longrightarrow> n \<noteq> 1 \<Longrightarrow>
   \<exists>msg. res = Returns (Some (New Unknown ''vault.(CredentialRenewalJob).renewCred'' msg))"
  by (auto simp: renewCred_def Let_def split: item_splits_asm)

lemma CredentialRenewalJob_item_inconsistency:
  "(renewCred d) cr w = (res, cr1, w1, t) \<Longrightarrow> ExecCall q (Inr n) \<in> set t \<Longrightarrow> n \<noteq> 1 \<Longrightarrow>
   \<exists>msg. res = Returns (Some (New Unknown ''vault.(CredentialRenewalJob).renewCred'' msg))"
  by (auto simp: returning_def dest: renewCred_inconsistency split: prod.split_asm)

lemma CredentialRenewalJob_range_cancelled:
  "ctx_Err d w = Some c \<Longrightarrow>
   CredentialRenewalJob_range d (cr # creds) r w = (Returns (Some (Wrap c ''vault.(CredentialRenewalJob).Run'' None)), r, w, [])"
  by simp

lemma CredentialRenewalJob_range_error:
  "CredentialRenewalJob_range d creds r w = (Returns (Some e), r2, w2, t) \<Longrightarrow>
   \<exists>c. ctx_Err d w2 = Some c \<and> e = Wrap c ''vault.(CredentialRenewalJob).Run'' None"
  unfolding CredentialRenewalJob_range_eq by (rule rangeItems_error)

lemma CredentialRenewalJob_range_counts:
  "CredentialRenewalJob_range d creds r w = (res, r2, w2, t) \<Longrightarrow>
    numTotal r2 = numTotal r \<and> running r2 = running r \<and> limit r2 = limit r \<and>
    started t \<le> int (length creds) \<and>
    (res \<noteq> Panics \<longrightarrow> numProcessed r2 = numProcessed r + started t) \<and>
    (res = Panics \<longrightarrow> numProcessed r2 = numProcessed r + started t - 1) \<and>
    (res = Returns None \<longrightarrow> started t = int (length creds)) \<and>
    (\<forall>e. res = Returns (Some e) \<longrightarrow> started t < int (length creds))"
  unfolding CredentialRenewalJob_range_eq
  by (rule rangeItems_counts [where item = "renewCred d" and entry = CredentialRenewalJob_entry])
     (auto simp: CredentialRenewalJob_entry_facts dest: CredentialRenewalJob_item_started)

lemma CredentialRenewalJob_range_append:
  "CredentialRenewalJob_range d xs r w = (Returns None, r1, w1, t1) \<Longrightarrow>
   CredentialRenewalJob_range d ys r1 w1 = (res, r2, w2, t2) \<Longrightarrow>
   CredentialRenewalJob_range d (xs @ ys) r w = (res, r2, w2, t1 @ t2)"
  unfolding CredentialRenewalJob_range_eq by (rule rangeItems_append)

lemma CredentialRenewalJob_range_inconsistency:
  "CredentialRenewalJob_range d creds r w = (res, r2, w2, t) \<Longrightarrow> ExecCall q (Inr n) \<in> set t \<Longrightarrow> n \<noteq> 1 \<Longrightarrow>
   \<exists>msg. errorLogged (New Unknown ''vault.(CredentialRenewalJob).renewCred'' msg) t"
  unfolding CredentialRenewalJob_range_eq
  by (rule rangeItems_inconsistency
        [where item = "renewCred d" and entry = CredentialRenewalJob_entry and q = q and n = n])
     (auto simp: CredentialRenewalJob_entry_facts dest: CredentialRenewalJob_item_inconsistency)


lemma renewCred_panics:
  "renewCred d cr w = (Panics, cr1, w1, t) \<Longrightarrow>
   \<exists>vc lid dur w'. vc_renewLease d vc lid dur w' = (Inr None, w1) \<and>
     t = [GetWrapperCall (privateCredential.ScopeId cr), VaultCall (RenewLease lid dur) None]"
  by (auto simp: renewCred_def errOf_def Let_def split: item_splits_asm)


subsection \<open>The loop of CredentialRevocationJob\<close>

lemma CredentialRevocationJob_range_eq:
  "CredentialRevocationJob_range d creds r w =
   rangeItems (ctx_Err d) ''vault.(CredentialRevocationJob).Run'' (returning (revokeCred d)) CredentialRevocationJob_entry creds r w"
  by (induction creds arbitrary: r w)
     (simp_all add: CredentialRevocationJob_entry_def returning_def Let_def split: option.splits prod.splits outcome.splits)

lemma CredentialRevocationJob_entry_facts:
  "logsError e (CredentialRevocationJob_entry x e)" "\<not> isExecCall (CredentialRevocationJob_entry x e)"
  "\<not> isGetWrapperCall (CredentialRevocationJob_entry x e)" "isLogError (CredentialRevocationJob_entry x e)"
  by (simp_all add: CredentialRevocationJob_entry_def)

lemma revokeCred_started:
  "revokeCred d cr w = (res, cr1, w1, t) \<Longrightarrow> started t = 1"
  by (auto simp: revokeCred_def started_def Let_def split: item_splits_asm)

lemma CredentialRevocationJob_item_started:
  "(returning (revokeCred d)) cr w = (res, cr1, w1, t) \<Longrightarrow> started t = 1"
  by (auto simp: returning_def dest: revokeCred_started split: prod.split_asm)

lemma revokeCred_inconsistency:
  "revokeCred d cr w = (res, cr1, w1, t) \<Longrightarrow> ExecCall q (Inr n) \<in> set t \<Longrightarrow> n \<noteq> 1 \<Longrightarrow>
   \<exists>msg. res = Some (New Unknown ''vault.(CredentialRenewalJob).revokeCred'' msg)"
  by (auto simp: revokeCred_def Let_def split: item_splits_asm)

lemma CredentialRevocationJob_item_inconsistency:
  "(returning (revokeCred d)) cr w = (res, cr1, w1, t) \<Longrightarrow> ExecCall q (Inr n) \<in> set t \<Longrightarrow> n \<noteq> 1 \<Longrightarrow>
   \<exists>msg. res = Returns (Some (New Unknown ''vault.(CredentialRenewalJob).revokeCred'' msg))"
  by (auto simp: returning_def dest: revokeCred_inconsistency split: prod.split_asm)

lemma CredentialRevocationJob_range_cancelled:
  "ctx_Err d w = Some c \<Longrightarrow>
   CredentialRevocationJob_range d (cr # creds) r w = (Returns (Some (Wrap c ''vault.(CredentialRevocationJob).Run'' None)), r, w, [])"
  by simp

lemma CredentialRevocationJob_range_error:
  "CredentialRevocationJob_range d creds r w = (Returns (Some e), r2, w2, t) \<Longrightarrow>
   \<exists>c. ctx_Err d w2 = Some c \<and> e = Wrap c ''vault.(CredentialRevocationJob).Run'' None"
  unfolding CredentialRevocationJob_range_eq by (rule rangeItems_error)

lemma CredentialRevocationJob_range_counts:
  "CredentialRevocationJob_range d creds r w = (res, r2, w2, t) \<Longrightarrow>
    numTotal r2 = numTotal r \<and> running r2 = running r \<and> limit r2 = limit r \<and>
    started t \<le> int (length creds) \<and>
    (res \<noteq> Panics \<longrightarrow> numProcessed r2 = numProcessed r + started t) \<and>
    (res = Panics \<longrightarrow> numProcessed r2 = numProcessed r + started t - 1) \<and>
    (res = Returns None \<longrightarrow> started t = int (length creds)) \<and>
    (\<forall>e. res = Returns (Some e) \<longrightarrow> started t < int (length creds))"
  unfolding CredentialRevocationJob_range_eq
  by (rule rangeItems_counts [where item = "returning (revokeCred d)" and entry = CredentialRevocationJob_entry])
     (auto simp: CredentialRevocationJob_entry_facts dest: CredentialRevocationJob_item_started)

lemma CredentialRevocationJob_range_append:
  "CredentialRevocationJob_range d xs r w = (Returns None, r1, w1, t1) \<Longrightarrow>
   CredentialRevocationJob_range d ys r1 w1 = (res, r2, w2, t2) \<Longrightarrow>
   CredentialRevocationJob_range d (xs @ ys) r w = (res, r2, w2, t1 @ t2)"
  unfolding CredentialRevocationJob_range_eq by (rule rangeItems_append)

lemma CredentialRevocationJob_range_inconsistency:
  "CredentialRevocationJob_range d creds r w = (res, r2, w2, t) \<Longrightarrow> ExecCall q (Inr n) \<in> set t \<Longrightarrow> n \<noteq> 1 \<Longrightarrow>
   \<exists>msg. errorLogged (New Unknown ''vault.(CredentialRenewalJob).revokeCred'' msg) t"
  unfolding CredentialRevocationJob_range_eq
  by (rule rangeItems_inconsistency
        [where item = "returning (revokeCred d)" and entry = CredentialRevocationJob_entry and q = q and n = n])
     (auto simp: CredentialRevocationJob_entry_facts dest: CredentialRevocationJob_item_inconsistency)



section \<open>Results about \<open>Run\<close>\<close>

lemma sized_Inr:
  "sized x = (Inr n, w1) \<longleftrightarrow> (\<exists>ps. x = (Inr ps, w1) \<and> n = int (length ps))"
  by (auto simp: sized_def split: prod.splits sum.splits)

lemma sized_Inl:
  "fst (sized x) = Inl se \<longleftrightarrow> fst x = Inl se"
  by (auto simp: sized_def split: prod.splits sum.splits)


lemma started_Cons_SearchWhereCall [simp]:
  "started (SearchWhereCall a b c # t) = started t"
  by (simp add: started_def)

lemma errorLogged_Cons_SearchWhereCall [simp]:
  "errorLogged e (SearchWhereCall a b c # t) = errorLogged e t"
  by (simp add: errorLogged_def)

subsection \<open>\<open>Run\<close> of TokenRenewalJob\<close>

lemma TokenRenewalJob_Run_rejected:
  "interleaved d (running r) \<noteq> running r \<Longrightarrow>
   TokenRenewalJob_Run d r w =
     (Returns (Some (New JobAlreadyRunning ''vault.(TokenRenewalJob).Run'' ''job already running'')),
      r\<lparr>running := interleaved d (running r)\<rparr>, w, [])"
  by (simp add: TokenRenewalJob_Run_def CAS_def Load_def)

lemma TokenRenewalJob_Run_admitted:
  "interleaved d (running r) = running r \<Longrightarrow>
   TokenRenewalJob_Run d r w =
     (case TokenRenewalJob_Run_deferred d (r\<lparr>running := True\<rparr>) w of
        (res, r1, w1, evs) \<Rightarrow> (res, r1\<lparr>running := False\<rparr>, w1, evs))"
  by (simp add: TokenRenewalJob_Run_def CAS_def Load_def Store_def split: prod.splits)

lemma TokenRenewalJob_Run_deferred_cancelled:
  "ctx_Err d w = Some c \<Longrightarrow>
   TokenRenewalJob_Run_deferred d r w = (Returns (Some (Wrap c ''vault.(TokenRenewalJob).Run'' None)), r, w, [])"
  by (simp add: TokenRenewalJob_Run_deferred_def)

lemma TokenRenewalJob_Run_deferred_failed:
  "ctx_Err d w = None \<Longrightarrow>
   SearchWhere_stores d TokenRenewalJob_whereClause TokenRenewalJob_whereArgs (limit r) w = (Inl se, w1) \<Longrightarrow>
   TokenRenewalJob_Run_deferred d r w =
     (Returns (Some (Wrap se ''vault.(TokenRenewalJob).Run'' None)), r, w1,
      [SearchWhereCall TokenRenewalJob_whereClause TokenRenewalJob_whereArgs (limit r)])"
  by (simp add: TokenRenewalJob_Run_deferred_def)

lemma TokenRenewalJob_Run_deferred_selected:
  "ctx_Err d w = None \<Longrightarrow>
   SearchWhere_stores d TokenRenewalJob_whereClause TokenRenewalJob_whereArgs (limit r) w = (Inr ps, w1) \<Longrightarrow>
   TokenRenewalJob_Run_deferred d r w =
     (case TokenRenewalJob_range d ps (r\<lparr>numProcessed := 0, numTotal := int (length ps)\<rparr>) w1 of
        (res, r2, w2, evs) \<Rightarrow>
          (res, r2, w2, SearchWhereCall TokenRenewalJob_whereClause TokenRenewalJob_whereArgs (limit r) # evs))"
  by (simp add: TokenRenewalJob_Run_deferred_def)

lemma TokenRenewalJob_Run_cancelled:
  "interleaved d (running r) = running r \<Longrightarrow> ctx_Err d w = Some c \<Longrightarrow>
   TokenRenewalJob_Run d r w =
     (Returns (Some (Wrap c ''vault.(TokenRenewalJob).Run'' None)), r\<lparr>running := False\<rparr>, w, [])"
  by (simp add: TokenRenewalJob_Run_admitted TokenRenewalJob_Run_deferred_cancelled)

lemma TokenRenewalJob_Run_failed:
  "interleaved d (running r) = running r \<Longrightarrow> ctx_Err d w = None \<Longrightarrow>
   SearchWhere_stores d TokenRenewalJob_whereClause TokenRenewalJob_whereArgs (limit r) w = (Inl se, w1) \<Longrightarrow>
   TokenRenewalJob_Run d r w =
     (Returns (Some (Wrap se ''vault.(TokenRenewalJob).Run'' None)), r\<lparr>running := False\<rparr>, w1,
      [SearchWhereCall TokenRenewalJob_whereClause TokenRenewalJob_whereArgs (limit r)])"
  by (simp add: TokenRenewalJob_Run_admitted TokenRenewalJob_Run_deferred_failed)

lemma TokenRenewalJob_Run_selected:
  assumes "interleaved d (running r) = running r" and "ctx_Err d w = None"
    and "SearchWhere_stores d TokenRenewalJob_whereClause TokenRenewalJob_whereArgs (limit r) w = (Inr ps, w1)"
    and "TokenRenewalJob_range d ps (r\<lparr>running := True, numProcessed := 0, numTotal := int (length ps)\<rparr>) w1 =
         (res, r2, w2, t)"
  shows "TokenRenewalJob_Run d r w =
     (res, r2\<lparr>running := False\<rparr>, w2,
      SearchWhereCall TokenRenewalJob_whereClause TokenRenewalJob_whereArgs (limit r) # t)"
  using assms by (simp add: TokenRenewalJob_Run_admitted TokenRenewalJob_Run_deferred_selected)

lemma TokenRenewalJob_Run_cases:
  obtains
    (rejected) "interleaved d (running r) \<noteq> running r"
  | (cancelled) c where "interleaved d (running r) = running r" "ctx_Err d w = Some c"
  | (failed) se w1 where "interleaved d (running r) = running r" "ctx_Err d w = None"
      "SearchWhere_stores d TokenRenewalJob_whereClause TokenRenewalJob_whereArgs (limit r) w = (Inl se, w1)"
  | (selected) ps w1 res r2 w2 t where "interleaved d (running r) = running r" "ctx_Err d w = None"
      "SearchWhere_stores d TokenRenewalJob_whereClause TokenRenewalJob_whereArgs (limit r) w = (Inr ps, w1)"
      "TokenRenewalJob_range d ps (r\<lparr>running := True, numProcessed := 0, numTotal := int (length ps)\<rparr>) w1 =
       (res, r2, w2, t)"
proof (cases "interleaved d (running r) = running r")
  case False
  then show ?thesis by (rule rejected)
next
  case adm: True
  show ?thesis
  proof (cases "ctx_Err d w")
    case (Some c)
    with adm show ?thesis by (rule cancelled)
  next
    case None
    obtain sr w1 where sel:
      "SearchWhere_stores d TokenRenewalJob_whereClause TokenRenewalJob_whereArgs (limit r) w = (sr, w1)"
      by (metis surj_pair)
    show ?thesis
    proof (cases sr)
      case (Inl se)
      with adm None sel show ?thesis by (auto intro: failed)
    next
      case (Inr ps)
      obtain res r2 w2 t where
        "TokenRenewalJob_range d ps (r\<lparr>running := True, numProcessed := 0, numTotal := int (length ps)\<rparr>) w1 =
         (res, r2, w2, t)"
        by (metis prod_cases4)
      with adm None sel Inr show ?thesis by (auto intro: selected)
    qed
  qed
qed

lemma TokenRenewalJob_Run_rejects_iff:
  "fst (TokenRenewalJob_Run d r w) =
     Returns (Some (New JobAlreadyRunning ''vault.(TokenRenewalJob).Run'' ''job already running'')) \<longleftrightarrow>
   interleaved d (running r) \<noteq> running r"
proof (cases rule: TokenRenewalJob_Run_cases [where d = d and r = r and w = w])
  case rejected
  then show ?thesis by (simp add: TokenRenewalJob_Run_rejected)
next
  case (cancelled c)
  then show ?thesis by (simp add: TokenRenewalJob_Run_cancelled)
next
  case (failed se w1)
  then show ?thesis by (simp add: TokenRenewalJob_Run_failed)
next
  case (selected ps w1 res r2 w2 t)
  have "res \<noteq> Returns (Some (New JobAlreadyRunning ''vault.(TokenRenewalJob).Run'' ''job already running''))"
  proof
    assume "res = Returns (Some (New JobAlreadyRunning ''vault.(TokenRenewalJob).Run'' ''job already running''))"
    with selected(4) have
      "TokenRenewalJob_range d ps (r\<lparr>running := True, numProcessed := 0, numTotal := int (length ps)\<rparr>) w1 =
       (Returns (Some (New JobAlreadyRunning ''vault.(TokenRenewalJob).Run'' ''job already running'')), r2, w2, t)"
      by simp
    from TokenRenewalJob_range_error [OF this] show False by simp
  qed
  with TokenRenewalJob_Run_selected [OF selected] selected(1) show ?thesis by simp
qed

lemma TokenRenewalJob_Run_flag:
  "running (fst (snd (TokenRenewalJob_Run d r w))) =
   (if interleaved d (running r) = running r then False else interleaved d (running r))"
proof (cases rule: TokenRenewalJob_Run_cases [where d = d and r = r and w = w])
  case rejected
  then show ?thesis by (simp add: TokenRenewalJob_Run_rejected)
next
  case (cancelled c)
  then show ?thesis by (simp add: TokenRenewalJob_Run_cancelled)
next
  case (failed se w1)
  then show ?thesis by (simp add: TokenRenewalJob_Run_failed)
next
  case (selected ps w1 res r2 w2 t)
  with TokenRenewalJob_Run_selected [OF selected] show ?thesis by simp
qed


lemma TokenRenewalJob_Run_counters:
  assumes "interleaved d (running r) = running r" and "ctx_Err d w = None"
    and "SearchWhere_stores d TokenRenewalJob_whereClause TokenRenewalJob_whereArgs (limit r) w = (Inr ps, w1)"
    and "TokenRenewalJob_Run d r w = (res, r2, w2, t)"
  shows "numTotal r2 = int (length ps) \<and> running r2 = False \<and> limit r2 = limit r \<and>
    started t \<le> int (length ps) \<and>
    (res \<noteq> Panics \<longrightarrow> numProcessed r2 = started t) \<and>
    (res = Panics \<longrightarrow> numProcessed r2 = started t - 1) \<and>
    (res = Returns None \<longrightarrow> started t = int (length ps)) \<and>
    (\<forall>e. res = Returns (Some e) \<longrightarrow> started t < int (length ps)) \<and>
    (\<forall>c. ctx_Err d w1 = Some c \<longrightarrow> started t = 0 \<and> numProcessed r2 = 0)"
proof -
  obtain res' r' w' t' where rng:
    "TokenRenewalJob_range d ps (r\<lparr>running := True, numProcessed := 0, numTotal := int (length ps)\<rparr>) w1 =
     (res', r', w', t')"
    by (metis prod_cases4)
  from assms(4) TokenRenewalJob_Run_selected [OF assms(1-3) rng]
  have eq: "res = res'" "r2 = r'\<lparr>running := False\<rparr>"
    "t = SearchWhereCall TokenRenewalJob_whereClause TokenRenewalJob_whereArgs (limit r) # t'"
    by simp_all
  have cancel: "started t = 0 \<and> numProcessed r2 = 0" if "ctx_Err d w1 = Some c" for c
  proof -
    have "t' = [] \<and> numProcessed r' = 0"
    proof (cases ps)
      case Nil
      with rng show ?thesis by auto
    next
      case (Cons x xs)
      have "TokenRenewalJob_range d (x # xs) R w1 =
          (Returns (Some (Wrap c ''vault.(TokenRenewalJob).Run'' None)), R, w1, [])" for R
        by (rule TokenRenewalJob_range_cancelled [OF that])
      with rng Cons show ?thesis by auto
    qed
    with eq show ?thesis by (simp add: started_def)
  qed
  from TokenRenewalJob_range_counts [OF rng] eq cancel show ?thesis by simp
qed

lemma TokenRenewalJob_Run_unchanged:
  assumes "interleaved d (running r) \<noteq> running r \<or> ctx_Err d w \<noteq> None \<or>
      (\<exists>se. fst (SearchWhere_stores d TokenRenewalJob_whereClause TokenRenewalJob_whereArgs (limit r) w) = Inl se)"
  shows "Status (fst (snd (TokenRenewalJob_Run d r w))) = Status r \<and> started (snd (snd (snd (TokenRenewalJob_Run d r w)))) = 0"
proof (cases rule: TokenRenewalJob_Run_cases [where d = d and r = r and w = w])
  case rejected
  then show ?thesis by (simp add: TokenRenewalJob_Run_rejected Status_def started_def)
next
  case (cancelled c)
  then show ?thesis by (simp add: TokenRenewalJob_Run_cancelled Status_def started_def)
next
  case (failed se w1)
  then show ?thesis by (simp add: TokenRenewalJob_Run_failed Status_def started_def)
next
  case (selected ps w1 res r2 w2 t)
  with assms show ?thesis by simp
qed

lemma TokenRenewalJob_Run_inconsistency:
  assumes "TokenRenewalJob_Run d r w = (res, r2, w2, t)" and "ExecCall q (Inr n) \<in> set t" and "n \<noteq> 1"
  shows "(\<exists>msg. errorLogged (New Unknown ''vault.(TokenRenewalJob).renewToken'' msg) t) \<and>
    (res = Returns None \<or> res = Panics \<or>
     (\<exists>c. ctx_Err d w2 = Some c \<and> res = Returns (Some (Wrap c ''vault.(TokenRenewalJob).Run'' None))))"
proof (cases rule: TokenRenewalJob_Run_cases [where d = d and r = r and w = w])
  case rejected
  with assms show ?thesis by (simp add: TokenRenewalJob_Run_rejected)
next
  case (cancelled c)
  with assms show ?thesis by (auto simp: TokenRenewalJob_Run_cancelled)
next
  case (failed se w1)
  with assms show ?thesis by (auto simp: TokenRenewalJob_Run_failed)
next
  case (selected ps w1 res' r' w' t')
  from assms(1) TokenRenewalJob_Run_selected [OF selected]
  have eq: "res = res'" "w2 = w'" "t = SearchWhereCall TokenRenewalJob_whereClause TokenRenewalJob_whereArgs (limit r) # t'"
    by simp_all
  with assms(2) have "ExecCall q (Inr n) \<in> set t'" by simp
  from TokenRenewalJob_range_inconsistency [OF selected(4) this assms(3)] eq(3)
  have 1: "\<exists>msg. errorLogged (New Unknown ''vault.(TokenRenewalJob).renewToken'' msg) t" by simp
  have 2: "res = Returns None \<or> res = Panics \<or>
     (\<exists>c. ctx_Err d w2 = Some c \<and> res = Returns (Some (Wrap c ''vault.(TokenRenewalJob).Run'' None)))"
  proof (cases res)
    case Panics
    then show ?thesis by simp
  next
    case (Returns eo)
    show ?thesis
    proof (cases eo)
      case None
      with Returns show ?thesis by simp
    next
      case (Some e)
      with Returns selected(4) eq(1) have
        "TokenRenewalJob_range d ps (r\<lparr>running := True, numProcessed := 0, numTotal := int (length ps)\<rparr>) w1 =
         (Returns (Some e), r', w', t')"
        by simp
      from TokenRenewalJob_range_error [OF this] Some Returns eq(2) show ?thesis by simp
    qed
  qed
  from 1 2 show ?thesis by simp
qed

lemma TokenRenewalJob_Run_split:
  assumes "interleaved d (running r) = running r" and "ctx_Err d w = None"
    and "SearchWhere_stores d TokenRenewalJob_whereClause TokenRenewalJob_whereArgs (limit r) w = (Inr (pre @ post), w1)"
    and "TokenRenewalJob_range d pre
           (r\<lparr>running := True, numProcessed := 0, numTotal := int (length (pre @ post))\<rparr>) w1 =
         (Returns None, rk, wk, tk)"
    and "TokenRenewalJob_range d post rk wk = (res, rn, wn, tn)"
  shows "TokenRenewalJob_Run d r w =
     (res, rn\<lparr>running := False\<rparr>, wn,
      SearchWhereCall TokenRenewalJob_whereClause TokenRenewalJob_whereArgs (limit r) # tk @ tn)"
  by (rule TokenRenewalJob_Run_selected [OF assms(1-3) TokenRenewalJob_range_append [OF assms(4) assms(5)]])

lemma TokenRenewalJob_range_prefix:
  assumes "TokenRenewalJob_range d pre (r\<lparr>running := True, numProcessed := 0, numTotal := n\<rparr>) w1 =
         (Returns None, rk, wk, tk)"
  shows "Status rk = \<lparr>Completed = int (length pre), Total = n\<rparr> \<and> started tk = int (length pre)"
  using TokenRenewalJob_range_counts [OF assms] by (simp add: Status_def)


subsection \<open>\<open>Run\<close> of TokenRevocationJob\<close>

lemma TokenRevocationJob_Run_rejected:
  "interleaved d (running r) \<noteq> running r \<Longrightarrow>
   TokenRevocationJob_Run d r w =
     (Returns (Some (New JobAlreadyRunning ''vault.(TokenRevocationJob).Run'' ''job already running'')),
      r\<lparr>running := interleaved d (running r)\<rparr>, w, [])"
  by (simp add: TokenRevocationJob_Run_def CAS_def Load_def)

lemma TokenRevocationJob_Run_admitted:
  "interleaved d (running r) = running r \<Longrightarrow>
   TokenRevocationJob_Run d r w =
     (case TokenRevocationJob_Run_deferred d (r\<lparr>running := True\<rparr>) w of
        (res, r1, w1, evs) \<Rightarrow> (res, r1\<lparr>running := False\<rparr>, w1, evs))"
  by (simp add: TokenRevocationJob_Run_def CAS_def Load_def Store_def split: prod.splits)

lemma TokenRevocationJob_Run_deferred_cancelled:
  "ctx_Err d w = Some c \<Longrightarrow>
   TokenRevocationJob_Run_deferred d r w = (Returns (Some (Wrap c ''vault.(TokenRevocationJob).Run'' None)), r, w, [])"
  by (simp add: TokenRevocationJob_Run_deferred_def)

lemma TokenRevocationJob_Run_deferred_failed:
  "ctx_Err d w = None \<Longrightarrow>
   SearchWhere_stores d TokenRevocationJob_whereClause TokenRevocationJob_whereArgs (limit r) w = (Inl se, w1) \<Longrightarrow>
   TokenRevocationJob_Run_deferred d r w =
     (Returns (Some (Wrap se ''vault.(TokenRevocationJob).Run'' None)), r, w1,
      [SearchWhereCall TokenRevocationJob_whereClause TokenRevocationJob_whereArgs (limit r)])"
  by (simp add: TokenRevocationJob_Run_deferred_def)

lemma TokenRevocationJob_Run_deferred_selected:
  "ctx_Err d w = None \<Longrightarrow>
   SearchWhere_stores d TokenRevocationJob_whereClause TokenRevocationJob_whereArgs (limit r) w = (Inr ps, w1) \<Longrightarrow>
   TokenRevocationJob_Run_deferred d r w =
     (case TokenRevocationJob_range d ps (r\<lparr>numProcessed := 0, numTotal := int (length ps)\<rparr>) w1 of
        (res, r2, w2, evs) \<Rightarrow>
          (res, r2, w2, SearchWhereCall TokenRevocationJob_whereClause TokenRevocationJob_whereArgs (limit r) # evs))"
  by (simp add: TokenRevocationJob_Run_deferred_def)

lemma TokenRevocationJob_Run_cancelled:
  "interleaved d (running r) = running r \<Longrightarrow> ctx_Err d w = Some c \<Longrightarrow>
   TokenRevocationJob_Run d r w =
     (Returns (Some (Wrap c ''vault.(TokenRevocationJob).Run'' None)), r\<lparr>running := False\<rparr>, w, [])"
  by (simp add: TokenRevocationJob_Run_admitted TokenRevocationJob_Run_deferred_cancelled)

lemma TokenRevocationJob_Run_failed:
  "interleaved d (running r) = running r \<Longrightarrow> ctx_Err d w = None \<Longrightarrow>
   SearchWhere_stores d TokenRevocationJob_whereClause TokenRevocationJob_whereArgs (limit r) w = (Inl se, w1) \<Longrightarrow>
   TokenRevocationJob_Run d r w =
     (Returns (Some (Wrap se ''vault.(TokenRevocationJob).Run'' None)), r\<lparr>running := False\<rparr>, w1,
      [SearchWhereCall TokenRevocationJob_whereClause TokenRevocationJob_whereArgs (limit r)])"
  by (simp add: TokenRevocationJob_Run_admitted TokenRevocationJob_Run_deferred_failed)

lemma TokenRevocationJob_Run_selected:
  assumes "interleaved d (running r) = running r" and "ctx_Err d w = None"
    and "SearchWhere_stores d TokenRevocationJob_whereClause TokenRevocationJob_whereArgs (limit r) w = (Inr ps, w1)"
    and "TokenRevocationJob_range d ps (r\<lparr>running := True, numProcessed := 0, numTotal := int (length ps)\<rparr>) w1 =
         (res, r2, w2, t)"
  shows "TokenRevocationJob_Run d r w =
     (res, r2\<lparr>running := False\<rparr>, w2,
      SearchWhereCall TokenRevocationJob_whereClause TokenRevocationJob_whereArgs (limit r) # t)"
  using assms by (simp add: TokenRevocationJob_Run_admitted TokenRevocationJob_Run_deferred_selected)

lemma TokenRevocationJob_Run_cases:
  obtains
    (rejected) "interleaved d (running r) \<noteq> running r"
  | (cancelled) c where "interleaved d (running r) = running r" "ctx_Err d w = Some c"
  | (failed) se w1 where "interleaved d (running r) = running r" "ctx_Err d w = None"
      "SearchWhere_stores d TokenRevocationJob_whereClause TokenRevocationJob_whereArgs (limit r) w = (Inl se, w1)"
  | (selected) ps w1 res r2 w2 t where "interleaved d (running r) = running r" "ctx_Err d w = None"
      "SearchWhere_stores d TokenRevocationJob_whereClause TokenRevocationJob_whereArgs (limit r) w = (Inr ps, w1)"
      "TokenRevocationJob_range d ps (r\<lparr>running := True, numProcessed := 0, numTotal := int (length ps)\<rparr>) w1 =
       (res, r2, w2, t)"
proof (cases "interleaved d (running r) = running r")
  case False
  then show ?thesis by (rule rejected)
next
  case adm: True
  show ?thesis
  proof (cases "ctx_Err d w")
    case (Some c)
    with adm show ?thesis by (rule cancelled)
  next
    case None
    obtain sr w1 where sel:
      "SearchWhere_stores d TokenRevocationJob_whereClause TokenRevocationJob_whereArgs (limit r) w = (sr, w1)"
      by (metis surj_pair)
    show ?thesis
    proof (cases sr)
      case (Inl se)
      with adm None sel show ?thesis by (auto intro: failed)
    next
      case (Inr ps)
      obtain res r2 w2 t where
        "TokenRevocationJob_range d ps (r\<lparr>running := True, numProcessed := 0, numTotal := int (length ps)\<rparr>) w1 =
         (res, r2, w2, t)"
        by (metis prod_cases4)
      with adm None sel Inr show ?thesis by (auto intro: selected)
    qed
  qed
qed

lemma TokenRevocationJob_Run_rejects_iff:
  "fst (TokenRevocationJob_Run d r w) =
     Returns (Some (New JobAlreadyRunning ''vault.(TokenRevocationJob).Run'' ''job already running'')) \<longleftrightarrow>
   interleaved d (running r) \<noteq> running r"
proof (cases rule: TokenRevocationJob_Run_cases [where d = d and r = r and w = w])
  case rejected
  then show ?thesis by (simp add: TokenRevocationJob_Run_rejected)
next
  case (cancelled c)
  then show ?thesis by (simp add: TokenRevocationJob_Run_cancelled)
next
  case (failed se w1)
  then show ?thesis by (simp add: TokenRevocationJob_Run_failed)
next
  case (selected ps w1 res r2 w2 t)
  have "res \<noteq> Returns (Some (New JobAlreadyRunning ''vault.(TokenRevocationJob).Run'' ''job already running''))"
  proof
    assume "res = Returns (Some (New JobAlreadyRunning ''vault.(TokenRevocationJob).Run'' ''job already running''))"
    with selected(4) have
      "TokenRevocationJob_range d ps (r\<lparr>running := True, numProcessed := 0, numTotal := int (length ps)\<rparr>) w1 =
       (Returns (Some (New JobAlreadyRunning ''vault.(TokenRevocationJob).Run'' ''job already running'')), r2, w2, t)"
      by simp
    from TokenRevocationJob_range_error [OF this] show False by simp
  qed
  with TokenRevocationJob_Run_selected [OF selected] selected(1) show ?thesis by simp
qed

lemma TokenRevocationJob_Run_flag:
  "running (fst (snd (TokenRevocationJob_Run d r w))) =
   (if interleaved d (running r) = running r then False else interleaved d (running r))"
proof (cases rule: TokenRevocationJob_Run_cases [where d = d and r = r and w = w])
  case rejected
  then show ?thesis by (simp add: TokenRevocationJob_Run_rejected)
next
  case (cancelled c)
  then show ?thesis by (simp add: TokenRevocationJob_Run_cancelled)
next
  case (failed se w1)
  then show ?thesis by (simp add: TokenRevocationJob_Run_failed)
next
  case (selected ps w1 res r2 w2 t)
  with TokenRevocationJob_Run_selected [OF selected] show ?thesis by simp
qed


lemma TokenRevocationJob_Run_counters:
  assumes "interleaved d (running r) = running r" and "ctx_Err d w = None"
    and "SearchWhere_stores d TokenRevocationJob_whereClause TokenRevocationJob_whereArgs (limit r) w = (Inr ps, w1)"
    and "TokenRevocationJob_Run d r w = (res, r2, w2, t)"
  shows "numTotal r2 = int (length ps) \<and> running r2 = False \<and> limit r2 = limit r \<and>
    started t \<le> int (length ps) \<and>
    (res \<noteq> Panics \<longrightarrow> numProcessed r2 = started t) \<and>
    (res = Panics \<longrightarrow> numProcessed r2 = started t - 1) \<and>
    (res = Returns None \<longrightarrow> started t = int (length ps)) \<and>
    (\<forall>e. res = Returns (Some e) \<longrightarrow> started t < int (length ps)) \<and>
    (\<forall>c. ctx_Err d w1 = Some c \<longrightarrow> started t = 0 \<and> numProcessed r2 = 0)"
proof -
  obtain res' r' w' t' where rng:
    "TokenRevocationJob_range d ps (r\<lparr>running := True, numProcessed := 0, numTotal := int (length ps)\<rparr>) w1 =
     (res', r', w', t')"
    by (metis prod_cases4)
  from assms(4) TokenRevocationJob_Run_selected [OF assms(1-3) rng]
  have eq: "res = res'" "r2 = r'\<lparr>running := False\<rparr>"
    "t = SearchWhereCall TokenRevocationJob_whereClause TokenRevocationJob_whereArgs (limit r) # t'"
    by simp_all
  have cancel: "started t = 0 \<and> numProcessed r2 = 0" if "ctx_Err d w1 = Some c" for c
  proof -
    have "t' = [] \<and> numProcessed r' = 0"
    proof (cases ps)
      case Nil
      with rng show ?thesis by auto
    next
      case (Cons x xs)
      have "TokenRevocationJob_range d (x # xs) R w1 =
          (Returns (Some (Wrap c ''vault.(TokenRevocationJob).Run'' None)), R, w1, [])" for R
        by (rule TokenRevocationJob_range_cancelled [OF that])
      with rng Cons show ?thesis by auto
    qed
    with eq show ?thesis by (simp add: started_def)
  qed
  from TokenRevocationJob_range_counts [OF rng] eq cancel show ?thesis by simp
qed

lemma TokenRevocationJob_Run_unchanged:
  assumes "interleaved d (running r) \<noteq> running r \<or> ctx_Err d w \<noteq> None \<or>
      (\<exists>se. fst (SearchWhere_stores d TokenRevocationJob_whereClause TokenRevocationJob_whereArgs (limit r) w) = Inl se)"
  shows "Status (fst (snd (TokenRevocationJob_Run d r w))) = Status r \<and> started (snd (snd (snd (TokenRevocationJob_Run d r w)))) = 0"
proof (cases rule: TokenRevocationJob_Run_cases [where d = d and r = r and w = w])
  case rejected
  then show ?thesis by (simp add: TokenRevocationJob_Run_rejected Status_def started_def)
next
  case (cancelled c)
  then show ?thesis by (simp add: TokenRevocationJob_Run_cancelled Status_def started_def)
next
  case (failed se w1)
  then show ?thesis by (simp add: TokenRevocationJob_Run_failed Status_def started_def)
next
  case (selected ps w1 res r2 w2 t)
  with assms show ?thesis by simp
qed

lemma TokenRevocationJob_Run_inconsistency:
  assumes "TokenRevocationJob_Run d r w = (res, r2, w2, t)" and "ExecCall q (Inr n) \<in> set t" and "n \<noteq> 1"
  shows "(\<exists>msg. errorLogged (New Unknown ''vault.(TokenRevocationJob).revokeToken'' msg) t) \<and>
    (res = Returns None \<or> res = Panics \<or>
     (\<exists>c. ctx_Err d w2 = Some c \<and> res = Returns (Some (Wrap c ''vault.(TokenRevocationJob).Run'' None))))"
proof (cases rule: TokenRevocationJob_Run_cases [where d = d and r = r and w = w])
  case rejected
  with assms show ?thesis by (simp add: TokenRevocationJob_Run_rejected)
next
  case (cancelled c)
  with assms show ?thesis by (auto simp: TokenRevocationJob_Run_cancelled)
next
  case (failed se w1)
  with assms show ?thesis by (auto simp: TokenRevocationJob_Run_failed)
next
  case (selected ps w1 res' r' w' t')
  from assms(1) TokenRevocationJob_Run_selected [OF selected]
  have eq: "res = res'" "w2 = w'" "t = SearchWhereCall TokenRevocationJob_whereClause TokenRevocationJob_whereArgs (limit r) # t'"
    by simp_all
  with assms(2) have "ExecCall q (Inr n) \<in> set t'" by simp
  from TokenRevocationJob_range_inconsistency [OF selected(4) this assms(3)] eq(3)
  have 1: "\<exists>msg. errorLogged (New Unknown ''vault.(TokenRevocationJob).revokeToken'' msg) t" by simp
  have 2: "res = Returns None \<or> res = Panics \<or>
     (\<exists>c. ctx_Err d w2 = Some c \<and> res = Returns (Some (Wrap c ''vault.(TokenRevocationJob).Run'' None)))"
  proof (cases res)
    case Panics
    then show ?thesis by simp
  next
    case (Returns eo)
    show ?thesis
    proof (cases eo)
      case None
      with Returns show ?thesis by simp
    next
      case (Some e)
      with Returns selected(4) eq(1) have
        "TokenRevocationJob_range d ps (r\<lparr>running := True, numProcessed := 0, numTotal := int (length ps)\<rparr>) w1 =
         (Returns (Some e), r', w', t')"
        by simp
      from TokenRevocationJob_range_error [OF this] Some Returns eq(2) show ?thesis by simp
    qed
  qed
  from 1 2 show ?thesis by simp
qed

lemma TokenRevocationJob_Run_split:
  assumes "interleaved d (running r) = running r" and "ctx_Err d w = None"
    and "SearchWhere_stores d TokenRevocationJob_whereClause TokenRevocationJob_whereArgs (limit r) w = (Inr (pre @ post), w1)"
    and "TokenRevocationJob_range d pre
           (r\<lparr>running := True, numProcessed := 0, numTotal := int (length (pre @ post))\<rparr>) w1 =
         (Returns None, rk, wk, tk)"
    and "TokenRevocationJob_range d post rk wk = (res, rn, wn, tn)"
  shows "TokenRevocationJob_Run d r w =
     (res, rn\<lparr>running := False\<rparr>, wn,
      SearchWhereCall TokenRevocationJob_whereClause TokenRevocationJob_whereArgs (limit r) # tk @ tn)"
  by (rule TokenRevocationJob_Run_selected [OF assms(1-3) TokenRevocationJob_range_append [OF assms(4) assms(5)]])

lemma TokenRevocationJob_range_prefix:
  assumes "TokenRevocationJob_range d pre (r\<lparr>running := True, numProcessed := 0, numTotal := n\<rparr>) w1 =
         (Returns None, rk, wk, tk)"
  shows "Status rk = \<lparr>Completed = int (length pre), Total = n\<rparr> \<and> started tk = int (length pre)"
  using TokenRevocationJob_range_counts [OF assms] by (simp add: Status_def)


subsection \<open>\<open>Run\<close> of CredentialRenewalJob\<close>

lemma CredentialRenewalJob_Run_rejected:
  "interleaved d (running r) \<noteq> running r \<Longrightarrow>
   CredentialRenewalJob_Run d r w =
     (Returns (Some (New JobAlreadyRunning ''vault.(CredentialRenewalJob).Run'' ''job already running'')),
      r\<lparr>running := interleaved d (running r)\<rparr>, w, [])"
  by (simp add: CredentialRenewalJob_Run_def CAS_def Load_def)

lemma CredentialRenewalJob_Run_admitted:
  "interleaved d (running r) = running r \<Longrightarrow>
   CredentialRenewalJob_Run d r w =
     (case CredentialRenewalJob_Run_deferred d (r\<lparr>running := True\<rparr>) w of
        (res, r1, w1, evs) \<Rightarrow> (res, r1\<lparr>running := False\<rparr>, w1, evs))"
  by (simp add: CredentialRenewalJob_Run_def CAS_def Load_def Store_def split: prod.splits)

lemma CredentialRenewalJob_Run_deferred_cancelled:
  "ctx_Err d w = Some c \<Longrightarrow>
   CredentialRenewalJob_Run_deferred d r w = (Returns (Some (Wrap c ''vault.(CredentialRenewalJob).Run'' None)), r, w, [])"
  by (simp add: CredentialRenewalJob_Run_deferred_def)

lemma CredentialRenewalJob_Run_deferred_failed:
  "ctx_Err d w = None \<Longrightarrow>
   SearchWhere_creds d CredentialRenewalJob_whereClause CredentialRenewalJob_whereArgs (limit r) w = (Inl se, w1) \<Longrightarrow>
   CredentialRenewalJob_Run_deferred d r w =
     (Returns (Some (Wrap se ''vault.(CredentialRenewalJob).Run'' None)), r, w1,
      [SearchWhereCall CredentialRenewalJob_whereClause CredentialRenewalJob_whereArgs (limit r)])"
  by (simp add: CredentialRenewalJob_Run_deferred_def)

lemma CredentialRenewalJob_Run_deferred_selected:
  "ctx_Err d w = None \<Longrightarrow>
   SearchWhere_creds d CredentialRenewalJob_whereClause CredentialRenewalJob_whereArgs (limit r) w = (Inr ps, w1) \<Longrightarrow>
   CredentialRenewalJob_Run_deferred d r w =
     (case CredentialRenewalJob_range d ps (r\<lparr>numProcessed := 0, numTotal := int (length ps)\<rparr>) w1 of
        (res, r2, w2, evs) \<Rightarrow>
          (res, r2, w2, SearchWhereCall CredentialRenewalJob_whereClause CredentialRenewalJob_whereArgs (limit r) # evs))"
  by (simp add: CredentialRenewalJob_Run_deferred_def)

lemma CredentialRenewalJob_Run_cancelled:
  "interleaved d (running r) = running r \<Longrightarrow> ctx_Err d w = Some c \<Longrightarrow>
   CredentialRenewalJob_Run d r w =
     (Returns (Some (Wrap c ''vault.(CredentialRenewalJob).Run'' None)), r\<lparr>running := False\<rparr>, w, [])"
  by (simp add: CredentialRenewalJob_Run_admitted CredentialRenewalJob_Run_deferred_cancelled)

lemma CredentialRenewalJob_Run_failed:
  "interleaved d (running r) = running r \<Longrightarrow> ctx_Err d w = None \<Longrightarrow>
   SearchWhere_creds d CredentialRenewalJob_whereClause CredentialRenewalJob_whereArgs (limit r) w = (Inl se, w1) \<Longrightarrow>
   CredentialRenewalJob_Run d r w =
     (Returns (Some (Wrap se ''vault.(CredentialRenewalJob).Run'' None)), r\<lparr>running := False\<rparr>, w1,
      [SearchWhereCall CredentialRenewalJob_whereClause CredentialRenewalJob_whereArgs (limit r)])"
  by (simp add: CredentialRenewalJob_Run_admitted CredentialRenewalJob_Run_deferred_failed)

lemma CredentialRenewalJob_Run_selected:
  assumes "interleaved d (running r) = running r" and "ctx_Err d w = None"
    and "SearchWhere_creds d CredentialRenewalJob_whereClause CredentialRenewalJob_whereArgs (limit r) w = (Inr ps, w1)"
    and "CredentialRenewalJob_range d ps (r\<lparr>running := True, numProcessed := 0, numTotal := int (length ps)\<rparr>) w1 =
         (res, r2, w2, t)"
  shows "CredentialRenewalJob_Run d r w =
     (res, r2\<lparr>running := False\<rparr>, w2,
      SearchWhereCall CredentialRenewalJob_whereClause CredentialRenewalJob_whereArgs (limit r) # t)"
  using assms by (simp add: CredentialRenewalJob_Run_admitted CredentialRenewalJob_Run_deferred_selected)

lemma CredentialRenewalJob_Run_cases:
  obtains
    (rejected) "interleaved d (running r) \<noteq> running r"
  | (cancelled) c where "interleaved d (running r) = running r" "ctx_Err d w = Some c"
  | (failed) se w1 where "interleaved d (running r) = running r" "ctx_Err d w = None"
      "SearchWhere_creds d CredentialRenewalJob_whereClause CredentialRenewalJob_whereArgs (limit r) w = (Inl se, w1)"
  | (selected) ps w1 res r2 w2 t where "interleaved d (running r) = running r" "ctx_Err d w = None"
      "SearchWhere_creds d CredentialRenewalJob_whereClause CredentialRenewalJob_whereArgs (limit r) w = (Inr ps, w1)"
      "CredentialRenewalJob_range d ps (r\<lparr>running := True, numProcessed := 0, numTotal := int (length ps)\<rparr>) w1 =
       (res, r2, w2, t)"
proof (cases "interleaved d (running r) = running r")
  case False
  then show ?thesis by (rule rejected)
next
  case adm: True
  show ?thesis
  proof (cases "ctx_Err d w")
    case (Some c)
    with adm show ?thesis by (rule cancelled)
  next
    case None
    obtain sr w1 where sel:
      "SearchWhere_creds d CredentialRenewalJob_whereClause CredentialRenewalJob_whereArgs (limit r) w = (sr, w1)"
      by (metis surj_pair)
    show ?thesis
    proof (cases sr)
      case (Inl se)
      with adm None sel show ?thesis by (auto intro: failed)
    next
      case (Inr ps)
      obtain res r2 w2 t where
        "CredentialRenewalJob_range d ps (r\<lparr>running := True, numProcessed := 0, numTotal := int (length ps)\<rparr>) w1 =
         (res, r2, w2, t)"
        by (metis prod_cases4)
      with adm None sel Inr show ?thesis by (auto intro: selected)
    qed
  qed
qed

lemma CredentialRenewalJob_Run_rejects_iff:
  "fst (CredentialRenewalJob_Run d r w) =
     Returns (Some (New JobAlreadyRunning ''vault.(CredentialRenewalJob).Run'' ''job already running'')) \<longleftrightarrow>
   interleaved d (running r) \<noteq> running r"
proof (cases rule: CredentialRenewalJob_Run_cases [where d = d and r = r and w = w])
  case rejected
  then show ?thesis by (simp add: CredentialRenewalJob_Run_rejected)
next
  case (cancelled c)
  then show ?thesis by (simp add: CredentialRenewalJob_Run_cancelled)
next
  case (failed se w1)
  then show ?thesis by (simp add: CredentialRenewalJob_Run_failed)
next
  case (selected ps w1 res r2 w2 t)
  have "res \<noteq> Returns (Some (New JobAlreadyRunning ''vault.(CredentialRenewalJob).Run'' ''job already running''))"
  proof
    assume "res = Returns (Some (New JobAlreadyRunning ''vault.(CredentialRenewalJob).Run'' ''job already running''))"
    with selected(4) have
      "CredentialRenewalJob_range d ps (r\<lparr>running := True, numProcessed := 0, numTotal := int (length ps)\<rparr>) w1 =
       (Returns (Some (New JobAlreadyRunning ''vault.(CredentialRenewalJob).Run'' ''job already running'')), r2, w2, t)"
      by simp
    from CredentialRenewalJob_range_error [OF this] show False by simp
  qed
  with CredentialRenewalJob_Run_selected [OF selected] selected(1) show ?thesis by simp
qed

lemma CredentialRenewalJob_Run_flag:
  "running (fst (snd (CredentialRenewalJob_Run d r w))) =
   (if interleaved d (running r) = running r then False else interleaved d (running r))"
proof (cases rule: CredentialRenewalJob_Run_cases [where d = d and r = r and w = w])
  case rejected
  then show ?thesis by (simp add: CredentialRenewalJob_Run_rejected)
next
  case (cancelled c)
  then show ?thesis by (simp add: CredentialRenewalJob_Run_cancelled)
next
  case (failed se w1)
  then show ?thesis by (simp add: CredentialRenewalJob_Run_failed)
next
  case (selected ps w1 res r2 w2 t)
  with CredentialRenewalJob_Run_selected [OF selected] show ?thesis by simp
qed


lemma CredentialRenewalJob_Run_counters:
  assumes "interleaved d (running r) = running r" and "ctx_Err d w = None"
    and "SearchWhere_creds d CredentialRenewalJob_whereClause CredentialRenewalJob_whereArgs (limit r) w = (Inr ps, w1)"
    and "CredentialRenewalJob_Run d r w = (res, r2, w2, t)"
  shows "numTotal r2 = int (length ps) \<and> running r2 = False \<and> limit r2 = limit r \<and>
    started t \<le> int (length ps) \<and>
    (res \<noteq> Panics \<longrightarrow> numProcessed r2 = started t) \<and>
    (res = Panics \<longrightarrow> numProcessed r2 = started t - 1) \<and>
    (res = Returns None \<longrightarrow> started t = int (length ps)) \<and>
    (\<forall>e. res = Returns (Some e) \<longrightarrow> started t < int (length ps)) \<and>
    (\<forall>c. ctx_Err d w1 = Some c \<longrightarrow> started t = 0 \<and> numProcessed r2 = 0)"
proof -
  obtain res' r' w' t' where rng:
    "CredentialRenewalJob_range d ps (r\<lparr>running := True, numProcessed := 0, numTotal := int (length ps)\<rparr>) w1 =
     (res', r', w', t')"
    by (metis prod_cases4)
  from assms(4) CredentialRenewalJob_Run_selected [OF assms(1-3) rng]
  have eq: "res = res'" "r2 = r'\<lparr>running := False\<rparr>"
    "t = SearchWhereCall CredentialRenewalJob_whereClause CredentialRenewalJob_whereArgs (limit r) # t'"
    by simp_all
  have cancel: "started t = 0 \<and> numProcessed r2 = 0" if "ctx_Err d w1 = Some c" for c
  proof -
    have "t' = [] \<and> numProcessed r' = 0"
    proof (cases ps)
      case Nil
      with rng show ?thesis by auto
    next
      case (Cons x xs)
      have "CredentialRenewalJob_range d (x # xs) R w1 =
          (Returns (Some (Wrap c ''vault.(CredentialRenewalJob).Run'' None)), R, w1, [])" for R
        by (rule CredentialRenewalJob_range_cancelled [OF that])
      with rng Cons show ?thesis by auto
    qed
    with eq show ?thesis by (simp add: started_def)
  qed
  from CredentialRenewalJob_range_counts [OF rng] eq cancel show ?thesis by simp
qed

lemma CredentialRenewalJob_Run_unchanged:
  assumes "interleaved d (running r) \<noteq> running r \<or> ctx_Err d w \<noteq> None \<or>
      (\<exists>se. fst (SearchWhere_creds d CredentialRenewalJob_whereClause CredentialRenewalJob_whereArgs (limit r) w) = Inl se)"
  shows "Status (fst (snd (CredentialRenewalJob_Run d r w))) = Status r \<and> started (snd (snd (snd (CredentialRenewalJob_Run d r w)))) = 0"
proof (cases rule: CredentialRenewalJob_Run_cases [where d = d and r = r and w = w])
  case rejected
  then show ?thesis by (simp add: CredentialRenewalJob_Run_rejected Status_def started_def)
next
  case (cancelled c)
  then show ?thesis by (simp add: CredentialRenewalJob_Run_cancelled Status_def started_def)
next
  case (failed se w1)
  then show ?thesis by (simp add: CredentialRenewalJob_Run_failed Status_def started_def)
next
  case (selected ps w1 res r2 w2 t)
  with assms show ?thesis by simp
qed

lemma CredentialRenewalJob_Run_inconsistency:
  assumes "CredentialRenewalJob_Run d r w = (res, r2, w2, t)" and "ExecCall q (Inr n) \<in> set t" and "n \<noteq> 1"
  shows "(\<exists>msg. errorLogged (New Unknown ''vault.(CredentialRenewalJob).renewCred'' msg) t) \<and>
    (res = Returns None \<or> res = Panics \<or>
     (\<exists>c. ctx_Err d w2 = Some c \<and> res = Returns (Some (Wrap c ''vault.(CredentialRenewalJob).Run'' None))))"
proof (cases rule: CredentialRenewalJob_Run_cases [where d = d and r = r and w = w])
  case rejected
  with assms show ?thesis by (simp add: CredentialRenewalJob_Run_rejected)
next
  case (cancelled c)
  with assms show ?thesis by (auto simp: CredentialRenewalJob_Run_cancelled)
next
  case (failed se w1)
  with assms show ?thesis by (auto simp: CredentialRenewalJob_Run_failed)
next
  case (selected ps w1 res' r' w' t')
  from assms(1) CredentialRenewalJob_Run_selected [OF selected]
  have eq: "res = res'" "w2 = w'" "t = SearchWhereCall CredentialRenewalJob_whereClause CredentialRenewalJob_whereArgs (limit r) # t'"
    by simp_all
  with assms(2) have "ExecCall q (Inr n) \<in> set t'" by simp
  from CredentialRenewalJob_range_inconsistency [OF selected(4) this assms(3)] eq(3)
  have 1: "\<exists>msg. errorLogged (New Unknown ''vault.(CredentialRenewalJob).renewCred'' msg) t" by simp
  have 2: "res = Returns None \<or> res = Panics \<or>
     (\<exists>c. ctx_Err d w2 = Some c \<and> res = Returns (Some (Wrap c ''vault.(CredentialRenewalJob).Run'' None)))"
  proof (cases res)
    case Panics
    then show ?thesis by simp
  next
    case (Returns eo)
    show ?thesis
    proof (cases eo)
      case None
      with Returns show ?thesis by simp
    next
      case (Some e)
      with Returns selected(4) eq(1) have
        "CredentialRenewalJob_range d ps (r\<lparr>running := True, numProcessed := 0, numTotal := int (length ps)\<rparr>) w1 =
         (Returns (Some e), r', w', t')"
        by simp
      from CredentialRenewalJob_range_error [OF this] Some Returns eq(2) show ?thesis by simp
    qed
  qed
  from 1 2 show ?thesis by simp
qed

lemma CredentialRenewalJob_Run_split:
  assumes "interleaved d (running r) = running r" and "ctx_Err d w = None"
    and "SearchWhere_creds d CredentialRenewalJob_whereClause CredentialRenewalJob_whereArgs (limit r) w = (Inr (pre @ post), w1)"
    and "CredentialRenewalJob_range d pre
           (r\<lparr>running := True, numProcessed := 0, numTotal := int (length (pre @ post))\<rparr>) w1 =
         (Returns None, rk, wk, tk)"
    and "CredentialRenewalJob_range d post rk wk = (res, rn, wn, tn)"
  shows "CredentialRenewalJob_Run d r w =
     (res, rn\<lparr>running := False\<rparr>, wn,
      SearchWhereCall CredentialRenewalJob_whereClause CredentialRenewalJob_whereArgs (limit r) # tk @ tn)"
  by (rule CredentialRenewalJob_Run_selected [OF assms(1-3) CredentialRenewalJob_range_append [OF assms(4) assms(5)]])

lemma CredentialRenewalJob_range_prefix:
  assumes "CredentialRenewalJob_range d pre (r\<lparr>running := True, numProcessed := 0, numTotal := n\<rparr>) w1 =
         (Returns None, rk, wk, tk)"
  shows "Status rk = \<lparr>Completed = int (length pre), Total = n\<rparr> \<and> started tk = int (length pre)"
  using CredentialRenewalJob_range_counts [OF assms] by (simp add: Status_def)


subsection \<open>\<open>Run\<close> of CredentialRevocationJob\<close>

lemma CredentialRevocationJob_Run_rejected:
  "interleaved d (running r) \<noteq> running r \<Longrightarrow>
   CredentialRevocationJob_Run d r w =
     (Returns (Some (New JobAlreadyRunning ''vault.(CredentialRevocationJob).Run'' ''job already running'')),
      r\<lparr>running := interleaved d (running r)\<rparr>, w, [])"
  by (simp add: CredentialRevocationJob_Run_def CAS_def Load_def)

lemma CredentialRevocationJob_Run_admitted:
  "interleaved d (running r) = running r \<Longrightarrow>
   CredentialRevocationJob_Run d r w =
     (case CredentialRevocationJob_Run_deferred d (r\<lparr>running := True\<rparr>) w of
        (res, r1, w1, evs) \<Rightarrow> (res, r1\<lparr>running := False\<rparr>, w1, evs))"
  by (simp add: CredentialRevocationJob_Run_def CAS_def Load_def Store_def split: prod.splits)

lemma CredentialRevocationJob_Run_deferred_cancelled:
  "ctx_Err d w = Some c \<Longrightarrow>
   CredentialRevocationJob_Run_deferred d r w = (Returns (Some (Wrap c ''vault.(CredentialRevocationJob).Run'' None)), r, w, [])"
  by (simp add: CredentialRevocationJob_Run_deferred_def)

lemma CredentialRevocationJob_Run_deferred_failed:
  "ctx_Err d w = None \<Longrightarrow>
   SearchWhere_creds d CredentialRevocationJob_whereClause CredentialRevocationJob_whereArgs (limit r) w = (Inl se, w1) \<Longrightarrow>
   CredentialRevocationJob_Run_deferred d r w =
     (Returns (Some (Wrap se ''vault.(CredentialRevocationJob).Run'' None)), r, w1,
      [SearchWhereCall CredentialRevocationJob_whereClause CredentialRevocationJob_whereArgs (limit r)])"
  by (simp add: CredentialRevocationJob_Run_deferred_def)

lemma CredentialRevocationJob_Run_deferred_selected:
  "ctx_Err d w = None \<Longrightarrow>
   SearchWhere_creds d CredentialRevocationJob_whereClause CredentialRevocationJob_whereArgs (limit r) w = (Inr ps, w1) \<Longrightarrow>
   CredentialRevocationJob_Run_deferred d r w =
     (case CredentialRevocationJob_range d ps (r\<lparr>numProcessed := 0, numTotal := int (length ps)\<rparr>) w1 of
        (res, r2, w2, evs) \<Rightarrow>
          (res, r2, w2, SearchWhereCall CredentialRevocationJob_whereClause CredentialRevocationJob_whereArgs (limit r) # evs))"
  by (simp add: CredentialRevocationJob_Run_deferred_def)

lemma CredentialRevocationJob_Run_cancelled:
  "interleaved d (running r) = running r \<Longrightarrow> ctx_Err d w = Some c \<Longrightarrow>
   CredentialRevocationJob_Run d r w =
     (Returns (Some (Wrap c ''vault.(CredentialRevocationJob).Run'' None)), r\<lparr>running := False\<rparr>, w, [])"
  by (simp add: CredentialRevocationJob_Run_admitted CredentialRevocationJob_Run_deferred_cancelled)

lemma CredentialRevocationJob_Run_failed:
  "interleaved d (running r) = running r \<Longrightarrow> ctx_Err d w = None \<Longrightarrow>
   SearchWhere_creds d CredentialRevocationJob_whereClause CredentialRevocationJob_whereArgs (limit r) w = (Inl se, w1) \<Longrightarrow>
   CredentialRevocationJob_Run d r w =
     (Returns (Some (Wrap se ''vault.(CredentialRevocationJob).Run'' None)), r\<lparr>running := False\<rparr>, w1,
      [SearchWhereCall CredentialRevocationJob_whereClause CredentialRevocationJob_whereArgs (limit r)])"
  by (simp add: CredentialRevocationJob_Run_admitted CredentialRevocationJob_Run_deferred_failed)

lemma CredentialRevocationJob_Run_selected:
  assumes "interleaved d (running r) = running r" and "ctx_Err d w = None"
    and "SearchWhere_creds d CredentialRevocationJob_whereClause CredentialRevocationJob_whereArgs (limit r) w = (Inr ps, w1)"
    and "CredentialRevocationJob_range d ps (r\<lparr>running := True, numProcessed := 0, numTotal := int (length ps)\<rparr>) w1 =
         (res, r2, w2, t)"
  shows "CredentialRevocationJob_Run d r w =
     (res, r2\<lparr>running := False\<rparr>, w2,
      SearchWhereCall CredentialRevocationJob_whereClause CredentialRevocationJob_whereArgs (limit r) # t)"
  using assms by (simp add: CredentialRevocationJob_Run_admitted CredentialRevocationJob_Run_deferred_selected)

lemma CredentialRevocationJob_Run_cases:
  obtains
    (rejected) "interleaved d (running r) \<noteq> running r"
  | (cancelled) c where "interleaved d (running r) = running r" "ctx_Err d w = Some c"
  | (failed) se w1 where "interleaved d (running r) = running r" "ctx_Err d w = None"
      "SearchWhere_creds d CredentialRevocationJob_whereClause CredentialRevocationJob_whereArgs (limit r) w = (Inl se, w1)"
  | (selected) ps w1 res r2 w2 t where "interleaved d (running r) = running r" "ctx_Err d w = None"
      "SearchWhere_creds d CredentialRevocationJob_whereClause CredentialRevocationJob_whereArgs (limit r) w = (Inr ps, w1)"
      "CredentialRevocationJob_range d ps (r\<lparr>running := True, numProcessed := 0, numTotal := int (length ps)\<rparr>) w1 =
       (res, r2, w2, t)"
proof (cases "interleaved d (running r) = running r")
  case False
  then show ?thesis by (rule rejected)
next
  case adm: True
  show ?thesis
  proof (cases "ctx_Err d w")
    case (Some c)
    with adm show ?thesis by (rule cancelled)
  next
    case None
    obtain sr w1 where sel:
      "SearchWhere_creds d CredentialRevocationJob_whereClause CredentialRevocationJob_whereArgs (limit r) w = (sr, w1)"
      by (metis surj_pair)
    show ?thesis
    proof (cases sr)
      case (Inl se)
      with adm None sel show ?thesis by (auto intro: failed)
    next
      case (Inr ps)
      obtain res r2 w2 t where
        "CredentialRevocationJob_range d ps (r\<lparr>running := True, numProcessed := 0, numTotal := int (length ps)\<rparr>) w1 =
         (res, r2, w2, t)"
        by (metis prod_cases4)
      with adm None sel Inr show ?thesis by (auto intro: selected)
    qed
  qed
qed

lemma CredentialRevocationJob_Run_rejects_iff:
  "fst (CredentialRevocationJob_Run d r w) =
     Returns (Some (New JobAlreadyRunning ''vault.(CredentialRevocationJob).Run'' ''job already running'')) \<longleftrightarrow>
   interleaved d (running r) \<noteq> running r"
proof (cases rule: CredentialRevocationJob_Run_cases [where d = d and r = r and w = w])
  case rejected
  then show ?thesis by (simp add: CredentialRevocationJob_Run_rejected)
next
  case (cancelled c)
  then show ?thesis by (simp add: CredentialRevocationJob_Run_cancelled)
next
  case (failed se w1)
  then show ?thesis by (simp add: CredentialRevocationJob_Run_failed)
next
  case (selected ps w1 res r2 w2 t)
  have "res \<noteq> Returns (Some (New JobAlreadyRunning ''vault.(CredentialRevocationJob).Run'' ''job already running''))"
  proof
    assume "res = Returns (Some (New JobAlreadyRunning ''vault.(CredentialRevocationJob).Run'' ''job already running''))"
    with selected(4) have
      "CredentialRevocationJob_range d ps (r\<lparr>running := True, numProcessed := 0, numTotal := int (length ps)\<rparr>) w1 =
       (Returns (Some (New JobAlreadyRunning ''vault.(CredentialRevocationJob).Run'' ''job already running'')), r2, w2, t)"
      by simp
    from CredentialRevocationJob_range_error [OF this] show False by simp
  qed
  with CredentialRevocationJob_Run_selected [OF selected] selected(1) show ?thesis by simp
qed

lemma CredentialRevocationJob_Run_flag:
  "running (fst (snd (CredentialRevocationJob_Run d r w))) =
   (if interleaved d (running r) = running r then False else interleaved d (running r))"
proof (cases rule: CredentialRevocationJob_Run_cases [where d = d and r = r and w = w])
  case rejected
  then show ?thesis by (simp add: CredentialRevocationJob_Run_rejected)
next
  case (cancelled c)
  then show ?thesis by (simp add: CredentialRevocationJob_Run_cancelled)
next
  case (failed se w1)
  then show ?thesis by (simp add: CredentialRevocationJob_Run_failed)
next
  case (selected ps w1 res r2 w2 t)
  with CredentialRevocationJob_Run_selected [OF selected] show ?thesis by simp
qed


lemma CredentialRevocationJob_Run_counters:
  assumes "interleaved d (running r) = running r" and "ctx_Err d w = None"
    and "SearchWhere_creds d CredentialRevocationJob_whereClause CredentialRevocationJob_whereArgs (limit r) w = (Inr ps, w1)"
    and "CredentialRevocationJob_Run d r w = (res, r2, w2, t)"
  shows "numTotal r2 = int (length ps) \<and> running r2 = False \<and> limit r2 = limit r \<and>
    started t \<le> int (length ps) \<and>
    (res \<noteq> Panics \<longrightarrow> numProcessed r2 = started t) \<and>
    (res = Panics \<longrightarrow> numProcessed r2 = started t - 1) \<and>
    (res = Returns None \<longrightarrow> started t = int (length ps)) \<and>
    (\<forall>e. res = Returns (Some e) \<longrightarrow> started t < int (length ps)) \<and>
    (\<forall>c. ctx_Err d w1 = Some c \<longrightarrow> started t = 0 \<and> numProcessed r2 = 0)"
proof -
  obtain res' r' w' t' where rng:
    "CredentialRevocationJob_range d ps (r\<lparr>running := True, numProcessed := 0, numTotal := int (length ps)\<rparr>) w1 =
     (res', r', w', t')"
    by (metis prod_cases4)
  from assms(4) CredentialRevocationJob_Run_selected [OF assms(1-3) rng]
  have eq: "res = res'" "r2 = r'\<lparr>running := False\<rparr>"
    "t = SearchWhereCall CredentialRevocationJob_whereClause CredentialRevocationJob_whereArgs (limit r) # t'"
    by simp_all
  have cancel: "started t = 0 \<and> numProcessed r2 = 0" if "ctx_Err d w1 = Some c" for c
  proof -
    have "t' = [] \<and> numProcessed r' = 0"
    proof (cases ps)
      case Nil
      with rng show ?thesis by auto
    next
      case (Cons x xs)
      have "CredentialRevocationJob_range d (x # xs) R w1 =
          (Returns (Some (Wrap c ''vault.(CredentialRevocationJob).Run'' None)), R, w1, [])" for R
        by (rule CredentialRevocationJob_range_cancelled [OF that])
      with rng Cons show ?thesis by auto
    qed
    with eq show ?thesis by (simp add: started_def)
  qed
  from CredentialRevocationJob_range_counts [OF rng] eq cancel show ?thesis by simp
qed

lemma CredentialRevocationJob_Run_unchanged:
  assumes "interleaved d (running r) \<noteq> running r \<or> ctx_Err d w \<noteq> None \<or>
      (\<exists>se. fst (SearchWhere_creds d CredentialRevocationJob_whereClause CredentialRevocationJob_whereArgs (limit r) w) = Inl se)"
  shows "Status (fst (snd (CredentialRevocationJob_Run d r w))) = Status r \<and> started (snd (snd (snd (CredentialRevocationJob_Run d r w)))) = 0"
proof (cases rule: CredentialRevocationJob_Run_cases [where d = d and r = r and w = w])
  case rejected
  then show ?thesis by (simp add: CredentialRevocationJob_Run_rejected Status_def started_def)
next
  case (cancelled c)
  then show ?thesis by (simp add: CredentialRevocationJob_Run_cancelled Status_def started_def)
next
  case (failed se w1)
  then show ?thesis by (simp add: CredentialRevocationJob_Run_failed Status_def started_def)
next
  case (selected ps w1 res r2 w2 t)
  with assms show ?thesis by simp
qed

lemma CredentialRevocationJob_Run_inconsistency:
  assumes "CredentialRevocationJob_Run d r w = (res, r2, w2, t)" and "ExecCall q (Inr n) \<in> set t" and "n \<noteq> 1"
  shows "(\<exists>msg. errorLogged (New Unknown ''vault.(CredentialRenewalJob).revokeCred'' msg) t) \<and>
    (res = Returns None \<or> res = Panics \<or>
     (\<exists>c. ctx_Err d w2 = Some c \<and> res = Returns (Some (Wrap c ''vault.(CredentialRevocationJob).Run'' None))))"
proof (cases rule: CredentialRevocationJob_Run_cases [where d = d and r = r and w = w])
  case rejected
  with assms show ?thesis by (simp add: CredentialRevocationJob_Run_rejected)
next
  case (cancelled c)
  with assms show ?thesis by (auto simp: CredentialRevocationJob_Run_cancelled)
next
  case (failed se w1)
  with assms show ?thesis by (auto simp: CredentialRevocationJob_Run_failed)
next
  case (selected ps w1 res' r' w' t')
  from assms(1) CredentialRevocationJob_Run_selected [OF selected]
  have eq: "res = res'" "w2 = w'" "t = SearchWhereCall CredentialRevocationJob_whereClause CredentialRevocationJob_whereArgs (limit r) # t'"
    by simp_all
  with assms(2) have "ExecCall q (Inr n) \<in> set t'" by simp
  from CredentialRevocationJob_range_inconsistency [OF selected(4) this assms(3)] eq(3)
  have 1: "\<exists>msg. errorLogged (New Unknown ''vault.(CredentialRenewalJob).revokeCred'' msg) t" by simp
  have 2: "res = Returns None \<or> res = Panics \<or>
     (\<exists>c. ctx_Err d w2 = Some c \<and> res = Returns (Some (Wrap c ''vault.(CredentialRevocationJob).Run'' None)))"
  proof (cases res)
    case Panics
    then show ?thesis by simp
  next
    case (Returns eo)
    show ?thesis
    proof (cases eo)
      case None
      with Returns show ?thesis by simp
    next
      case (Some e)
      with Returns selected(4) eq(1) have
        "CredentialRevocationJob_range d ps (r\<lparr>running := True, numProcessed := 0, numTotal := int (length ps)\<rparr>) w1 =
         (Returns (Some e), r', w', t')"
        by simp
      from CredentialRevocationJob_range_error [OF this] Some Returns eq(2) show ?thesis by simp
    qed
  qed
  from 1 2 show ?thesis by simp
qed

lemma CredentialRevocationJob_Run_split:
  assumes "interleaved d (running r) = running r" and "ctx_Err d w = None"
    and "SearchWhere_creds d CredentialRevocationJob_whereClause CredentialRevocationJob_whereArgs (limit r) w = (Inr (pre @ post), w1)"
    and "CredentialRevocationJob_range d pre
           (r\<lparr>running := True, numProcessed := 0, numTotal := int (length (pre @ post))\<rparr>) w1 =
         (Returns None, rk, wk, tk)"
    and "CredentialRevocationJob_range d post rk wk = (res, rn, wn, tn)"
  shows "CredentialRevocationJob_Run d r w =
     (res, rn\<lparr>running := False\<rparr>, wn,
      SearchWhereCall CredentialRevocationJob_whereClause CredentialRevocationJob_whereArgs (limit r) # tk @ tn)"
  by (rule CredentialRevocationJob_Run_selected [OF assms(1-3) CredentialRevocationJob_range_append [OF assms(4) assms(5)]])

lemma CredentialRevocationJob_range_prefix:
  assumes "CredentialRevocationJob_range d pre (r\<lparr>running := True, numProcessed := 0, numTotal := n\<rparr>) w1 =
         (Returns None, rk, wk, tk)"
  shows "Status rk = \<lparr>Completed = int (length pre), Total = n\<rparr> \<and> started tk = int (length pre)"
  using CredentialRevocationJob_range_counts [OF assms] by (simp add: Status_def)


section \<open>Results about the job interface\<close>

subsection \<open>TokenRenewalJob behind the interface\<close>

lemma TokenRenewalJob_interface:
  "Run TokenRenewalJob = TokenRenewalJob_Run"
  "Run_op TokenRenewalJob = ''vault.(TokenRenewalJob).Run''"
  "selection TokenRenewalJob d r w = sized (SearchWhere_stores d TokenRenewalJob_whereClause TokenRenewalJob_whereArgs (limit r) w)"
  by (simp_all add: Run_def Run_op_def selection_def)

lemma TokenRenewalJob_interface_rejects_iff:
  "returned (Run TokenRenewalJob d r w) =
     Returns (Some (New JobAlreadyRunning (Run_op TokenRenewalJob) ''job already running'')) \<longleftrightarrow>
   interleaved d (running r) \<noteq> running r"
  unfolding TokenRenewalJob_interface returned_def by (rule TokenRenewalJob_Run_rejects_iff)

lemma TokenRenewalJob_interface_flag:
  "running (jobAfter (Run TokenRenewalJob d r w)) =
   (if interleaved d (running r) = running r then False else interleaved d (running r))"
  unfolding TokenRenewalJob_interface jobAfter_def by (rule TokenRenewalJob_Run_flag)

lemma TokenRenewalJob_mid_cancel:
  assumes "interleaved d (running r) = running r"
    and "ctx_Err d w = None"
    and "SearchWhere_stores d TokenRenewalJob_whereClause TokenRenewalJob_whereArgs (limit r) w = (Inr (pre @ s # post), w1)"
    and "TokenRenewalJob_range d pre
        (r\<lparr>running := True, numProcessed := 0, numTotal := int (length (pre @ s # post))\<rparr>) w1 =
      (Returns None, rk, wk, tk)"
    and "ctx_Err d wk = Some c"
  shows "Run TokenRenewalJob d r w =
        (Returns (Some (Wrap c ''vault.(TokenRenewalJob).Run'' None)), rk\<lparr>running := False\<rparr>, wk, SearchWhereCall TokenRenewalJob_whereClause TokenRenewalJob_whereArgs (limit r) # tk) \<and>
      started tk = int (length pre) \<and>
      Status rk = \<lparr>Completed = int (length pre), Total = int (length (pre @ s # post))\<rparr>"
proof -
  have rng: "TokenRenewalJob_range d (s # post) rk wk =
      (Returns (Some (Wrap c ''vault.(TokenRenewalJob).Run'' None)), rk, wk, [])"
    by (rule TokenRenewalJob_range_cancelled [OF assms(5)])
  from TokenRenewalJob_Run_split [OF assms(1-4) rng] TokenRenewalJob_range_prefix [OF assms(4)]
  show ?thesis unfolding TokenRenewalJob_interface by simp
qed

lemma TokenRenewalJob_mid_cancel_obj:
  "interleaved d (running r) = running r \<and>
    ctx_Err d w = None \<and>
    SearchWhere_stores d TokenRenewalJob_whereClause TokenRenewalJob_whereArgs (limit r) w = (Inr (pre @ s # post), w1) \<and>
    TokenRenewalJob_range d pre
        (r\<lparr>running := True, numProcessed := 0, numTotal := int (length (pre @ s # post))\<rparr>) w1 =
      (Returns None, rk, wk, tk) \<and>
    ctx_Err d wk = Some c \<longrightarrow>
      Run TokenRenewalJob d r w =
        (Returns (Some (Wrap c ''vault.(TokenRenewalJob).Run'' None)), rk\<lparr>running := False\<rparr>, wk, SearchWhereCall TokenRenewalJob_whereClause TokenRenewalJob_whereArgs (limit r) # tk) \<and>
      started tk = int (length pre) \<and>
      Status rk = \<lparr>Completed = int (length pre), Total = int (length (pre @ s # post))\<rparr>"
proof (intro impI, (elim conjE)?)
  assume h:
    "interleaved d (running r) = running r"
    "ctx_Err d w = None"
    "SearchWhere_stores d TokenRenewalJob_whereClause TokenRenewalJob_whereArgs (limit r) w = (Inr (pre @ s # post), w1)"
    "TokenRenewalJob_range d pre
        (r\<lparr>running := True, numProcessed := 0, numTotal := int (length (pre @ s # post))\<rparr>) w1 =
      (Returns None, rk, wk, tk)"
    "ctx_Err d wk = Some c"
  show "Run TokenRenewalJob d r w =
        (Returns (Some (Wrap c ''vault.(TokenRenewalJob).Run'' None)), rk\<lparr>running := False\<rparr>, wk, SearchWhereCall TokenRenewalJob_whereClause TokenRenewalJob_whereArgs (limit r) # tk) \<and>
      started tk = int (length pre) \<and>
      Status rk = \<lparr>Completed = int (length pre), Total = int (length (pre @ s # post))\<rparr>"
    by (rule TokenRenewalJob_mid_cancel [OF h])
qed

lemma TokenRenewalJob_failed_item:
  assumes "interleaved d (running r) = running r"
    and "ctx_Err d w = None"
    and "SearchWhere_stores d TokenRenewalJob_whereClause TokenRenewalJob_whereArgs (limit r) w = (Inr (pre @ s # post), w1)"
    and "TokenRenewalJob_range d pre
        (r\<lparr>running := True, numProcessed := 0, numTotal := int (length (pre @ s # post))\<rparr>) w1 =
      (Returns None, rk, wk, tk)"
    and "ctx_Err d wk = None"
    and "renewToken d s wk = (Some err, s1, wk1, te)"
    and "TokenRenewalJob_range d post (rk\<lparr>numProcessed := numProcessed rk + 1\<rparr>) wk1 = (res, rn, wn, tn)"
  shows "Run TokenRenewalJob d r w =
        (res, rn\<lparr>running := False\<rparr>, wn,
         SearchWhereCall TokenRenewalJob_whereClause TokenRenewalJob_whereArgs (limit r) # tk @ te @ [TokenRenewalJob_entry s1 err] @ tn) \<and>
      numProcessed rk = int (length pre)"
proof -
  have rng: "TokenRenewalJob_range d (s # post) rk wk = (res, rn, wn, te @ [TokenRenewalJob_entry s1 err] @ tn)"
    using assms(5-7) by (simp add: TokenRenewalJob_entry_def)
  from TokenRenewalJob_Run_split [OF assms(1-4) rng] TokenRenewalJob_range_prefix [OF assms(4)]
  show ?thesis unfolding TokenRenewalJob_interface by (simp add: Status_def)
qed


lemma TokenRenewalJob_inconsistent_item:
  assumes "interleaved d (running r) = running r"
    and "ctx_Err d w = None"
    and "SearchWhere_stores d TokenRenewalJob_whereClause TokenRenewalJob_whereArgs (limit r) w = (Inr (pre @ s # post), w1)"
    and "TokenRenewalJob_range d pre
        (r\<lparr>running := True, numProcessed := 0, numTotal := int (length (pre @ s # post))\<rparr>) w1 =
      (Returns None, rk, wk, tk)"
    and "ctx_Err d wk = None"
    and "renewToken d s wk = (ires, s1, wk1, te)"
    and "ExecCall q (Inr n) \<in> set te"
    and "n \<noteq> 1"
    and "TokenRenewalJob_range d post (rk\<lparr>numProcessed := numProcessed rk + 1\<rparr>) wk1 = (res, rn, wn, tn)"
  shows "(\<exists>msg. ires = Some (New Unknown ''vault.(TokenRenewalJob).renewToken'' msg) \<and>
         Run TokenRenewalJob d r w =
           (res, rn\<lparr>running := False\<rparr>, wn,
            SearchWhereCall TokenRenewalJob_whereClause TokenRenewalJob_whereArgs (limit r) # tk @ te @
            [TokenRenewalJob_entry s1 (New Unknown ''vault.(TokenRenewalJob).renewToken'' msg)] @ tn)) \<and>
      numProcessed rk = int (length pre)"
proof -
  from renewToken_inconsistency [OF assms(6) assms(7) assms(8)]
  obtain msg where m: "ires = Some (New Unknown ''vault.(TokenRenewalJob).renewToken'' msg)" by blast
  with assms(6) have it: "renewToken d s wk = (Some (New Unknown ''vault.(TokenRenewalJob).renewToken'' msg), s1, wk1, te)"
    by simp
  from TokenRenewalJob_failed_item [OF assms(1-5) it assms(9)] m show ?thesis by blast
qed

lemma TokenRenewalJob_inconsistent_item_obj:
  "interleaved d (running r) = running r \<and>
    ctx_Err d w = None \<and>
    SearchWhere_stores d TokenRenewalJob_whereClause TokenRenewalJob_whereArgs (limit r) w = (Inr (pre @ s # post), w1) \<and>
    TokenRenewalJob_range d pre
        (r\<lparr>running := True, numProcessed := 0, numTotal := int (length (pre @ s # post))\<rparr>) w1 =
      (Returns None, rk, wk, tk) \<and>
    ctx_Err d wk = None \<and>
    renewToken d s wk = (ires, s1, wk1, te) \<and>
    ExecCall q (Inr n) \<in> set te \<and>
    n \<noteq> 1 \<and>
    TokenRenewalJob_range d post (rk\<lparr>numProcessed := numProcessed rk + 1\<rparr>) wk1 = (res, rn, wn, tn) \<longrightarrow>
      (\<exists>msg. ires = Some (New Unknown ''vault.(TokenRenewalJob).renewToken'' msg) \<and>
         Run TokenRenewalJob d r w =
           (res, rn\<lparr>running := False\<rparr>, wn,
            SearchWhereCall TokenRenewalJob_whereClause TokenRenewalJob_whereArgs (limit r) # tk @ te @
            [TokenRenewalJob_entry s1 (New Unknown ''vault.(TokenRenewalJob).renewToken'' msg)] @ tn)) \<and>
      numProcessed rk = int (length pre)"
proof (intro impI, (elim conjE)?)
  assume h:
    "interleaved d (running r) = running r"
    "ctx_Err d w = None"
    "SearchWhere_stores d TokenRenewalJob_whereClause TokenRenewalJob_whereArgs (limit r) w = (Inr (pre @ s # post), w1)"
    "TokenRenewalJob_range d pre
        (r\<lparr>running := True, numProcessed := 0, numTotal := int (length (pre @ s # post))\<rparr>) w1 =
      (Returns None, rk, wk, tk)"
    "ctx_Err d wk = None"
    "renewToken d s wk = (ires, s1, wk1, te)"
    "ExecCall q (Inr n) \<in> set te"
    "n \<noteq> 1"
    "TokenRenewalJob_range d post (rk\<lparr>numProcessed := numProcessed rk + 1\<rparr>) wk1 = (res, rn, wn, tn)"
  show "(\<exists>msg. ires = Some (New Unknown ''vault.(TokenRenewalJob).renewToken'' msg) \<and>
         Run TokenRenewalJob d r w =
           (res, rn\<lparr>running := False\<rparr>, wn,
            SearchWhereCall TokenRenewalJob_whereClause TokenRenewalJob_whereArgs (limit r) # tk @ te @
            [TokenRenewalJob_entry s1 (New Unknown ''vault.(TokenRenewalJob).renewToken'' msg)] @ tn)) \<and>
      numProcessed rk = int (length pre)"
    by (rule TokenRenewalJob_inconsistent_item [OF h])
qed

lemma TokenRenewalJob_live:
  assumes "interleaved d (running r) = running r"
    and "ctx_Err d w = None"
    and "SearchWhere_stores d TokenRenewalJob_whereClause TokenRenewalJob_whereArgs (limit r) w = (Inr (pre @ post), w1)"
    and "TokenRenewalJob_range d pre
        (r\<lparr>running := True, numProcessed := 0, numTotal := int (length (pre @ post))\<rparr>) w1 =
      (Returns None, rk, wk, tk)"
    and "TokenRenewalJob_range d post rk wk = (res, rn, wn, tn)"
  shows "Status rk = \<lparr>Completed = int (length pre), Total = int (length (pre @ post))\<rparr> \<and>
      Run TokenRenewalJob d r w = (res, rn\<lparr>running := False\<rparr>, wn, SearchWhereCall TokenRenewalJob_whereClause TokenRenewalJob_whereArgs (limit r) # tk @ tn)"
proof -
  from TokenRenewalJob_Run_split [OF assms(1-5)] TokenRenewalJob_range_prefix [OF assms(4)]
  show ?thesis unfolding TokenRenewalJob_interface by simp
qed

lemma TokenRenewalJob_live_obj:
  "interleaved d (running r) = running r \<and>
    ctx_Err d w = None \<and>
    SearchWhere_stores d TokenRenewalJob_whereClause TokenRenewalJob_whereArgs (limit r) w = (Inr (pre @ post), w1) \<and>
    TokenRenewalJob_range d pre
        (r\<lparr>running := True, numProcessed := 0, numTotal := int (length (pre @ post))\<rparr>) w1 =
      (Returns None, rk, wk, tk) \<and>
    TokenRenewalJob_range d post rk wk = (res, rn, wn, tn) \<longrightarrow>
      Status rk = \<lparr>Completed = int (length pre), Total = int (length (pre @ post))\<rparr> \<and>
      Run TokenRenewalJob d r w = (res, rn\<lparr>running := False\<rparr>, wn, SearchWhereCall TokenRenewalJob_whereClause TokenRenewalJob_whereArgs (limit r) # tk @ tn)"
proof (intro impI, (elim conjE)?)
  assume h:
    "interleaved d (running r) = running r"
    "ctx_Err d w = None"
    "SearchWhere_stores d TokenRenewalJob_whereClause TokenRenewalJob_whereArgs (limit r) w = (Inr (pre @ post), w1)"
    "TokenRenewalJob_range d pre
        (r\<lparr>running := True, numProcessed := 0, numTotal := int (length (pre @ post))\<rparr>) w1 =
      (Returns None, rk, wk, tk)"
    "TokenRenewalJob_range d post rk wk = (res, rn, wn, tn)"
  show "Status rk = \<lparr>Completed = int (length pre), Total = int (length (pre @ post))\<rparr> \<and>
      Run TokenRenewalJob d r w = (res, rn\<lparr>running := False\<rparr>, wn, SearchWhereCall TokenRenewalJob_whereClause TokenRenewalJob_whereArgs (limit r) # tk @ tn)"
    by (rule TokenRenewalJob_live [OF h])
qed

lemma TokenRenewalJob_cancelled:
  assumes "interleaved d (running r) = running r"
    and "ctx_Err d w = Some c"
  shows "Run TokenRenewalJob d r w = (Returns (Some (Wrap c (Run_op TokenRenewalJob) None)), r\<lparr>running := False\<rparr>, w, []) \<and>
      Status (jobAfter (Run TokenRenewalJob d r w)) = Status r"
proof -
  from TokenRenewalJob_Run_cancelled [OF assms] show ?thesis
    unfolding TokenRenewalJob_interface by (simp add: jobAfter_def Status_def)
qed

lemma TokenRenewalJob_cancelled_obj:
  "interleaved d (running r) = running r \<and>
    ctx_Err d w = Some c \<longrightarrow>
      Run TokenRenewalJob d r w = (Returns (Some (Wrap c (Run_op TokenRenewalJob) None)), r\<lparr>running := False\<rparr>, w, []) \<and>
      Status (jobAfter (Run TokenRenewalJob d r w)) = Status r"
proof (intro impI, (elim conjE)?)
  assume h:
    "interleaved d (running r) = running r"
    "ctx_Err d w = Some c"
  show "Run TokenRenewalJob d r w = (Returns (Some (Wrap c (Run_op TokenRenewalJob) None)), r\<lparr>running := False\<rparr>, w, []) \<and>
      Status (jobAfter (Run TokenRenewalJob d r w)) = Status r"
    by (rule TokenRenewalJob_cancelled [OF h])
qed

lemma TokenRenewalJob_rejected:
  assumes "interleaved d (running r) \<noteq> running r"
  shows "Run TokenRenewalJob d r w =
        (Returns (Some (New JobAlreadyRunning (Run_op TokenRenewalJob) ''job already running'')),
         r\<lparr>running := interleaved d (running r)\<rparr>, w, [])"
  unfolding TokenRenewalJob_interface by (rule TokenRenewalJob_Run_rejected [OF assms])

lemma TokenRenewalJob_rejected_obj:
  "interleaved d (running r) \<noteq> running r \<longrightarrow>
      Run TokenRenewalJob d r w =
        (Returns (Some (New JobAlreadyRunning (Run_op TokenRenewalJob) ''job already running'')),
         r\<lparr>running := interleaved d (running r)\<rparr>, w, [])"
proof (intro impI, (elim conjE)?)
  assume h:
    "interleaved d (running r) \<noteq> running r"
  show "Run TokenRenewalJob d r w =
        (Returns (Some (New JobAlreadyRunning (Run_op TokenRenewalJob) ''job already running'')),
         r\<lparr>running := interleaved d (running r)\<rparr>, w, [])"
    by (rule TokenRenewalJob_rejected [OF h])
qed







lemma TokenRenewalJob_counters:
  assumes "interleaved d (running r) = running r"
    and "ctx_Err d w = None"
    and "selection TokenRenewalJob d r w = (Inr n, w1)"
  shows "Total (Status (jobAfter (Run TokenRenewalJob d r w))) = n \<and>
      started (emitted (Run TokenRenewalJob d r w)) \<le> n \<and>
      (returned (Run TokenRenewalJob d r w) \<noteq> Panics \<longrightarrow>
         Completed (Status (jobAfter (Run TokenRenewalJob d r w))) = started (emitted (Run TokenRenewalJob d r w))) \<and>
      (returned (Run TokenRenewalJob d r w) = Panics \<longrightarrow>
         Completed (Status (jobAfter (Run TokenRenewalJob d r w))) = started (emitted (Run TokenRenewalJob d r w)) - 1) \<and>
      (returned (Run TokenRenewalJob d r w) = Returns None \<longrightarrow>
         Status (jobAfter (Run TokenRenewalJob d r w)) = \<lparr>Completed = n, Total = n\<rparr>) \<and>
      (ctx_Err d w1 \<noteq> None \<longrightarrow>
         Status (jobAfter (Run TokenRenewalJob d r w)) = \<lparr>Completed = 0, Total = n\<rparr> \<and>
         started (emitted (Run TokenRenewalJob d r w)) = 0)"
proof -
  from assms(3) obtain ps where sel:
    "SearchWhere_stores d TokenRenewalJob_whereClause TokenRenewalJob_whereArgs (limit r) w = (Inr ps, w1)" and n: "n = int (length ps)"
    unfolding TokenRenewalJob_interface sized_Inr by blast
  obtain res r2 w2 t where run: "TokenRenewalJob_Run d r w = (res, r2, w2, t)"
    by (metis prod_cases4)
  from TokenRenewalJob_Run_counters [OF assms(1) assms(2) sel run] n run
  show ?thesis unfolding TokenRenewalJob_interface returned_def jobAfter_def emitted_def
    by (auto simp: Status_def)
qed

lemma TokenRenewalJob_counters_obj:
  "interleaved d (running r) = running r \<and>
    ctx_Err d w = None \<and>
    selection TokenRenewalJob d r w = (Inr n, w1) \<longrightarrow>
      Total (Status (jobAfter (Run TokenRenewalJob d r w))) = n \<and>
      started (emitted (Run TokenRenewalJob d r w)) \<le> n \<and>
      (returned (Run TokenRenewalJob d r w) \<noteq> Panics \<longrightarrow>
         Completed (Status (jobAfter (Run TokenRenewalJob d r w))) = started (emitted (Run TokenRenewalJob d r w))) \<and>
      (returned (Run TokenRenewalJob d r w) = Panics \<longrightarrow>
         Completed (Status (jobAfter (Run TokenRenewalJob d r w))) = started (emitted (Run TokenRenewalJob d r w)) - 1) \<and>
      (returned (Run TokenRenewalJob d r w) = Returns None \<longrightarrow>
         Status (jobAfter (Run TokenRenewalJob d r w)) = \<lparr>Completed = n, Total = n\<rparr>) \<and>
      (ctx_Err d w1 \<noteq> None \<longrightarrow>
         Status (jobAfter (Run TokenRenewalJob d r w)) = \<lparr>Completed = 0, Total = n\<rparr> \<and>
         started (emitted (Run TokenRenewalJob d r w)) = 0)"
proof (intro impI, (elim conjE)?)
  assume h:
    "interleaved d (running r) = running r"
    "ctx_Err d w = None"
    "selection TokenRenewalJob d r w = (Inr n, w1)"
  show "Total (Status (jobAfter (Run TokenRenewalJob d r w))) = n \<and>
      started (emitted (Run TokenRenewalJob d r w)) \<le> n \<and>
      (returned (Run TokenRenewalJob d r w) \<noteq> Panics \<longrightarrow>
         Completed (Status (jobAfter (Run TokenRenewalJob d r w))) = started (emitted (Run TokenRenewalJob d r w))) \<and>
      (returned (Run TokenRenewalJob d r w) = Panics \<longrightarrow>
         Completed (Status (jobAfter (Run TokenRenewalJob d r w))) = started (emitted (Run TokenRenewalJob d r w)) - 1) \<and>
      (returned (Run TokenRenewalJob d r w) = Returns None \<longrightarrow>
         Status (jobAfter (Run TokenRenewalJob d r w)) = \<lparr>Completed = n, Total = n\<rparr>) \<and>
      (ctx_Err d w1 \<noteq> None \<longrightarrow>
         Status (jobAfter (Run TokenRenewalJob d r w)) = \<lparr>Completed = 0, Total = n\<rparr> \<and>
         started (emitted (Run TokenRenewalJob d r w)) = 0)"
    by (rule TokenRenewalJob_counters [OF h])
qed

lemma TokenRenewalJob_unchanged:
  assumes "(interleaved d (running r) \<noteq> running r \<or> ctx_Err d w \<noteq> None \<or>
     (\<exists>se. fst (selection TokenRenewalJob d r w) = Inl se))"
  shows "Status (jobAfter (Run TokenRenewalJob d r w)) = Status r \<and> started (emitted (Run TokenRenewalJob d r w)) = 0"
  using TokenRenewalJob_Run_unchanged [of d r w] assms
  unfolding TokenRenewalJob_interface jobAfter_def emitted_def sized_Inl by blast

lemma TokenRenewalJob_unchanged_obj:
  "(interleaved d (running r) \<noteq> running r \<or> ctx_Err d w \<noteq> None \<or>
     (\<exists>se. fst (selection TokenRenewalJob d r w) = Inl se)) \<longrightarrow>
      Status (jobAfter (Run TokenRenewalJob d r w)) = Status r \<and> started (emitted (Run TokenRenewalJob d r w)) = 0"
proof (intro impI, (elim conjE)?)
  assume h:
    "(interleaved d (running r) \<noteq> running r \<or> ctx_Err d w \<noteq> None \<or>
     (\<exists>se. fst (selection TokenRenewalJob d r w) = Inl se))"
  show "Status (jobAfter (Run TokenRenewalJob d r w)) = Status r \<and> started (emitted (Run TokenRenewalJob d r w)) = 0"
    by (rule TokenRenewalJob_unchanged [OF h])
qed

lemma TokenRenewalJob_inconsistency:
  assumes "ExecCall q (Inr n) \<in> set (emitted (Run TokenRenewalJob d r w))"
    and "n \<noteq> 1"
  shows "(\<exists>iop msg. errorLogged (New Unknown iop msg) (emitted (Run TokenRenewalJob d r w))) \<and>
      (returned (Run TokenRenewalJob d r w) = Returns None \<or> returned (Run TokenRenewalJob d r w) = Panics \<or>
       (\<exists>c. ctx_Err d (stateAfter (Run TokenRenewalJob d r w)) = Some c \<and>
          returned (Run TokenRenewalJob d r w) = Returns (Some (Wrap c (Run_op TokenRenewalJob) None))))"
proof -
  obtain res r2 w2 t where run: "TokenRenewalJob_Run d r w = (res, r2, w2, t)"
    by (metis prod_cases4)
  with assms(1) have "ExecCall q (Inr n) \<in> set t"
    unfolding TokenRenewalJob_interface emitted_def by simp
  from TokenRenewalJob_Run_inconsistency [OF run this assms(2)] run show ?thesis
    unfolding TokenRenewalJob_interface returned_def emitted_def stateAfter_def by auto
qed

lemma TokenRenewalJob_inconsistency_obj:
  "ExecCall q (Inr n) \<in> set (emitted (Run TokenRenewalJob d r w)) \<and>
    n \<noteq> 1 \<longrightarrow>
      (\<exists>iop msg. errorLogged (New Unknown iop msg) (emitted (Run TokenRenewalJob d r w))) \<and>
      (returned (Run TokenRenewalJob d r w) = Returns None \<or> returned (Run TokenRenewalJob d r w) = Panics \<or>
       (\<exists>c. ctx_Err d (stateAfter (Run TokenRenewalJob d r w)) = Some c \<and>
          returned (Run TokenRenewalJob d r w) = Returns (Some (Wrap c (Run_op TokenRenewalJob) None))))"
proof (intro impI, (elim conjE)?)
  assume h:
    "ExecCall q (Inr n) \<in> set (emitted (Run TokenRenewalJob d r w))"
    "n \<noteq> 1"
  show "(\<exists>iop msg. errorLogged (New Unknown iop msg) (emitted (Run TokenRenewalJob d r w))) \<and>
      (returned (Run TokenRenewalJob d r w) = Returns None \<or> returned (Run TokenRenewalJob d r w) = Panics \<or>
       (\<exists>c. ctx_Err d (stateAfter (Run TokenRenewalJob d r w)) = Some c \<and>
          returned (Run TokenRenewalJob d r w) = Returns (Some (Wrap c (Run_op TokenRenewalJob) None))))"
    by (rule TokenRenewalJob_inconsistency [OF h])
qed

subsection \<open>TokenRevocationJob behind the interface\<close>

lemma TokenRevocationJob_interface:
  "Run TokenRevocationJob = TokenRevocationJob_Run"
  "Run_op TokenRevocationJob = ''vault.(TokenRevocationJob).Run''"
  "selection TokenRevocationJob d r w = sized (SearchWhere_stores d TokenRevocationJob_whereClause TokenRevocationJob_whereArgs (limit r) w)"
  by (simp_all add: Run_def Run_op_def selection_def)

lemma TokenRevocationJob_interface_rejects_iff:
  "returned (Run TokenRevocationJob d r w) =
     Returns (Some (New JobAlreadyRunning (Run_op TokenRevocationJob) ''job already running'')) \<longleftrightarrow>
   interleaved d (running r) \<noteq> running r"
  unfolding TokenRevocationJob_interface returned_def by (rule TokenRevocationJob_Run_rejects_iff)

lemma TokenRevocationJob_interface_flag:
  "running (jobAfter (Run TokenRevocationJob d r w)) =
   (if interleaved d (running r) = running r then False else interleaved d (running r))"
  unfolding TokenRevocationJob_interface jobAfter_def by (rule TokenRevocationJob_Run_flag)

lemma TokenRevocationJob_mid_cancel:
  assumes "interleaved d (running r) = running r"
    and "ctx_Err d w = None"
    and "SearchWhere_stores d TokenRevocationJob_whereClause TokenRevocationJob_whereArgs (limit r) w = (Inr (pre @ s # post), w1)"
    and "TokenRevocationJob_range d pre
        (r\<lparr>running := True, numProcessed := 0, numTotal := int (length (pre @ s # post))\<rparr>) w1 =
      (Returns None, rk, wk, tk)"
    and "ctx_Err d wk = Some c"
  shows "Run TokenRevocationJob d r w =
        (Returns (Some (Wrap c ''vault.(TokenRevocationJob).Run'' None)), rk\<lparr>running := False\<rparr>, wk, SearchWhereCall TokenRevocationJob_whereClause TokenRevocationJob_whereArgs (limit r) # tk) \<and>
      started tk = int (length pre) \<and>
      Status rk = \<lparr>Completed = int (length pre), Total = int (length (pre @ s # post))\<rparr>"
proof -
  have rng: "TokenRevocationJob_range d (s # post) rk wk =
      (Returns (Some (Wrap c ''vault.(TokenRevocationJob).Run'' None)), rk, wk, [])"
    by (rule TokenRevocationJob_range_cancelled [OF assms(5)])
  from TokenRevocationJob_Run_split [OF assms(1-4) rng] TokenRevocationJob_range_prefix [OF assms(4)]
  show ?thesis unfolding TokenRevocationJob_interface by simp
qed

lemma TokenRevocationJob_mid_cancel_obj:
  "interleaved d (running r) = running r \<and>
    ctx_Err d w = None \<and>
    SearchWhere_stores d TokenRevocationJob_whereClause TokenRevocationJob_whereArgs (limit r) w = (Inr (pre @ s # post), w1) \<and>
    TokenRevocationJob_range d pre
        (r\<lparr>running := True, numProcessed := 0, numTotal := int (length (pre @ s # post))\<rparr>) w1 =
      (Returns None, rk, wk, tk) \<and>
    ctx_Err d wk = Some c \<longrightarrow>
      Run TokenRevocationJob d r w =
        (Returns (Some (Wrap c ''vault.(TokenRevocationJob).Run'' None)), rk\<lparr>running := False\<rparr>, wk, SearchWhereCall TokenRevocationJob_whereClause TokenRevocationJob_whereArgs (limit r) # tk) \<and>
      started tk = int (length pre) \<and>
      Status rk = \<lparr>Completed = int (length pre), Total = int (length (pre @ s # post))\<rparr>"
proof (intro impI, (elim conjE)?)
  assume h:
    "interleaved d (running r) = running r"
    "ctx_Err d w = None"
    "SearchWhere_stores d TokenRevocationJob_whereClause TokenRevocationJob_whereArgs (limit r) w = (Inr (pre @ s # post), w1)"
    "TokenRevocationJob_range d pre
        (r\<lparr>running := True, numProcessed := 0, numTotal := int (length (pre @ s # post))\<rparr>) w1 =
      (Returns None, rk, wk, tk)"
    "ctx_Err d wk = Some c"
  show "Run TokenRevocationJob d r w =
        (Returns (Some (Wrap c ''vault.(TokenRevocationJob).Run'' None)), rk\<lparr>running := False\<rparr>, wk, SearchWhereCall TokenRevocationJob_whereClause TokenRevocationJob_whereArgs (limit r) # tk) \<and>
      started tk = int (length pre) \<and>
      Status rk = \<lparr>Completed = int (length pre), Total = int (length (pre @ s # post))\<rparr>"
    by (rule TokenRevocationJob_mid_cancel [OF h])
qed

lemma TokenRevocationJob_failed_item:
  assumes "interleaved d (running r) = running r"
    and "ctx_Err d w = None"
    and "SearchWhere_stores d TokenRevocationJob_whereClause TokenRevocationJob_whereArgs (limit r) w = (Inr (pre @ s # post), w1)"
    and "TokenRevocationJob_range d pre
        (r\<lparr>running := True, numProcessed := 0, numTotal := int (length (pre @ s # post))\<rparr>) w1 =
      (Returns None, rk, wk, tk)"
    and "ctx_Err d wk = None"
    and "revokeToken d s wk = (Some err, s1, wk1, te)"
    and "TokenRevocationJob_range d post (rk\<lparr>numProcessed := numProcessed rk + 1\<rparr>) wk1 = (res, rn, wn, tn)"
  shows "Run TokenRevocationJob d r w =
        (res, rn\<lparr>running := False\<rparr>, wn,
         SearchWhereCall TokenRevocationJob_whereClause TokenRevocationJob_whereArgs (limit r) # tk @ te @ [TokenRevocationJob_entry s1 err] @ tn) \<and>
      numProcessed rk = int (length pre)"
proof -
  have rng: "TokenRevocationJob_range d (s # post) rk wk = (res, rn, wn, te @ [TokenRevocationJob_entry s1 err] @ tn)"
    using assms(5-7) by (simp add: TokenRevocationJob_entry_def)
  from TokenRevocationJob_Run_split [OF assms(1-4) rng] TokenRevocationJob_range_prefix [OF assms(4)]
  show ?thesis unfolding TokenRevocationJob_interface by (simp add: Status_def)
qed


lemma TokenRevocationJob_inconsistent_item:
  assumes "interleaved d (running r) = running r"
    and "ctx_Err d w = None"
    and "SearchWhere_stores d TokenRevocationJob_whereClause TokenRevocationJob_whereArgs (limit r) w = (Inr (pre @ s # post), w1)"
    and "TokenRevocationJob_range d pre
        (r\<lparr>running := True, numProcessed := 0, numTotal := int (length (pre @ s # post))\<rparr>) w1 =
      (Returns None, rk, wk, tk)"
    and "ctx_Err d wk = None"
    and "revokeToken d s wk = (ires, s1, wk1, te)"
    and "ExecCall q (Inr n) \<in> set te"
    and "n \<noteq> 1"
    and "TokenRevocationJob_range d post (rk\<lparr>numProcessed := numProcessed rk + 1\<rparr>) wk1 = (res, rn, wn, tn)"
  shows "(\<exists>msg. ires = Some (New Unknown ''vault.(TokenRevocationJob).revokeToken'' msg) \<and>
         Run TokenRevocationJob d r w =
           (res, rn\<lparr>running := False\<rparr>, wn,
            SearchWhereCall TokenRevocationJob_whereClause TokenRevocationJob_whereArgs (limit r) # tk @ te @
            [TokenRevocationJob_entry s1 (New Unknown ''vault.(TokenRevocationJob).revokeToken'' msg)] @ tn)) \<and>
      numProcessed rk = int (length pre)"
proof -
  from revokeToken_inconsistency [OF assms(6) assms(7) assms(8)]
  obtain msg where m: "ires = Some (New Unknown ''vault.(TokenRevocationJob).revokeToken'' msg)" by blast
  with assms(6) have it: "revokeToken d s wk = (Some (New Unknown ''vault.(TokenRevocationJob).revokeToken'' msg), s1, wk1, te)"
    by simp
  from TokenRevocationJob_failed_item [OF assms(1-5) it assms(9)] m show ?thesis by blast
qed

lemma TokenRevocationJob_inconsistent_item_obj:
  "interleaved d (running r) = running r \<and>
    ctx_Err d w = None \<and>
    SearchWhere_stores d TokenRevocationJob_whereClause TokenRevocationJob_whereArgs (limit r) w = (Inr (pre @ s # post), w1) \<and>
    TokenRevocationJob_range d pre
        (r\<lparr>running := True, numProcessed := 0, numTotal := int (length (pre @ s # post))\<rparr>) w1 =
      (Returns None, rk, wk, tk) \<and>
    ctx_Err d wk = None \<and>
    revokeToken d s wk = (ires, s1, wk1, te) \<and>
    ExecCall q (Inr n) \<in> set te \<and>
    n \<noteq> 1 \<and>
    TokenRevocationJob_range d post (rk\<lparr>numProcessed := numProcessed rk + 1\<rparr>) wk1 = (res, rn, wn, tn) \<longrightarrow>
      (\<exists>msg. ires = Some (New Unknown ''vault.(TokenRevocationJob).revokeToken'' msg) \<and>
         Run TokenRevocationJob d r w =
           (res, rn\<lparr>running := False\<rparr>, wn,
            SearchWhereCall TokenRevocationJob_whereClause TokenRevocationJob_whereArgs (limit r) # tk @ te @
            [TokenRevocationJob_entry s1 (New Unknown ''vault.(TokenRevocationJob).revokeToken'' msg)] @ tn)) \<and>
      numProcessed rk = int (length pre)"
proof (intro impI, (elim conjE)?)
  assume h:
    "interleaved d (running r) = running r"
    "ctx_Err d w = None"
    "SearchWhere_stores d TokenRevocationJob_whereClause TokenRevocationJob_whereArgs (limit r) w = (Inr (pre @ s # post), w1)"
    "TokenRevocationJob_range d pre
        (r\<lparr>running := True, numProcessed := 0, numTotal := int (length (pre @ s # post))\<rparr>) w1 =
      (Returns None, rk, wk, tk)"
    "ctx_Err d wk = None"
    "revokeToken d s wk = (ires, s1, wk1, te)"
    "ExecCall q (Inr n) \<in> set te"
    "n \<noteq> 1"
    "TokenRevocationJob_range d post (rk\<lparr>numProcessed := numProcessed rk + 1\<rparr>) wk1 = (res, rn, wn, tn)"
  show "(\<exists>msg. ires = Some (New Unknown ''vault.(TokenRevocationJob).revokeToken'' msg) \<and>
         Run TokenRevocationJob d r w =
           (res, rn\<lparr>running := False\<rparr>, wn,
            SearchWhereCall TokenRevocationJob_whereClause TokenRevocationJob_whereArgs (limit r) # tk @ te @
            [TokenRevocationJob_entry s1 (New Unknown ''vault.(TokenRevocationJob).revokeToken'' msg)] @ tn)) \<and>
      numProcessed rk = int (length pre)"
    by (rule TokenRevocationJob_inconsistent_item [OF h])
qed

lemma TokenRevocationJob_live:
  assumes "interleaved d (running r) = running r"
    and "ctx_Err d w = None"
    and "SearchWhere_stores d TokenRevocationJob_whereClause TokenRevocationJob_whereArgs (limit r) w = (Inr (pre @ post), w1)"
    and "TokenRevocationJob_range d pre
        (r\<lparr>running := True, numProcessed := 0, numTotal := int (length (pre @ post))\<rparr>) w1 =
      (Returns None, rk, wk, tk)"
    and "TokenRevocationJob_range d post rk wk = (res, rn, wn, tn)"
  shows "Status rk = \<lparr>Completed = int (length pre), Total = int (length (pre @ post))\<rparr> \<and>
      Run TokenRevocationJob d r w = (res, rn\<lparr>running := False\<rparr>, wn, SearchWhereCall TokenRevocationJob_whereClause TokenRevocationJob_whereArgs (limit r) # tk @ tn)"
proof -
  from TokenRevocationJob_Run_split [OF assms(1-5)] TokenRevocationJob_range_prefix [OF assms(4)]
  show ?thesis unfolding TokenRevocationJob_interface by simp
qed

lemma TokenRevocationJob_live_obj:
  "interleaved d (running r) = running r \<and>
    ctx_Err d w = None \<and>
    SearchWhere_stores d TokenRevocationJob_whereClause TokenRevocationJob_whereArgs (limit r) w = (Inr (pre @ post), w1) \<and>
    TokenRevocationJob_range d pre
        (r\<lparr>running := True, numProcessed := 0, numTotal := int (length (pre @ post))\<rparr>) w1 =
      (Returns None, rk, wk, tk) \<and>
    TokenRevocationJob_range d post rk wk = (res, rn, wn, tn) \<longrightarrow>
      Status rk = \<lparr>Completed = int (length pre), Total = int (length (pre @ post))\<rparr> \<and>
      Run TokenRevocationJob d r w = (res, rn\<lparr>running := False\<rparr>, wn, SearchWhereCall TokenRevocationJob_whereClause TokenRevocationJob_whereArgs (limit r) # tk @ tn)"
proof (intro impI, (elim conjE)?)
  assume h:
    "interleaved d (running r) = running r"
    "ctx_Err d w = None"
    "SearchWhere_stores d TokenRevocationJob_whereClause TokenRevocationJob_whereArgs (limit r) w = (Inr (pre @ post), w1)"
    "TokenRevocationJob_range d pre
        (r\<lparr>running := True, numProcessed := 0, numTotal := int (length (pre @ post))\<rparr>) w1 =
      (Returns None, rk, wk, tk)"
    "TokenRevocationJob_range d post rk wk = (res, rn, wn, tn)"
  show "Status rk = \<lparr>Completed = int (length pre), Total = int (length (pre @ post))\<rparr> \<and>
      Run TokenRevocationJob d r w = (res, rn\<lparr>running := False\<rparr>, wn, SearchWhereCall TokenRevocationJob_whereClause TokenRevocationJob_whereArgs (limit r) # tk @ tn)"
    by (rule TokenRevocationJob_live [OF h])
qed

lemma TokenRevocationJob_cancelled:
  assumes "interleaved d (running r) = running r"
    and "ctx_Err d w = Some c"
  shows "Run TokenRevocationJob d r w = (Returns (Some (Wrap c (Run_op TokenRevocationJob) None)), r\<lparr>running := False\<rparr>, w, []) \<and>
      Status (jobAfter (Run TokenRevocationJob d r w)) = Status r"
proof -
  from TokenRevocationJob_Run_cancelled [OF assms] show ?thesis
    unfolding TokenRevocationJob_interface by (simp add: jobAfter_def Status_def)
qed

lemma TokenRevocationJob_cancelled_obj:
  "interleaved d (running r) = running r \<and>
    ctx_Err d w = Some c \<longrightarrow>
      Run TokenRevocationJob d r w = (Returns (Some (Wrap c (Run_op TokenRevocationJob) None)), r\<lparr>running := False\<rparr>, w, []) \<and>
      Status (jobAfter (Run TokenRevocationJob d r w)) = Status r"
proof (intro impI, (elim conjE)?)
  assume h:
    "interleaved d (running r) = running r"
    "ctx_Err d w = Some c"
  show "Run TokenRevocationJob d r w = (Returns (Some (Wrap c (Run_op TokenRevocationJob) None)), r\<lparr>running := False\<rparr>, w, []) \<and>
      Status (jobAfter (Run TokenRevocationJob d r w)) = Status r"
    by (rule TokenRevocationJob_cancelled [OF h])
qed

lemma TokenRevocationJob_rejected:
  assumes "interleaved d (running r) \<noteq> running r"
  shows "Run TokenRevocationJob d r w =
        (Returns (Some (New JobAlreadyRunning (Run_op TokenRevocationJob) ''job already running'')),
         r\<lparr>running := interleaved d (running r)\<rparr>, w, [])"
  unfolding TokenRevocationJob_interface by (rule TokenRevocationJob_Run_rejected [OF assms])

lemma TokenRevocationJob_rejected_obj:
  "interleaved d (running r) \<noteq> running r \<longrightarrow>
      Run TokenRevocationJob d r w =
        (Returns (Some (New JobAlreadyRunning (Run_op TokenRevocationJob) ''job already running'')),
         r\<lparr>running := interleaved d (running r)\<rparr>, w, [])"
proof (intro impI, (elim conjE)?)
  assume h:
    "interleaved d (running r) \<noteq> running r"
  show "Run TokenRevocationJob d r w =
        (Returns (Some (New JobAlreadyRunning (Run_op TokenRevocationJob) ''job already running'')),
         r\<lparr>running := interleaved d (running r)\<rparr>, w, [])"
    by (rule TokenRevocationJob_rejected [OF h])
qed







lemma TokenRevocationJob_counters:
  assumes "interleaved d (running r) = running r"
    and "ctx_Err d w = None"
    and "selection TokenRevocationJob d r w = (Inr n, w1)"
  shows "Total (Status (jobAfter (Run TokenRevocationJob d r w))) = n \<and>
      started (emitted (Run TokenRevocationJob d r w)) \<le> n \<and>
      (returned (Run TokenRevocationJob d r w) \<noteq> Panics \<longrightarrow>
         Completed (Status (jobAfter (Run TokenRevocationJob d r w))) = started (emitted (Run TokenRevocationJob d r w))) \<and>
      (returned (Run TokenRevocationJob d r w) = Panics \<longrightarrow>
         Completed (Status (jobAfter (Run TokenRevocationJob d r w))) = started (emitted (Run TokenRevocationJob d r w)) - 1) \<and>
      (returned (Run TokenRevocationJob d r w) = Returns None \<longrightarrow>
         Status (jobAfter (Run TokenRevocationJob d r w)) = \<lparr>Completed = n, Total = n\<rparr>) \<and>
      (ctx_Err d w1 \<noteq> None \<longrightarrow>
         Status (jobAfter (Run TokenRevocationJob d r w)) = \<lparr>Completed = 0, Total = n\<rparr> \<and>
         started (emitted (Run TokenRevocationJob d r w)) = 0)"
proof -
  from assms(3) obtain ps where sel:
    "SearchWhere_stores d TokenRevocationJob_whereClause TokenRevocationJob_whereArgs (limit r) w = (Inr ps, w1)" and n: "n = int (length ps)"
    unfolding TokenRevocationJob_interface sized_Inr by blast
  obtain res r2 w2 t where run: "TokenRevocationJob_Run d r w = (res, r2, w2, t)"
    by (metis prod_cases4)
  from TokenRevocationJob_Run_counters [OF assms(1) assms(2) sel run] n run
  show ?thesis unfolding TokenRevocationJob_interface returned_def jobAfter_def emitted_def
    by (auto simp: Status_def)
qed

lemma TokenRevocationJob_counters_obj:
  "interleaved d (running r) = running r \<and>
    ctx_Err d w = None \<and>
    selection TokenRevocationJob d r w = (Inr n, w1) \<longrightarrow>
      Total (Status (jobAfter (Run TokenRevocationJob d r w))) = n \<and>
      started (emitted (Run TokenRevocationJob d r w)) \<le> n \<and>
      (returned (Run TokenRevocationJob d r w) \<noteq> Panics \<longrightarrow>
         Completed (Status (jobAfter (Run TokenRevocationJob d r w))) = started (emitted (Run TokenRevocationJob d r w))) \<and>
      (returned (Run TokenRevocationJob d r w) = Panics \<longrightarrow>
         Completed (Status (jobAfter (Run TokenRevocationJob d r w))) = started (emitted (Run TokenRevocationJob d r w)) - 1) \<and>
      (returned (Run TokenRevocationJob d r w) = Returns None \<longrightarrow>
         Status (jobAfter (Run TokenRevocationJob d r w)) = \<lparr>Completed = n, Total = n\<rparr>) \<and>
      (ctx_Err d w1 \<noteq> None \<longrightarrow>
         Status (jobAfter (Run TokenRevocationJob d r w)) = \<lparr>Completed = 0, Total = n\<rparr> \<and>
         started (emitted (Run TokenRevocationJob d r w)) = 0)"
proof (intro impI, (elim conjE)?)
  assume h:
    "interleaved d (running r) = running r"
    "ctx_Err d w = None"
    "selection TokenRevocationJob d r w = (Inr n, w1)"
  show "Total (Status (jobAfter (Run TokenRevocationJob d r w))) = n \<and>
      started (emitted (Run TokenRevocationJob d r w)) \<le> n \<and>
      (returned (Run TokenRevocationJob d r w) \<noteq> Panics \<longrightarrow>
         Completed (Status (jobAfter (Run TokenRevocationJob d r w))) = started (emitted (Run TokenRevocationJob d r w))) \<and>
      (returned (Run TokenRevocationJob d r w) = Panics \<longrightarrow>
         Completed (Status (jobAfter (Run TokenRevocationJob d r w))) = started (emitted (Run TokenRevocationJob d r w)) - 1) \<and>
      (returned (Run TokenRevocationJob d r w) = Returns None \<longrightarrow>
         Status (jobAfter (Run TokenRevocationJob d r w)) = \<lparr>Completed = n, Total = n\<rparr>) \<and>
      (ctx_Err d w1 \<noteq> None \<longrightarrow>
         Status (jobAfter (Run TokenRevocationJob d r w)) = \<lparr>Completed = 0, Total = n\<rparr> \<and>
         started (emitted (Run TokenRevocationJob d r w)) = 0)"
    by (rule TokenRevocationJob_counters [OF h])
qed

lemma TokenRevocationJob_unchanged:
  assumes "(interleaved d (running r) \<noteq> running r \<or> ctx_Err d w \<noteq> None \<or>
     (\<exists>se. fst (selection TokenRevocationJob d r w) = Inl se))"
  shows "Status (jobAfter (Run TokenRevocationJob d r w)) = Status r \<and> started (emitted (Run TokenRevocationJob d r w)) = 0"
  using TokenRevocationJob_Run_unchanged [of d r w] assms
  unfolding TokenRevocationJob_interface jobAfter_def emitted_def sized_Inl by blast

lemma TokenRevocationJob_unchanged_obj:
  "(interleaved d (running r) \<noteq> running r \<or> ctx_Err d w \<noteq> None \<or>
     (\<exists>se. fst (selection TokenRevocationJob d r w) = Inl se)) \<longrightarrow>
      Status (jobAfter (Run TokenRevocationJob d r w)) = Status r \<and> started (emitted (Run TokenRevocationJob d r w)) = 0"
proof (intro impI, (elim conjE)?)
  assume h:
    "(interleaved d (running r) \<noteq> running r \<or> ctx_Err d w \<noteq> None \<or>
     (\<exists>se. fst (selection TokenRevocationJob d r w) = Inl se))"
  show "Status (jobAfter (Run TokenRevocationJob d r w)) = Status r \<and> started (emitted (Run TokenRevocationJob d r w)) = 0"
    by (rule TokenRevocationJob_unchanged [OF h])
qed

lemma TokenRevocationJob_inconsistency:
  assumes "ExecCall q (Inr n) \<in> set (emitted (Run TokenRevocationJob d r w))"
    and "n \<noteq> 1"
  shows "(\<exists>iop msg. errorLogged (New Unknown iop msg) (emitted (Run TokenRevocationJob d r w))) \<and>
      (returned (Run TokenRevocationJob d r w) = Returns None \<or> returned (Run TokenRevocationJob d r w) = Panics \<or>
       (\<exists>c. ctx_Err d (stateAfter (Run TokenRevocationJob d r w)) = Some c \<and>
          returned (Run TokenRevocationJob d r w) = Returns (Some (Wrap c (Run_op TokenRevocationJob) None))))"
proof -
  obtain res r2 w2 t where run: "TokenRevocationJob_Run d r w = (res, r2, w2, t)"
    by (metis prod_cases4)
  with assms(1) have "ExecCall q (Inr n) \<in> set t"
    unfolding TokenRevocationJob_interface emitted_def by simp
  from TokenRevocationJob_Run_inconsistency [OF run this assms(2)] run show ?thesis
    unfolding TokenRevocationJob_interface returned_def emitted_def stateAfter_def by auto
qed

lemma TokenRevocationJob_inconsistency_obj:
  "ExecCall q (Inr n) \<in> set (emitted (Run TokenRevocationJob d r w)) \<and>
    n \<noteq> 1 \<longrightarrow>
      (\<exists>iop msg. errorLogged (New Unknown iop msg) (emitted (Run TokenRevocationJob d r w))) \<and>
      (returned (Run TokenRevocationJob d r w) = Returns None \<or> returned (Run TokenRevocationJob d r w) = Panics \<or>
       (\<exists>c. ctx_Err d (stateAfter (Run TokenRevocationJob d r w)) = Some c \<and>
          returned (Run TokenRevocationJob d r w) = Returns (Some (Wrap c (Run_op TokenRevocationJob) None))))"
proof (intro impI, (elim conjE)?)
  assume h:
    "ExecCall q (Inr n) \<in> set (emitted (Run TokenRevocationJob d r w))"
    "n \<noteq> 1"
  show "(\<exists>iop msg. errorLogged (New Unknown iop msg) (emitted (Run TokenRevocationJob d r w))) \<and>
      (returned (Run TokenRevocationJob d r w) = Returns None \<or> returned (Run TokenRevocationJob d r w) = Panics \<or>
       (\<exists>c. ctx_Err d (stateAfter (Run TokenRevocationJob d r w)) = Some c \<and>
          returned (Run TokenRevocationJob d r w) = Returns (Some (Wrap c (Run_op TokenRevocationJob) None))))"
    by (rule TokenRevocationJob_inconsistency [OF h])
qed

subsection \<open>CredentialRenewalJob behind the interface\<close>

lemma CredentialRenewalJob_interface:
  "Run CredentialRenewalJob = CredentialRenewalJob_Run"
  "Run_op CredentialRenewalJob = ''vault.(CredentialRenewalJob).Run''"
  "selection CredentialRenewalJob d r w = sized (SearchWhere_creds d CredentialRenewalJob_whereClause CredentialRenewalJob_whereArgs (limit r) w)"
  by (simp_all add: Run_def Run_op_def selection_def)

lemma CredentialRenewalJob_interface_rejects_iff:
  "returned (Run CredentialRenewalJob d r w) =
     Returns (Some (New JobAlreadyRunning (Run_op CredentialRenewalJob) ''job already running'')) \<longleftrightarrow>
   interleaved d (running r) \<noteq> running r"
  unfolding CredentialRenewalJob_interface returned_def by (rule CredentialRenewalJob_Run_rejects_iff)

lemma CredentialRenewalJob_interface_flag:
  "running (jobAfter (Run CredentialRenewalJob d r w)) =
   (if interleaved d (running r) = running r then False else interleaved d (running r))"
  unfolding CredentialRenewalJob_interface jobAfter_def by (rule CredentialRenewalJob_Run_flag)

lemma CredentialRenewalJob_mid_cancel:
  assumes "interleaved d (running r) = running r"
    and "ctx_Err d w = None"
    and "SearchWhere_creds d CredentialRenewalJob_whereClause CredentialRenewalJob_whereArgs (limit r) w = (Inr (cpre @ cr # cpost), w1)"
    and "CredentialRenewalJob_range d cpre
        (r\<lparr>running := True, numProcessed := 0, numTotal := int (length (cpre @ cr # cpost))\<rparr>) w1 =
      (Returns None, rk, wk, tk)"
    and "ctx_Err d wk = Some c"
  shows "Run CredentialRenewalJob d r w =
        (Returns (Some (Wrap c ''vault.(CredentialRenewalJob).Run'' None)), rk\<lparr>running := False\<rparr>, wk, SearchWhereCall CredentialRenewalJob_whereClause CredentialRenewalJob_whereArgs (limit r) # tk) \<and>
      started tk = int (length cpre) \<and>
      Status rk = \<lparr>Completed = int (length cpre), Total = int (length (cpre @ cr # cpost))\<rparr>"
proof -
  have rng: "CredentialRenewalJob_range d (cr # cpost) rk wk =
      (Returns (Some (Wrap c ''vault.(CredentialRenewalJob).Run'' None)), rk, wk, [])"
    by (rule CredentialRenewalJob_range_cancelled [OF assms(5)])
  from CredentialRenewalJob_Run_split [OF assms(1-4) rng] CredentialRenewalJob_range_prefix [OF assms(4)]
  show ?thesis unfolding CredentialRenewalJob_interface by simp
qed

lemma CredentialRenewalJob_mid_cancel_obj:
  "interleaved d (running r) = running r \<and>
    ctx_Err d w = None \<and>
    SearchWhere_creds d CredentialRenewalJob_whereClause CredentialRenewalJob_whereArgs (limit r) w = (Inr (cpre @ cr # cpost), w1) \<and>
    CredentialRenewalJob_range d cpre
        (r\<lparr>running := True, numProcessed := 0, numTotal := int (length (cpre @ cr # cpost))\<rparr>) w1 =
      (Returns None, rk, wk, tk) \<and>
    ctx_Err d wk = Some c \<longrightarrow>
      Run CredentialRenewalJob d r w =
        (Returns (Some (Wrap c ''vault.(CredentialRenewalJob).Run'' None)), rk\<lparr>running := False\<rparr>, wk, SearchWhereCall CredentialRenewalJob_whereClause CredentialRenewalJob_whereArgs (limit r) # tk) \<and>
      started tk = int (length cpre) \<and>
      Status rk = \<lparr>Completed = int (length cpre), Total = int (length (cpre @ cr # cpost))\<rparr>"
proof (intro impI, (elim conjE)?)
  assume h:
    "interleaved d (running r) = running r"
    "ctx_Err d w = None"
    "SearchWhere_creds d CredentialRenewalJob_whereClause CredentialRenewalJob_whereArgs (limit r) w = (Inr (cpre @ cr # cpost), w1)"
    "CredentialRenewalJob_range d cpre
        (r\<lparr>running := True, numProcessed := 0, numTotal := int (length (cpre @ cr # cpost))\<rparr>) w1 =
      (Returns None, rk, wk, tk)"
    "ctx_Err d wk = Some c"
  show "Run CredentialRenewalJob d r w =
        (Returns (Some (Wrap c ''vault.(CredentialRenewalJob).Run'' None)), rk\<lparr>running := False\<rparr>, wk, SearchWhereCall CredentialRenewalJob_whereClause CredentialRenewalJob_whereArgs (limit r) # tk) \<and>
      started tk = int (length cpre) \<and>
      Status rk = \<lparr>Completed = int (length cpre), Total = int (length (cpre @ cr # cpost))\<rparr>"
    by (rule CredentialRenewalJob_mid_cancel [OF h])
qed

lemma CredentialRenewalJob_failed_item:
  assumes "interleaved d (running r) = running r"
    and "ctx_Err d w = None"
    and "SearchWhere_creds d CredentialRenewalJob_whereClause CredentialRenewalJob_whereArgs (limit r) w = (Inr (cpre @ cr # cpost), w1)"
    and "CredentialRenewalJob_range d cpre
        (r\<lparr>running := True, numProcessed := 0, numTotal := int (length (cpre @ cr # cpost))\<rparr>) w1 =
      (Returns None, rk, wk, tk)"
    and "ctx_Err d wk = None"
    and "renewCred d cr wk = (Returns (Some err), cr1, wk1, te)"
    and "CredentialRenewalJob_range d cpost (rk\<lparr>numProcessed := numProcessed rk + 1\<rparr>) wk1 = (res, rn, wn, tn)"
  shows "Run CredentialRenewalJob d r w =
        (res, rn\<lparr>running := False\<rparr>, wn,
         SearchWhereCall CredentialRenewalJob_whereClause CredentialRenewalJob_whereArgs (limit r) # tk @ te @ [CredentialRenewalJob_entry cr1 err] @ tn) \<and>
      numProcessed rk = int (length cpre)"
proof -
  have rng: "CredentialRenewalJob_range d (cr # cpost) rk wk = (res, rn, wn, te @ [CredentialRenewalJob_entry cr1 err] @ tn)"
    using assms(5-7) by (simp add: CredentialRenewalJob_entry_def)
  from CredentialRenewalJob_Run_split [OF assms(1-4) rng] CredentialRenewalJob_range_prefix [OF assms(4)]
  show ?thesis unfolding CredentialRenewalJob_interface by (simp add: Status_def)
qed


lemma CredentialRenewalJob_inconsistent_item:
  assumes "interleaved d (running r) = running r"
    and "ctx_Err d w = None"
    and "SearchWhere_creds d CredentialRenewalJob_whereClause CredentialRenewalJob_whereArgs (limit r) w = (Inr (cpre @ cr # cpost), w1)"
    and "CredentialRenewalJob_range d cpre
        (r\<lparr>running := True, numProcessed := 0, numTotal := int (length (cpre @ cr # cpost))\<rparr>) w1 =
      (Returns None, rk, wk, tk)"
    and "ctx_Err d wk = None"
    and "renewCred d cr wk = (io, cr1, wk1, te)"
    and "ExecCall q (Inr n) \<in> set te"
    and "n \<noteq> 1"
    and "CredentialRenewalJob_range d cpost (rk\<lparr>numProcessed := numProcessed rk + 1\<rparr>) wk1 = (res, rn, wn, tn)"
  shows "(\<exists>msg. io = Returns (Some (New Unknown ''vault.(CredentialRenewalJob).renewCred'' msg)) \<and>
         Run CredentialRenewalJob d r w =
           (res, rn\<lparr>running := False\<rparr>, wn,
            SearchWhereCall CredentialRenewalJob_whereClause CredentialRenewalJob_whereArgs (limit r) # tk @ te @
            [CredentialRenewalJob_entry cr1 (New Unknown ''vault.(CredentialRenewalJob).renewCred'' msg)] @ tn)) \<and>
      numProcessed rk = int (length cpre)"
proof -
  from renewCred_inconsistency [OF assms(6) assms(7) assms(8)]
  obtain msg where m: "io = Returns (Some (New Unknown ''vault.(CredentialRenewalJob).renewCred'' msg))" by blast
  with assms(6) have it: "renewCred d cr wk = (Returns (Some (New Unknown ''vault.(CredentialRenewalJob).renewCred'' msg)), cr1, wk1, te)"
    by simp
  from CredentialRenewalJob_failed_item [OF assms(1-5) it assms(9)] m show ?thesis by blast
qed

lemma CredentialRenewalJob_inconsistent_item_obj:
  "interleaved d (running r) = running r \<and>
    ctx_Err d w = None \<and>
    SearchWhere_creds d CredentialRenewalJob_whereClause CredentialRenewalJob_whereArgs (limit r) w = (Inr (cpre @ cr # cpost), w1) \<and>
    CredentialRenewalJob_range d cpre
        (r\<lparr>running := True, numProcessed := 0, numTotal := int (length (cpre @ cr # cpost))\<rparr>) w1 =
      (Returns None, rk, wk, tk) \<and>
    ctx_Err d wk = None \<and>
    renewCred d cr wk = (io, cr1, wk1, te) \<and>
    ExecCall q (Inr n) \<in> set te \<and>
    n \<noteq> 1 \<and>
    CredentialRenewalJob_range d cpost (rk\<lparr>numProcessed := numProcessed rk + 1\<rparr>) wk1 = (res, rn, wn, tn) \<longrightarrow>
      (\<exists>msg. io = Returns (Some (New Unknown ''vault.(CredentialRenewalJob).renewCred'' msg)) \<and>
         Run CredentialRenewalJob d r w =
           (res, rn\<lparr>running := False\<rparr>, wn,
            SearchWhereCall CredentialRenewalJob_whereClause CredentialRenewalJob_whereArgs (limit r) # tk @ te @
            [CredentialRenewalJob_entry cr1 (New Unknown ''vault.(CredentialRenewalJob).renewCred'' msg)] @ tn)) \<and>
      numProcessed rk = int (length cpre)"
proof (intro impI, (elim conjE)?)
  assume h:
    "interleaved d (running r) = running r"
    "ctx_Err d w = None"
    "SearchWhere_creds d CredentialRenewalJob_whereClause CredentialRenewalJob_whereArgs (limit r) w = (Inr (cpre @ cr # cpost), w1)"
    "CredentialRenewalJob_range d cpre
        (r\<lparr>running := True, numProcessed := 0, numTotal := int (length (cpre @ cr # cpost))\<rparr>) w1 =
      (Returns None, rk, wk, tk)"
    "ctx_Err d wk = None"
    "renewCred d cr wk = (io, cr1, wk1, te)"
    "ExecCall q (Inr n) \<in> set te"
    "n \<noteq> 1"
    "CredentialRenewalJob_range d cpost (rk\<lparr>numProcessed := numProcessed rk + 1\<rparr>) wk1 = (res, rn, wn, tn)"
  show "(\<exists>msg. io = Returns (Some (New Unknown ''vault.(CredentialRenewalJob).renewCred'' msg)) \<and>
         Run CredentialRenewalJob d r w =
           (res, rn\<lparr>running := False\<rparr>, wn,
            SearchWhereCall CredentialRenewalJob_whereClause CredentialRenewalJob_whereArgs (limit r) # tk @ te @
            [CredentialRenewalJob_entry cr1 (New Unknown ''vault.(CredentialRenewalJob).renewCred'' msg)] @ tn)) \<and>
      numProcessed rk = int (length cpre)"
    by (rule CredentialRenewalJob_inconsistent_item [OF h])
qed

lemma CredentialRenewalJob_live:
  assumes "interleaved d (running r) = running r"
    and "ctx_Err d w = None"
    and "SearchWhere_creds d CredentialRenewalJob_whereClause CredentialRenewalJob_whereArgs (limit r) w = (Inr (cpre @ cpost), w1)"
    and "CredentialRenewalJob_range d cpre
        (r\<lparr>running := True, numProcessed := 0, numTotal := int (length (cpre @ cpost))\<rparr>) w1 =
      (Returns None, rk, wk, tk)"
    and "CredentialRenewalJob_range d cpost rk wk = (res, rn, wn, tn)"
  shows "Status rk = \<lparr>Completed = int (length cpre), Total = int (length (cpre @ cpost))\<rparr> \<and>
      Run CredentialRenewalJob d r w = (res, rn\<lparr>running := False\<rparr>, wn, SearchWhereCall CredentialRenewalJob_whereClause CredentialRenewalJob_whereArgs (limit r) # tk @ tn)"
proof -
  from CredentialRenewalJob_Run_split [OF assms(1-5)] CredentialRenewalJob_range_prefix [OF assms(4)]
  show ?thesis unfolding CredentialRenewalJob_interface by simp
qed

lemma CredentialRenewalJob_live_obj:
  "interleaved d (running r) = running r \<and>
    ctx_Err d w = None \<and>
    SearchWhere_creds d CredentialRenewalJob_whereClause CredentialRenewalJob_whereArgs (limit r) w = (Inr (cpre @ cpost), w1) \<and>
    CredentialRenewalJob_range d cpre
        (r\<lparr>running := True, numProcessed := 0, numTotal := int (length (cpre @ cpost))\<rparr>) w1 =
      (Returns None, rk, wk, tk) \<and>
    CredentialRenewalJob_range d cpost rk wk = (res, rn, wn, tn) \<longrightarrow>
      Status rk = \<lparr>Completed = int (length cpre), Total = int (length (cpre @ cpost))\<rparr> \<and>
      Run CredentialRenewalJob d r w = (res, rn\<lparr>running := False\<rparr>, wn, SearchWhereCall CredentialRenewalJob_whereClause CredentialRenewalJob_whereArgs (limit r) # tk @ tn)"
proof (intro impI, (elim conjE)?)
  assume h:
    "interleaved d (running r) = running r"
    "ctx_Err d w = None"
    "SearchWhere_creds d CredentialRenewalJob_whereClause CredentialRenewalJob_whereArgs (limit r) w = (Inr (cpre @ cpost), w1)"
    "CredentialRenewalJob_range d cpre
        (r\<lparr>running := True, numProcessed := 0, numTotal := int (length (cpre @ cpost))\<rparr>) w1 =
      (Returns None, rk, wk, tk)"
    "CredentialRenewalJob_range d cpost rk wk = (res, rn, wn, tn)"
  show "Status rk = \<lparr>Completed = int (length cpre), Total = int (length (cpre @ cpost))\<rparr> \<and>
      Run CredentialRenewalJob d r w = (res, rn\<lparr>running := False\<rparr>, wn, SearchWhereCall CredentialRenewalJob_whereClause CredentialRenewalJob_whereArgs (limit r) # tk @ tn)"
    by (rule CredentialRenewalJob_live [OF h])
qed

lemma CredentialRenewalJob_cancelled:
  assumes "interleaved d (running r) = running r"
    and "ctx_Err d w = Some c"
  shows "Run CredentialRenewalJob d r w = (Returns (Some (Wrap c (Run_op CredentialRenewalJob) None)), r\<lparr>running := False\<rparr>, w, []) \<and>
      Status (jobAfter (Run CredentialRenewalJob d r w)) = Status r"
proof -
  from CredentialRenewalJob_Run_cancelled [OF assms] show ?thesis
    unfolding CredentialRenewalJob_interface by (simp add: jobAfter_def Status_def)
qed

lemma CredentialRenewalJob_cancelled_obj:
  "interleaved d (running r) = running r \<and>
    ctx_Err d w = Some c \<longrightarrow>
      Run CredentialRenewalJob d r w = (Returns (Some (Wrap c (Run_op CredentialRenewalJob) None)), r\<lparr>running := False\<rparr>, w, []) \<and>
      Status (jobAfter (Run CredentialRenewalJob d r w)) = Status r"
proof (intro impI, (elim conjE)?)
  assume h:
    "interleaved d (running r) = running r"
    "ctx_Err d w = Some c"
  show "Run CredentialRenewalJob d r w = (Returns (Some (Wrap c (Run_op CredentialRenewalJob) None)), r\<lparr>running := False\<rparr>, w, []) \<and>
      Status (jobAfter (Run CredentialRenewalJob d r w)) = Status r"
    by (rule CredentialRenewalJob_cancelled [OF h])
qed

lemma CredentialRenewalJob_rejected:
  assumes "interleaved d (running r) \<noteq> running r"
  shows "Run CredentialRenewalJob d r w =
        (Returns (Some (New JobAlreadyRunning (Run_op CredentialRenewalJob) ''job already running'')),
         r\<lparr>running := interleaved d (running r)\<rparr>, w, [])"
  unfolding CredentialRenewalJob_interface by (rule CredentialRenewalJob_Run_rejected [OF assms])

lemma CredentialRenewalJob_rejected_obj:
  "interleaved d (running r) \<noteq> running r \<longrightarrow>
      Run CredentialRenewalJob d r w =
        (Returns (Some (New JobAlreadyRunning (Run_op CredentialRenewalJob) ''job already running'')),
         r\<lparr>running := interleaved d (running r)\<rparr>, w, [])"
proof (intro impI, (elim conjE)?)
  assume h:
    "interleaved d (running r) \<noteq> running r"
  show "Run CredentialRenewalJob d r w =
        (Returns (Some (New JobAlreadyRunning (Run_op CredentialRenewalJob) ''job already running'')),
         r\<lparr>running := interleaved d (running r)\<rparr>, w, [])"
    by (rule CredentialRenewalJob_rejected [OF h])
qed







lemma CredentialRenewalJob_counters:
  assumes "interleaved d (running r) = running r"
    and "ctx_Err d w = None"
    and "selection CredentialRenewalJob d r w = (Inr n, w1)"
  shows "Total (Status (jobAfter (Run CredentialRenewalJob d r w))) = n \<and>
      started (emitted (Run CredentialRenewalJob d r w)) \<le> n \<and>
      (returned (Run CredentialRenewalJob d r w) \<noteq> Panics \<longrightarrow>
         Completed (Status (jobAfter (Run CredentialRenewalJob d r w))) = started (emitted (Run CredentialRenewalJob d r w))) \<and>
      (returned (Run CredentialRenewalJob d r w) = Panics \<longrightarrow>
         Completed (Status (jobAfter (Run CredentialRenewalJob d r w))) = started (emitted (Run CredentialRenewalJob d r w)) - 1) \<and>
      (returned (Run CredentialRenewalJob d r w) = Returns None \<longrightarrow>
         Status (jobAfter (Run CredentialRenewalJob d r w)) = \<lparr>Completed = n, Total = n\<rparr>) \<and>
      (ctx_Err d w1 \<noteq> None \<longrightarrow>
         Status (jobAfter (Run CredentialRenewalJob d r w)) = \<lparr>Completed = 0, Total = n\<rparr> \<and>
         started (emitted (Run CredentialRenewalJob d r w)) = 0)"
proof -
  from assms(3) obtain ps where sel:
    "SearchWhere_creds d CredentialRenewalJob_whereClause CredentialRenewalJob_whereArgs (limit r) w = (Inr ps, w1)" and n: "n = int (length ps)"
    unfolding CredentialRenewalJob_interface sized_Inr by blast
  obtain res r2 w2 t where run: "CredentialRenewalJob_Run d r w = (res, r2, w2, t)"
    by (metis prod_cases4)
  from CredentialRenewalJob_Run_counters [OF assms(1) assms(2) sel run] n run
  show ?thesis unfolding CredentialRenewalJob_interface returned_def jobAfter_def emitted_def
    by (auto simp: Status_def)
qed

lemma CredentialRenewalJob_counters_obj:
  "interleaved d (running r) = running r \<and>
    ctx_Err d w = None \<and>
    selection CredentialRenewalJob d r w = (Inr n, w1) \<longrightarrow>
      Total (Status (jobAfter (Run CredentialRenewalJob d r w))) = n \<and>
      started (emitted (Run CredentialRenewalJob d r w)) \<le> n \<and>
      (returned (Run CredentialRenewalJob d r w) \<noteq> Panics \<longrightarrow>
         Completed (Status (jobAfter (Run CredentialRenewalJob d r w))) = started (emitted (Run CredentialRenewalJob d r w))) \<and>
      (returned (Run CredentialRenewalJob d r w) = Panics \<longrightarrow>
         Completed (Status (jobAfter (Run CredentialRenewalJob d r w))) = started (emitted (Run CredentialRenewalJob d r w)) - 1) \<and>
      (returned (Run CredentialRenewalJob d r w) = Returns None \<longrightarrow>
         Status (jobAfter (Run CredentialRenewalJob d r w)) = \<lparr>Completed = n, Total = n\<rparr>) \<and>
      (ctx_Err d w1 \<noteq> None \<longrightarrow>
         Status (jobAfter (Run CredentialRenewalJob d r w)) = \<lparr>Completed = 0, Total = n\<rparr> \<and>
         started (emitted (Run CredentialRenewalJob d r w)) = 0)"
proof (intro impI, (elim conjE)?)
  assume h:
    "interleaved d (running r) = running r"
    "ctx_Err d w = None"
    "selection CredentialRenewalJob d r w = (Inr n, w1)"
  show "Total (Status (jobAfter (Run CredentialRenewalJob d r w))) = n \<and>
      started (emitted (Run CredentialRenewalJob d r w)) \<le> n \<and>
      (returned (Run CredentialRenewalJob d r w) \<noteq> Panics \<longrightarrow>
         Completed (Status (jobAfter (Run CredentialRenewalJob d r w))) = started (emitted (Run CredentialRenewalJob d r w))) \<and>
      (returned (Run CredentialRenewalJob d r w) = Panics \<longrightarrow>
         Completed (Status (jobAfter (Run CredentialRenewalJob d r w))) = started (emitted (Run CredentialRenewalJob d r w)) - 1) \<and>
      (returned (Run CredentialRenewalJob d r w) = Returns None \<longrightarrow>
         Status (jobAfter (Run CredentialRenewalJob d r w)) = \<lparr>Completed = n, Total = n\<rparr>) \<and>
      (ctx_Err d w1 \<noteq> None \<longrightarrow>
         Status (jobAfter (Run CredentialRenewalJob d r w)) = \<lparr>Completed = 0, Total = n\<rparr> \<and>
         started (emitted (Run CredentialRenewalJob d r w)) = 0)"
    by (rule CredentialRenewalJob_counters [OF h])
qed

lemma CredentialRenewalJob_unchanged:
  assumes "(interleaved d (running r) \<noteq> running r \<or> ctx_Err d w \<noteq> None \<or>
     (\<exists>se. fst (selection CredentialRenewalJob d r w) = Inl se))"
  shows "Status (jobAfter (Run CredentialRenewalJob d r w)) = Status r \<and> started (emitted (Run CredentialRenewalJob d r w)) = 0"
  using CredentialRenewalJob_Run_unchanged [of d r w] assms
  unfolding CredentialRenewalJob_interface jobAfter_def emitted_def sized_Inl by blast

lemma CredentialRenewalJob_unchanged_obj:
  "(interleaved d (running r) \<noteq> running r \<or> ctx_Err d w \<noteq> None \<or>
     (\<exists>se. fst (selection CredentialRenewalJob d r w) = Inl se)) \<longrightarrow>
      Status (jobAfter (Run CredentialRenewalJob d r w)) = Status r \<and> started (emitted (Run CredentialRenewalJob d r w)) = 0"
proof (intro impI, (elim conjE)?)
  assume h:
    "(interleaved d (running r) \<noteq> running r \<or> ctx_Err d w \<noteq> None \<or>
     (\<exists>se. fst (selection CredentialRenewalJob d r w) = Inl se))"
  show "Status (jobAfter (Run CredentialRenewalJob d r w)) = Status r \<and> started (emitted (Run CredentialRenewalJob d r w)) = 0"
    by (rule CredentialRenewalJob_unchanged [OF h])
qed

lemma CredentialRenewalJob_inconsistency:
  assumes "ExecCall q (Inr n) \<in> set (emitted (Run CredentialRenewalJob d r w))"
    and "n \<noteq> 1"
  shows "(\<exists>iop msg. errorLogged (New Unknown iop msg) (emitted (Run CredentialRenewalJob d r w))) \<and>
      (returned (Run CredentialRenewalJob d r w) = Returns None \<or> returned (Run CredentialRenewalJob d r w) = Panics \<or>
       (\<exists>c. ctx_Err d (stateAfter (Run CredentialRenewalJob d r w)) = Some c \<and>
          returned (Run CredentialRenewalJob d r w) = Returns (Some (Wrap c (Run_op CredentialRenewalJob) None))))"
proof -
  obtain res r2 w2 t where run: "CredentialRenewalJob_Run d r w = (res, r2, w2, t)"
    by (metis prod_cases4)
  with assms(1) have "ExecCall q (Inr n) \<in> set t"
    unfolding CredentialRenewalJob_interface emitted_def by simp
  from CredentialRenewalJob_Run_inconsistency [OF run this assms(2)] run show ?thesis
    unfolding CredentialRenewalJob_interface returned_def emitted_def stateAfter_def by auto
qed

lemma CredentialRenewalJob_inconsistency_obj:
  "ExecCall q (Inr n) \<in> set (emitted (Run CredentialRenewalJob d r w)) \<and>
    n \<noteq> 1 \<longrightarrow>
      (\<exists>iop msg. errorLogged (New Unknown iop msg) (emitted (Run CredentialRenewalJob d r w))) \<and>
      (returned (Run CredentialRenewalJob d r w) = Returns None \<or> returned (Run CredentialRenewalJob d r w) = Panics \<or>
       (\<exists>c. ctx_Err d (stateAfter (Run CredentialRenewalJob d r w)) = Some c \<and>
          returned (Run CredentialRenewalJob d r w) = Returns (Some (Wrap c (Run_op CredentialRenewalJob) None))))"
proof (intro impI, (elim conjE)?)
  assume h:
    "ExecCall q (Inr n) \<in> set (emitted (Run CredentialRenewalJob d r w))"
    "n \<noteq> 1"
  show "(\<exists>iop msg. errorLogged (New Unknown iop msg) (emitted (Run CredentialRenewalJob d r w))) \<and>
      (returned (Run CredentialRenewalJob d r w) = Returns None \<or> returned (Run CredentialRenewalJob d r w) = Panics \<or>
       (\<exists>c. ctx_Err d (stateAfter (Run CredentialRenewalJob d r w)) = Some c \<and>
          returned (Run CredentialRenewalJob d r w) = Returns (Some (Wrap c (Run_op CredentialRenewalJob) None))))"
    by (rule CredentialRenewalJob_inconsistency [OF h])
qed

subsection \<open>CredentialRevocationJob behind the interface\<close>

lemma CredentialRevocationJob_interface:
  "Run CredentialRevocationJob = CredentialRevocationJob_Run"
  "Run_op CredentialRevocationJob = ''vault.(CredentialRevocationJob).Run''"
  "selection CredentialRevocationJob d r w = sized (SearchWhere_creds d CredentialRevocationJob_whereClause CredentialRevocationJob_whereArgs (limit r) w)"
  by (simp_all add: Run_def Run_op_def selection_def)

lemma CredentialRevocationJob_interface_rejects_iff:
  "returned (Run CredentialRevocationJob d r w) =
     Returns (Some (New JobAlreadyRunning (Run_op CredentialRevocationJob) ''job already running'')) \<longleftrightarrow>
   interleaved d (running r) \<noteq> running r"
  unfolding CredentialRevocationJob_interface returned_def by (rule CredentialRevocationJob_Run_rejects_iff)

lemma CredentialRevocationJob_interface_flag:
  "running (jobAfter (Run CredentialRevocationJob d r w)) =
   (if interleaved d (running r) = running r then False else interleaved d (running r))"
  unfolding CredentialRevocationJob_interface jobAfter_def by (rule CredentialRevocationJob_Run_flag)

lemma CredentialRevocationJob_mid_cancel:
  assumes "interleaved d (running r) = running r"
    and "ctx_Err d w = None"
    and "SearchWhere_creds d CredentialRevocationJob_whereClause CredentialRevocationJob_whereArgs (limit r) w = (Inr (cpre @ cr # cpost), w1)"
    and "CredentialRevocationJob_range d cpre
        (r\<lparr>running := True, numProcessed := 0, numTotal := int (length (cpre @ cr # cpost))\<rparr>) w1 =
      (Returns None, rk, wk, tk)"
    and "ctx_Err d wk = Some c"
  shows "Run CredentialRevocationJob d r w =
        (Returns (Some (Wrap c ''vault.(CredentialRevocationJob).Run'' None)), rk\<lparr>running := False\<rparr>, wk, SearchWhereCall CredentialRevocationJob_whereClause CredentialRevocationJob_whereArgs (limit r) # tk) \<and>
      started tk = int (length cpre) \<and>
      Status rk = \<lparr>Completed = int (length cpre), Total = int (length (cpre @ cr # cpost))\<rparr>"
proof -
  have rng: "CredentialRevocationJob_range d (cr # cpost) rk wk =
      (Returns (Some (Wrap c ''vault.(CredentialRevocationJob).Run'' None)), rk, wk, [])"
    by (rule CredentialRevocationJob_range_cancelled [OF assms(5)])
  from CredentialRevocationJob_Run_split [OF assms(1-4) rng] CredentialRevocationJob_range_prefix [OF assms(4)]
  show ?thesis unfolding CredentialRevocationJob_interface by simp
qed

lemma CredentialRevocationJob_mid_cancel_obj:
  "interleaved d (running r) = running r \<and>
    ctx_Err d w = None \<and>
    SearchWhere_creds d CredentialRevocationJob_whereClause CredentialRevocationJob_whereArgs (limit r) w = (Inr (cpre @ cr # cpost), w1) \<and>
    CredentialRevocationJob_range d cpre
        (r\<lparr>running := True, numProcessed := 0, numTotal := int (length (cpre @ cr # cpost))\<rparr>) w1 =
      (Returns None, rk, wk, tk) \<and>
    ctx_Err d wk = Some c \<longrightarrow>
      Run CredentialRevocationJob d r w =
        (Returns (Some (Wrap c ''vault.(CredentialRevocationJob).Run'' None)), rk\<lparr>running := False\<rparr>, wk, SearchWhereCall CredentialRevocationJob_whereClause CredentialRevocationJob_whereArgs (limit r) # tk) \<and>
      started tk = int (length cpre) \<and>
      Status rk = \<lparr>Completed = int (length cpre), Total = int (length (cpre @ cr # cpost))\<rparr>"
proof (intro impI, (elim conjE)?)
  assume h:
    "interleaved d (running r) = running r"
    "ctx_Err d w = None"
    "SearchWhere_creds d CredentialRevocationJob_whereClause CredentialRevocationJob_whereArgs (limit r) w = (Inr (cpre @ cr # cpost), w1)"
    "CredentialRevocationJob_range d cpre
        (r\<lparr>running := True, numProcessed := 0, numTotal := int (length (cpre @ cr # cpost))\<rparr>) w1 =
      (Returns None, rk, wk, tk)"
    "ctx_Err d wk = Some c"
  show "Run CredentialRevocationJob d r w =
        (Returns (Some (Wrap c ''vault.(CredentialRevocationJob).Run'' None)), rk\<lparr>running := False\<rparr>, wk, SearchWhereCall CredentialRevocationJob_whereClause CredentialRevocationJob_whereArgs (limit r) # tk) \<and>
      started tk = int (length cpre) \<and>
      Status rk = \<lparr>Completed = int (length cpre), Total = int (length (cpre @ cr # cpost))\<rparr>"
    by (rule CredentialRevocationJob_mid_cancel [OF h])
qed

lemma CredentialRevocationJob_failed_item:
  assumes "interleaved d (running r) = running r"
    and "ctx_Err d w = None"
    and "SearchWhere_creds d CredentialRevocationJob_whereClause CredentialRevocationJob_whereArgs (limit r) w = (Inr (cpre @ cr # cpost), w1)"
    and "CredentialRevocationJob_range d cpre
        (r\<lparr>running := True, numProcessed := 0, numTotal := int (length (cpre @ cr # cpost))\<rparr>) w1 =
      (Returns None, rk, wk, tk)"
    and "ctx_Err d wk = None"
    and "revokeCred d cr wk = (Some err, cr1, wk1, te)"
    and "CredentialRevocationJob_range d cpost (rk\<lparr>numProcessed := numProcessed rk + 1\<rparr>) wk1 = (res, rn, wn, tn)"
  shows "Run CredentialRevocationJob d r w =
        (res, rn\<lparr>running := False\<rparr>, wn,
         SearchWhereCall CredentialRevocationJob_whereClause CredentialRevocationJob_whereArgs (limit r) # tk @ te @ [CredentialRevocationJob_entry cr1 err] @ tn) \<and>
      numProcessed rk = int (length cpre)"
proof -
  have rng: "CredentialRevocationJob_range d (cr # cpost) rk wk = (res, rn, wn, te @ [CredentialRevocationJob_entry cr1 err] @ tn)"
    using assms(5-7) by (simp add: CredentialRevocationJob_entry_def)
  from CredentialRevocationJob_Run_split [OF assms(1-4) rng] CredentialRevocationJob_range_prefix [OF assms(4)]
  show ?thesis unfolding CredentialRevocationJob_interface by (simp add: Status_def)
qed


lemma CredentialRevocationJob_inconsistent_item:
  assumes "interleaved d (running r) = running r"
    and "ctx_Err d w = None"
    and "SearchWhere_creds d CredentialRevocationJob_whereClause CredentialRevocationJob_whereArgs (limit r) w = (Inr (cpre @ cr # cpost), w1)"
    and "CredentialRevocationJob_range d cpre
        (r\<lparr>running := True, numProcessed := 0, numTotal := int (length (cpre @ cr # cpost))\<rparr>) w1 =
      (Returns None, rk, wk, tk)"
    and "ctx_Err d wk = None"
    and "revokeCred d cr wk = (ires, cr1, wk1, te)"
    and "ExecCall q (Inr n) \<in> set te"
    and "n \<noteq> 1"
    and "CredentialRevocationJob_range d cpost (rk\<lparr>numProcessed := numProcessed rk + 1\<rparr>) wk1 = (res, rn, wn, tn)"
  shows "(\<exists>msg. ires = Some (New Unknown ''vault.(CredentialRenewalJob).revokeCred'' msg) \<and>
         Run CredentialRevocationJob d r w =
           (res, rn\<lparr>running := False\<rparr>, wn,
            SearchWhereCall CredentialRevocationJob_whereClause CredentialRevocationJob_whereArgs (limit r) # tk @ te @
            [CredentialRevocationJob_entry cr1 (New Unknown ''vault.(CredentialRenewalJob).revokeCred'' msg)] @ tn)) \<and>
      numProcessed rk = int (length cpre)"
proof -
  from revokeCred_inconsistency [OF assms(6) assms(7) assms(8)]
  obtain msg where m: "ires = Some (New Unknown ''vault.(CredentialRenewalJob).revokeCred'' msg)" by blast
  with assms(6) have it: "revokeCred d cr wk = (Some (New Unknown ''vault.(CredentialRenewalJob).revokeCred'' msg), cr1, wk1, te)"
    by simp
  from CredentialRevocationJob_failed_item [OF assms(1-5) it assms(9)] m show ?thesis by blast
qed

lemma CredentialRevocationJob_inconsistent_item_obj:
  "interleaved d (running r) = running r \<and>
    ctx_Err d w = None \<and>
    SearchWhere_creds d CredentialRevocationJob_whereClause CredentialRevocationJob_whereArgs (limit r) w = (Inr (cpre @ cr # cpost), w1) \<and>
    CredentialRevocationJob_range d cpre
        (r\<lparr>running := True, numProcessed := 0, numTotal := int (length (cpre @ cr # cpost))\<rparr>) w1 =
      (Returns None, rk, wk, tk) \<and>
    ctx_Err d wk = None \<and>
    revokeCred d cr wk = (ires, cr1, wk1, te) \<and>
    ExecCall q (Inr n) \<in> set te \<and>
    n \<noteq> 1 \<and>
    CredentialRevocationJob_range d cpost (rk\<lparr>numProcessed := numProcessed rk + 1\<rparr>) wk1 = (res, rn, wn, tn) \<longrightarrow>
      (\<exists>msg. ires = Some (New Unknown ''vault.(CredentialRenewalJob).revokeCred'' msg) \<and>
         Run CredentialRevocationJob d r w =
           (res, rn\<lparr>running := False\<rparr>, wn,
            SearchWhereCall CredentialRevocationJob_whereClause CredentialRevocationJob_whereArgs (limit r) # tk @ te @
            [CredentialRevocationJob_entry cr1 (New Unknown ''vault.(CredentialRenewalJob).revokeCred'' msg)] @ tn)) \<and>
      numProcessed rk = int (length cpre)"
proof (intro impI, (elim conjE)?)
  assume h:
    "interleaved d (running r) = running r"
    "ctx_Err d w = None"
    "SearchWhere_creds d CredentialRevocationJob_whereClause CredentialRevocationJob_whereArgs (limit r) w = (Inr (cpre @ cr # cpost), w1)"
    "CredentialRevocationJob_range d cpre
        (r\<lparr>running := True, numProcessed := 0, numTotal := int (length (cpre @ cr # cpost))\<rparr>) w1 =
      (Returns None, rk, wk, tk)"
    "ctx_Err d wk = None"
    "revokeCred d cr wk = (ires, cr1, wk1, te)"
    "ExecCall q (Inr n) \<in> set te"
    "n \<noteq> 1"
    "CredentialRevocationJob_range d cpost (rk\<lparr>numProcessed := numProcessed rk + 1\<rparr>) wk1 = (res, rn, wn, tn)"
  show "(\<exists>msg. ires = Some (New Unknown ''vault.(CredentialRenewalJob).revokeCred'' msg) \<and>
         Run CredentialRevocationJob d r w =
           (res, rn\<lparr>running := False\<rparr>, wn,
            SearchWhereCall CredentialRevocationJob_whereClause CredentialRevocationJob_whereArgs (limit r) # tk @ te @
            [CredentialRevocationJob_entry cr1 (New Unknown ''vault.(CredentialRenewalJob).revokeCred'' msg)] @ tn)) \<and>
      numProcessed rk = int (length cpre)"
    by (rule CredentialRevocationJob_inconsistent_item [OF h])
qed

lemma CredentialRevocationJob_live:
  assumes "interleaved d (running r) = running r"
    and "ctx_Err d w = None"
    and "SearchWhere_creds d CredentialRevocationJob_whereClause CredentialRevocationJob_whereArgs (limit r) w = (Inr (cpre @ cpost), w1)"
    and "CredentialRevocationJob_range d cpre
        (r\<lparr>running := True, numProcessed := 0, numTotal := int (length (cpre @ cpost))\<rparr>) w1 =
      (Returns None, rk, wk, tk)"
    and "CredentialRevocationJob_range d cpost rk wk = (res, rn, wn, tn)"
  shows "Status rk = \<lparr>Completed = int (length cpre), Total = int (length (cpre @ cpost))\<rparr> \<and>
      Run CredentialRevocationJob d r w = (res, rn\<lparr>running := False\<rparr>, wn, SearchWhereCall CredentialRevocationJob_whereClause CredentialRevocationJob_whereArgs (limit r) # tk @ tn)"
proof -
  from CredentialRevocationJob_Run_split [OF assms(1-5)] CredentialRevocationJob_range_prefix [OF assms(4)]
  show ?thesis unfolding CredentialRevocationJob_interface by simp
qed

lemma CredentialRevocationJob_live_obj:
  "interleaved d (running r) = running r \<and>
    ctx_Err d w = None \<and>
    SearchWhere_creds d CredentialRevocationJob_whereClause CredentialRevocationJob_whereArgs (limit r) w = (Inr (cpre @ cpost), w1) \<and>
    CredentialRevocationJob_range d cpre
        (r\<lparr>running := True, numProcessed := 0, numTotal := int (length (cpre @ cpost))\<rparr>) w1 =
      (Returns None, rk, wk, tk) \<and>
    CredentialRevocationJob_range d cpost rk wk = (res, rn, wn, tn) \<longrightarrow>
      Status rk = \<lparr>Completed = int (length cpre), Total = int (length (cpre @ cpost))\<rparr> \<and>
      Run CredentialRevocationJob d r w = (res, rn\<lparr>running := False\<rparr>, wn, SearchWhereCall CredentialRevocationJob_whereClause CredentialRevocationJob_whereArgs (limit r) # tk @ tn)"
proof (intro impI, (elim conjE)?)
  assume h:
    "interleaved d (running r) = running r"
    "ctx_Err d w = None"
    "SearchWhere_creds d CredentialRevocationJob_whereClause CredentialRevocationJob_whereArgs (limit r) w = (Inr (cpre @ cpost), w1)"
    "CredentialRevocationJob_range d cpre
        (r\<lparr>running := True, numProcessed := 0, numTotal := int (length (cpre @ cpost))\<rparr>) w1 =
      (Returns None, rk, wk, tk)"
    "CredentialRevocationJob_range d cpost rk wk = (res, rn, wn, tn)"
  show "Status rk = \<lparr>Completed = int (length cpre), Total = int (length (cpre @ cpost))\<rparr> \<and>
      Run CredentialRevocationJob d r w = (res, rn\<lparr>running := False\<rparr>, wn, SearchWhereCall CredentialRevocationJob_whereClause CredentialRevocationJob_whereArgs (limit r) # tk @ tn)"
    by (rule CredentialRevocationJob_live [OF h])
qed

lemma CredentialRevocationJob_cancelled:
  assumes "interleaved d (running r) = running r"
    and "ctx_Err d w = Some c"
  shows "Run CredentialRevocationJob d r w = (Returns (Some (Wrap c (Run_op CredentialRevocationJob) None)), r\<lparr>running := False\<rparr>, w, []) \<and>
      Status (jobAfter (Run CredentialRevocationJob d r w)) = Status r"
proof -
  from CredentialRevocationJob_Run_cancelled [OF assms] show ?thesis
    unfolding CredentialRevocationJob_interface by (simp add: jobAfter_def Status_def)
qed

lemma CredentialRevocationJob_cancelled_obj:
  "interleaved d (running r) = running r \<and>
    ctx_Err d w = Some c \<longrightarrow>
      Run CredentialRevocationJob d r w = (Returns (Some (Wrap c (Run_op CredentialRevocationJob) None)), r\<lparr>running := False\<rparr>, w, []) \<and>
      Status (jobAfter (Run CredentialRevocationJob d r w)) = Status r"
proof (intro impI, (elim conjE)?)
  assume h:
    "interleaved d (running r) = running r"
    "ctx_Err d w = Some c"
  show "Run CredentialRevocationJob d r w = (Returns (Some (Wrap c (Run_op CredentialRevocationJob) None)), r\<lparr>running := False\<rparr>, w, []) \<and>
      Status (jobAfter (Run CredentialRevocationJob d r w)) = Status r"
    by (rule CredentialRevocationJob_cancelled [OF h])
qed

lemma CredentialRevocationJob_rejected:
  assumes "interleaved d (running r) \<noteq> running r"
  shows "Run CredentialRevocationJob d r w =
        (Returns (Some (New JobAlreadyRunning (Run_op CredentialRevocationJob) ''job already running'')),
         r\<lparr>running := interleaved d (running r)\<rparr>, w, [])"
  unfolding CredentialRevocationJob_interface by (rule CredentialRevocationJob_Run_rejected [OF assms])

lemma CredentialRevocationJob_rejected_obj:
  "interleaved d (running r) \<noteq> running r \<longrightarrow>
      Run CredentialRevocationJob d r w =
        (Returns (Some (New JobAlreadyRunning (Run_op CredentialRevocationJob) ''job already running'')),
         r\<lparr>running := interleaved d (running r)\<rparr>, w, [])"
proof (intro impI, (elim conjE)?)
  assume h:
    "interleaved d (running r) \<noteq> running r"
  show "Run CredentialRevocationJob d r w =
        (Returns (Some (New JobAlreadyRunning (Run_op CredentialRevocationJob) ''job already running'')),
         r\<lparr>running := interleaved d (running r)\<rparr>, w, [])"
    by (rule CredentialRevocationJob_rejected [OF h])
qed







lemma CredentialRevocationJob_counters:
  assumes "interleaved d (running r) = running r"
    and "ctx_Err d w = None"
    and "selection CredentialRevocationJob d r w = (Inr n, w1)"
  shows "Total (Status (jobAfter (Run CredentialRevocationJob d r w))) = n \<and>
      started (emitted (Run CredentialRevocationJob d r w)) \<le> n \<and>
      (returned (Run CredentialRevocationJob d r w) \<noteq> Panics \<longrightarrow>
         Completed (Status (jobAfter (Run CredentialRevocationJob d r w))) = started (emitted (Run CredentialRevocationJob d r w))) \<and>
      (returned (Run CredentialRevocationJob d r w) = Panics \<longrightarrow>
         Completed (Status (jobAfter (Run CredentialRevocationJob d r w))) = started (emitted (Run CredentialRevocationJob d r w)) - 1) \<and>
      (returned (Run CredentialRevocationJob d r w) = Returns None \<longrightarrow>
         Status (jobAfter (Run CredentialRevocationJob d r w)) = \<lparr>Completed = n, Total = n\<rparr>) \<and>
      (ctx_Err d w1 \<noteq> None \<longrightarrow>
         Status (jobAfter (Run CredentialRevocationJob d r w)) = \<lparr>Completed = 0, Total = n\<rparr> \<and>
         started (emitted (Run CredentialRevocationJob d r w)) = 0)"
proof -
  from assms(3) obtain ps where sel:
    "SearchWhere_creds d CredentialRevocationJob_whereClause CredentialRevocationJob_whereArgs (limit r) w = (Inr ps, w1)" and n: "n = int (length ps)"
    unfolding CredentialRevocationJob_interface sized_Inr by blast
  obtain res r2 w2 t where run: "CredentialRevocationJob_Run d r w = (res, r2, w2, t)"
    by (metis prod_cases4)
  from CredentialRevocationJob_Run_counters [OF assms(1) assms(2) sel run] n run
  show ?thesis unfolding CredentialRevocationJob_interface returned_def jobAfter_def emitted_def
    by (auto simp: Status_def)
qed

lemma CredentialRevocationJob_counters_obj:
  "interleaved d (running r) = running r \<and>
    ctx_Err d w = None \<and>
    selection CredentialRevocationJob d r w = (Inr n, w1) \<longrightarrow>
      Total (Status (jobAfter (Run CredentialRevocationJob d r w))) = n \<and>
      started (emitted (Run CredentialRevocationJob d r w)) \<le> n \<and>
      (returned (Run CredentialRevocationJob d r w) \<noteq> Panics \<longrightarrow>
         Completed (Status (jobAfter (Run CredentialRevocationJob d r w))) = started (emitted (Run CredentialRevocationJob d r w))) \<and>
      (returned (Run CredentialRevocationJob d r w) = Panics \<longrightarrow>
         Completed (Status (jobAfter (Run CredentialRevocationJob d r w))) = started (emitted (Run CredentialRevocationJob d r w)) - 1) \<and>
      (returned (Run CredentialRevocationJob d r w) = Returns None \<longrightarrow>
         Status (jobAfter (Run CredentialRevocationJob d r w)) = \<lparr>Completed = n, Total = n\<rparr>) \<and>
      (ctx_Err d w1 \<noteq> None \<longrightarrow>
         Status (jobAfter (Run CredentialRevocationJob d r w)) = \<lparr>Completed = 0, Total = n\<rparr> \<and>
         started (emitted (Run CredentialRevocationJob d r w)) = 0)"
proof (intro impI, (elim conjE)?)
  assume h:
    "interleaved d (running r) = running r"
    "ctx_Err d w = None"
    "selection CredentialRevocationJob d r w = (Inr n, w1)"
  show "Total (Status (jobAfter (Run CredentialRevocationJob d r w))) = n \<and>
      started (emitted (Run CredentialRevocationJob d r w)) \<le> n \<and>
      (returned (Run CredentialRevocationJob d r w) \<noteq> Panics \<longrightarrow>
         Completed (Status (jobAfter (Run CredentialRevocationJob d r w))) = started (emitted (Run CredentialRevocationJob d r w))) \<and>
      (returned (Run CredentialRevocationJob d r w) = Panics \<longrightarrow>
         Completed (Status (jobAfter (Run CredentialRevocationJob d r w))) = started (emitted (Run CredentialRevocationJob d r w)) - 1) \<and>
      (returned (Run CredentialRevocationJob d r w) = Returns None \<longrightarrow>
         Status (jobAfter (Run CredentialRevocationJob d r w)) = \<lparr>Completed = n, Total = n\<rparr>) \<and>
      (ctx_Err d w1 \<noteq> None \<longrightarrow>
         Status (jobAfter (Run CredentialRevocationJob d r w)) = \<lparr>Completed = 0, Total = n\<rparr> \<and>
         started (emitted (Run CredentialRevocationJob d r w)) = 0)"
    by (rule CredentialRevocationJob_counters [OF h])
qed

lemma CredentialRevocationJob_unchanged:
  assumes "(interleaved d (running r) \<noteq> running r \<or> ctx_Err d w \<noteq> None \<or>
     (\<exists>se. fst (selection CredentialRevocationJob d r w) = Inl se))"
  shows "Status (jobAfter (Run CredentialRevocationJob d r w)) = Status r \<and> started (emitted (Run CredentialRevocationJob d r w)) = 0"
  using CredentialRevocationJob_Run_unchanged [of d r w] assms
  unfolding CredentialRevocationJob_interface jobAfter_def emitted_def sized_Inl by blast

lemma CredentialRevocationJob_unchanged_obj:
  "(interleaved d (running r) \<noteq> running r \<or> ctx_Err d w \<noteq> None \<or>
     (\<exists>se. fst (selection CredentialRevocationJob d r w) = Inl se)) \<longrightarrow>
      Status (jobAfter (Run CredentialRevocationJob d r w)) = Status r \<and> started (emitted (Run CredentialRevocationJob d r w)) = 0"
proof (intro impI, (elim conjE)?)
  assume h:
    "(interleaved d (running r) \<noteq> running r \<or> ctx_Err d w \<noteq> None \<or>
     (\<exists>se. fst (selection CredentialRevocationJob d r w) = Inl se))"
  show "Status (jobAfter (Run CredentialRevocationJob d r w)) = Status r \<and> started (emitted (Run CredentialRevocationJob d r w)) = 0"
    by (rule CredentialRevocationJob_unchanged [OF h])
qed

lemma CredentialRevocationJob_inconsistency:
  assumes "ExecCall q (Inr n) \<in> set (emitted (Run CredentialRevocationJob d r w))"
    and "n \<noteq> 1"
  shows "(\<exists>iop msg. errorLogged (New Unknown iop msg) (emitted (Run CredentialRevocationJob d r w))) \<and>
      (returned (Run CredentialRevocationJob d r w) = Returns None \<or> returned (Run CredentialRevocationJob d r w) = Panics \<or>
       (\<exists>c. ctx_Err d (stateAfter (Run CredentialRevocationJob d r w)) = Some c \<and>
          returned (Run CredentialRevocationJob d r w) = Returns (Some (Wrap c (Run_op CredentialRevocationJob) None))))"
proof -
  obtain res r2 w2 t where run: "CredentialRevocationJob_Run d r w = (res, r2, w2, t)"
    by (metis prod_cases4)
  with assms(1) have "ExecCall q (Inr n) \<in> set t"
    unfolding CredentialRevocationJob_interface emitted_def by simp
  from CredentialRevocationJob_Run_inconsistency [OF run this assms(2)] run show ?thesis
    unfolding CredentialRevocationJob_interface returned_def emitted_def stateAfter_def by auto
qed

lemma CredentialRevocationJob_inconsistency_obj:
  "ExecCall q (Inr n) \<in> set (emitted (Run CredentialRevocationJob d r w)) \<and>
    n \<noteq> 1 \<longrightarrow>
      (\<exists>iop msg. errorLogged (New Unknown iop msg) (emitted (Run CredentialRevocationJob d r w))) \<and>
      (returned (Run CredentialRevocationJob d r w) = Returns None \<or> returned (Run CredentialRevocationJob d r w) = Panics \<or>
       (\<exists>c. ctx_Err d (stateAfter (Run CredentialRevocationJob d r w)) = Some c \<and>
          returned (Run CredentialRevocationJob d r w) = Returns (Some (Wrap c (Run_op CredentialRevocationJob) None))))"
proof (intro impI, (elim conjE)?)
  assume h:
    "ExecCall q (Inr n) \<in> set (emitted (Run CredentialRevocationJob d r w))"
    "n \<noteq> 1"
  show "(\<exists>iop msg. errorLogged (New Unknown iop msg) (emitted (Run CredentialRevocationJob d r w))) \<and>
      (returned (Run CredentialRevocationJob d r w) = Returns None \<or> returned (Run CredentialRevocationJob d r w) = Panics \<or>
       (\<exists>c. ctx_Err d (stateAfter (Run CredentialRevocationJob d r w)) = Some c \<and>
          returned (Run CredentialRevocationJob d r w) = Returns (Some (Wrap c (Run_op CredentialRevocationJob) None))))"
    by (rule CredentialRevocationJob_inconsistency [OF h])
qed

subsection \<open>Every kind of job\<close>

text \<open>
  \<open>Run\<close> is rejected exactly when another goroutine changes the flag between the
  \<open>Load\<close> and the \<open>CAS\<close>: the value expected by the \<open>CAS\<close> is the value just loaded,
  whatever it is. The flag is cleared on every path after the guard, and left as found
  when the guard rejects.
\<close>

lemma Run_rejects_iff:
  "returned (Run j d r w) =
     Returns (Some (New JobAlreadyRunning (Run_op j) ''job already running'')) \<longleftrightarrow>
   interleaved d (running r) \<noteq> running r"
proof (cases j)
  case TokenRenewalJob
  show ?thesis
    unfolding TokenRenewalJob by (rule TokenRenewalJob_interface_rejects_iff)
next
  case TokenRevocationJob
  show ?thesis
    unfolding TokenRevocationJob by (rule TokenRevocationJob_interface_rejects_iff)
next
  case CredentialRenewalJob
  show ?thesis
    unfolding CredentialRenewalJob by (rule CredentialRenewalJob_interface_rejects_iff)
next
  case CredentialRevocationJob
  show ?thesis
    unfolding CredentialRevocationJob by (rule CredentialRevocationJob_interface_rejects_iff)
qed

lemma Run_flag:
  "running (jobAfter (Run j d r w)) =
   (if interleaved d (running r) = running r then False else interleaved d (running r))"
proof (cases j)
  case TokenRenewalJob
  show ?thesis
    unfolding TokenRenewalJob by (rule TokenRenewalJob_interface_flag)
next
  case TokenRevocationJob
  show ?thesis
    unfolding TokenRevocationJob by (rule TokenRevocationJob_interface_flag)
next
  case CredentialRenewalJob
  show ?thesis
    unfolding CredentialRenewalJob by (rule CredentialRenewalJob_interface_flag)
next
  case CredentialRevocationJob
  show ?thesis
    unfolding CredentialRevocationJob by (rule CredentialRevocationJob_interface_flag)
qed

lemma Run_cancelled:
  "interleaved d (running r) = running r \<and>
    ctx_Err d w = Some c \<longrightarrow>
      Run j d r w = (Returns (Some (Wrap c (Run_op j) None)), r\<lparr>running := False\<rparr>, w, []) \<and>
      Status (jobAfter (Run j d r w)) = Status r"
proof (cases j)
  case TokenRenewalJob
  show ?thesis
    unfolding TokenRenewalJob by (rule TokenRenewalJob_cancelled_obj)
next
  case TokenRevocationJob
  show ?thesis
    unfolding TokenRevocationJob by (rule TokenRevocationJob_cancelled_obj)
next
  case CredentialRenewalJob
  show ?thesis
    unfolding CredentialRenewalJob by (rule CredentialRenewalJob_cancelled_obj)
next
  case CredentialRevocationJob
  show ?thesis
    unfolding CredentialRevocationJob by (rule CredentialRevocationJob_cancelled_obj)
qed

lemma Run_rejected:
  "interleaved d (running r) \<noteq> running r \<longrightarrow>
      Run j d r w =
        (Returns (Some (New JobAlreadyRunning (Run_op j) ''job already running'')),
         r\<lparr>running := interleaved d (running r)\<rparr>, w, [])"
proof (cases j)
  case TokenRenewalJob
  show ?thesis
    unfolding TokenRenewalJob by (rule TokenRenewalJob_rejected_obj)
next
  case TokenRevocationJob
  show ?thesis
    unfolding TokenRevocationJob by (rule TokenRevocationJob_rejected_obj)
next
  case CredentialRenewalJob
  show ?thesis
    unfolding CredentialRenewalJob by (rule CredentialRenewalJob_rejected_obj)
next
  case CredentialRevocationJob
  show ?thesis
    unfolding CredentialRevocationJob by (rule CredentialRevocationJob_rejected_obj)
qed




lemma Run_counters:
  "interleaved d (running r) = running r \<and>
    ctx_Err d w = None \<and>
    selection j d r w = (Inr n, w1) \<longrightarrow>
      Total (Status (jobAfter (Run j d r w))) = n \<and>
      started (emitted (Run j d r w)) \<le> n \<and>
      (returned (Run j d r w) \<noteq> Panics \<longrightarrow>
         Completed (Status (jobAfter (Run j d r w))) = started (emitted (Run j d r w))) \<and>
      (returned (Run j d r w) = Panics \<longrightarrow>
         Completed (Status (jobAfter (Run j d r w))) = started (emitted (Run j d r w)) - 1) \<and>
      (returned (Run j d r w) = Returns None \<longrightarrow>
         Status (jobAfter (Run j d r w)) = \<lparr>Completed = n, Total = n\<rparr>) \<and>
      (ctx_Err d w1 \<noteq> None \<longrightarrow>
         Status (jobAfter (Run j d r w)) = \<lparr>Completed = 0, Total = n\<rparr> \<and>
         started (emitted (Run j d r w)) = 0)"
proof (cases j)
  case TokenRenewalJob
  show ?thesis
    unfolding TokenRenewalJob by (rule TokenRenewalJob_counters_obj)
next
  case TokenRevocationJob
  show ?thesis
    unfolding TokenRevocationJob by (rule TokenRevocationJob_counters_obj)
next
  case CredentialRenewalJob
  show ?thesis
    unfolding CredentialRenewalJob by (rule CredentialRenewalJob_counters_obj)
next
  case CredentialRevocationJob
  show ?thesis
    unfolding CredentialRevocationJob by (rule CredentialRevocationJob_counters_obj)
qed

lemma Run_unchanged:
  "(interleaved d (running r) \<noteq> running r \<or> ctx_Err d w \<noteq> None \<or>
     (\<exists>se. fst (selection j d r w) = Inl se)) \<longrightarrow>
      Status (jobAfter (Run j d r w)) = Status r \<and> started (emitted (Run j d r w)) = 0"
proof (cases j)
  case TokenRenewalJob
  show ?thesis
    unfolding TokenRenewalJob by (rule TokenRenewalJob_unchanged_obj)
next
  case TokenRevocationJob
  show ?thesis
    unfolding TokenRevocationJob by (rule TokenRevocationJob_unchanged_obj)
next
  case CredentialRenewalJob
  show ?thesis
    unfolding CredentialRenewalJob by (rule CredentialRenewalJob_unchanged_obj)
next
  case CredentialRevocationJob
  show ?thesis
    unfolding CredentialRevocationJob by (rule CredentialRevocationJob_unchanged_obj)
qed

lemma Run_inconsistency:
  "ExecCall q (Inr n) \<in> set (emitted (Run j d r w)) \<and>
    n \<noteq> 1 \<longrightarrow>
      (\<exists>iop msg. errorLogged (New Unknown iop msg) (emitted (Run j d r w))) \<and>
      (returned (Run j d r w) = Returns None \<or> returned (Run j d r w) = Panics \<or>
       (\<exists>c. ctx_Err d (stateAfter (Run j d r w)) = Some c \<and>
          returned (Run j d r w) = Returns (Some (Wrap c (Run_op j) None))))"
proof (cases j)
  case TokenRenewalJob
  show ?thesis
    unfolding TokenRenewalJob by (rule TokenRenewalJob_inconsistency_obj)
next
  case TokenRevocationJob
  show ?thesis
    unfolding TokenRevocationJob by (rule TokenRevocationJob_inconsistency_obj)
next
  case CredentialRenewalJob
  show ?thesis
    unfolding CredentialRenewalJob by (rule CredentialRenewalJob_inconsistency_obj)
next
  case CredentialRevocationJob
  show ?thesis
    unfolding CredentialRevocationJob by (rule CredentialRevocationJob_inconsistency_obj)
qed

section \<open>The claims\<close>

lemmas concrete_defs =
  scenario_def Run_def Run_op_def selection_def sized_def
  returned_def jobAfter_def stateAfter_def emitted_def
  TokenRenewalJob_Run_def TokenRevocationJob_Run_def
  CredentialRenewalJob_Run_def CredentialRevocationJob_Run_def
  TokenRenewalJob_Run_deferred_def TokenRevocationJob_Run_deferred_def
  CredentialRenewalJob_Run_deferred_def CredentialRevocationJob_Run_deferred_def
  renewToken_def revokeToken_def renewCred_def revokeCred_def
  TokenRenewalJob_entry_def TokenRevocationJob_entry_def
  CredentialRenewalJob_entry_def CredentialRevocationJob_entry_def
  CAS_def Load_def Store_def errOf_def Let_def started_def writes_def errorLogged_def Status_def
  store1_def cred1_def token1_def credential1_def job0_def
  Token_updateStatusQuery_def Token_updateExpirationQuery_def
  Credential_updateStatusQuery_def Credential_updateExpirationQuery_def
  StatusForbidden_def StatusBadRequest_def
  ExpiredToken_def RevokedToken_def CurrentToken_def ExpiredCredential_def RevokedCredential_def
  Sub_def Second_def Minute_def defaultNextRunIn_def

subsection \<open>The guard against a second run\<close>

text \<open>
  Claim C1. A job whose \<open>running\<close> flag is already set is run a second time, and nothing
  touches the flag between the \<open>Load\<close> and the \<open>CAS\<close> of the second call. For each of
  the four job kinds the second call is not rejected: it selects the batch, processes its
  one item, returns nil and clears the flag.
\<close>

theorem Run_admitted_while_running:
  "Run TokenRenewalJob (scenario None [store1] [] None (Inr 1)) (job0\<lparr>running := True\<rparr>) 0 =
     (Returns None, \<lparr>limit = 10000, running = False, numTotal = 1, numProcessed = 1\<rparr>, 5,
      [SearchWhereCall TokenRenewalJob_whereClause TokenRenewalJob_whereArgs 10000,
       GetWrapperCall ''p_1'', VaultCall RenewSelf None,
       ExecCall (TokenExpirationUpdate (token1\<lparr>Token.expiration := 3600000000000\<rparr>)) (Inr 1)])
   \<and> Run TokenRevocationJob (scenario None [store1] [] None (Inr 1)) (job0\<lparr>running := True\<rparr>) 0 =
     (Returns None, \<lparr>limit = 10000, running = False, numTotal = 1, numProcessed = 1\<rparr>, 5,
      [SearchWhereCall TokenRevocationJob_whereClause TokenRevocationJob_whereArgs 10000,
       GetWrapperCall ''p_1'', VaultCall RevokeSelf None,
       ExecCall (TokenStatusUpdate token1 ''revoked'') (Inr 1)])
   \<and> Run CredentialRenewalJob (scenario None [] [cred1] None (Inr 1)) (job0\<lparr>running := True\<rparr>) 0 =
     (Returns None, \<lparr>limit = 10000, running = False, numTotal = 1, numProcessed = 1\<rparr>, 5,
      [SearchWhereCall CredentialRenewalJob_whereClause CredentialRenewalJob_whereArgs 10000,
       GetWrapperCall ''p_1'', VaultCall (RenewLease ''lease/1'' 3600000000000) None,
       ExecCall (CredentialExpirationUpdate
                   (credential1\<lparr>Credential.expiration := 3600000000000\<rparr>)) (Inr 1)])
   \<and> Run CredentialRevocationJob (scenario None [] [cred1] None (Inr 1)) (job0\<lparr>running := True\<rparr>) 0 =
     (Returns None, \<lparr>limit = 10000, running = False, numTotal = 1, numProcessed = 1\<rparr>, 5,
      [SearchWhereCall CredentialRevocationJob_whereClause CredentialRevocationJob_whereArgs 10000,
       GetWrapperCall ''p_1'', VaultCall (RevokeLease ''lease/1'') None,
       ExecCall (CredentialStatusUpdate credential1 ''revoked'') (Inr 1)])"
  by (simp add: concrete_defs)

subsection \<open>Write inconsistencies\<close>

text \<open>
  Claim C2, at a concrete run: the one write of the run reports zero rows. \<open>Run\<close> logs
  the error of the item and returns nil.
\<close>

theorem write_inconsistency_not_returned:
  "Run TokenRenewalJob (scenario None [store1] [] None (Inr 0)) job0 0 =
     (Returns None, \<lparr>limit = 10000, running = False, numTotal = 1, numProcessed = 1\<rparr>, 5,
      [SearchWhereCall TokenRenewalJob_whereClause TokenRenewalJob_whereArgs 10000,
       GetWrapperCall ''p_1'', VaultCall RenewSelf None,
       ExecCall (TokenExpirationUpdate (token1\<lparr>Token.expiration := 3600000000000\<rparr>)) (Inr 0),
       LogError ''error renewing token''
         [(''credential store id'', S ''cs_1''), (''token status'', S ''maintaining''),
          (''error'', E (New Unknown ''vault.(TokenRenewalJob).renewToken'' ''token renewed but failed to update repo''))]])"
  by (simp add: concrete_defs)

text \<open>
  Claim C2, as the code has it. For every job kind: when a write of a run reports a row
  count other than one, an error of code \<open>Unknown\<close> is logged by \<open>logger.Error\<close>, and
  what \<open>Run\<close> comes to is not that error: \<open>Run\<close> returns nil, or the error of the
  context found done before a later item (or a later item makes it panic). In detail,
  for each kind: the run is admitted, selects a batch and has processed the items before
  some item of the batch; the context is not done; the method working on that item issues
  a write that reports a row count other than one. Then the method returns an error of
  code \<open>Unknown\<close>, and \<open>Run\<close> emits, after the events of the item, the log entry with
  exactly that error, counts the item as processed, and goes on with the rest of the
  batch: what \<open>Run\<close> comes to, the counters and the further events are those of the loop
  over the remaining items.
\<close>

theorem write_inconsistency_logged:
  "(ExecCall q (Inr n) \<in> set (emitted (Run j d r w)) \<and>
    n \<noteq> 1 \<longrightarrow>
      (\<exists>iop msg. errorLogged (New Unknown iop msg) (emitted (Run j d r w))) \<and>
      (returned (Run j d r w) = Returns None \<or> returned (Run j d r w) = Panics \<or>
       (\<exists>c. ctx_Err d (stateAfter (Run j d r w)) = Some c \<and>
          returned (Run j d r w) = Returns (Some (Wrap c (Run_op j) None))))) \<and>
   (interleaved d (running r) = running r \<and>
    ctx_Err d w = None \<and>
    SearchWhere_stores d TokenRenewalJob_whereClause TokenRenewalJob_whereArgs (limit r) w = (Inr (pre @ s # post), w1) \<and>
    TokenRenewalJob_range d pre
        (r\<lparr>running := True, numProcessed := 0, numTotal := int (length (pre @ s # post))\<rparr>) w1 =
      (Returns None, rk, wk, tk) \<and>
    ctx_Err d wk = None \<and>
    renewToken d s wk = (ires, s1, wk1, te) \<and>
    ExecCall q (Inr n) \<in> set te \<and>
    n \<noteq> 1 \<and>
    TokenRenewalJob_range d post (rk\<lparr>numProcessed := numProcessed rk + 1\<rparr>) wk1 = (res, rn, wn, tn) \<longrightarrow>
      (\<exists>msg. ires = Some (New Unknown ''vault.(TokenRenewalJob).renewToken'' msg) \<and>
         Run TokenRenewalJob d r w =
           (res, rn\<lparr>running := False\<rparr>, wn,
            SearchWhereCall TokenRenewalJob_whereClause TokenRenewalJob_whereArgs (limit r) # tk @ te @
            [TokenRenewalJob_entry s1 (New Unknown ''vault.(TokenRenewalJob).renewToken'' msg)] @ tn)) \<and>
      numProcessed rk = int (length pre)) \<and>
   (interleaved d (running r) = running r \<and>
    ctx_Err d w = None \<and>
    SearchWhere_stores d TokenRevocationJob_whereClause TokenRevocationJob_whereArgs (limit r) w = (Inr (pre @ s # post), w1) \<and>
    TokenRevocationJob_range d pre
        (r\<lparr>running := True, numProcessed := 0, numTotal := int (length (pre @ s # post))\<rparr>) w1 =
      (Returns None, rk, wk, tk) \<and>
    ctx_Err d wk = None \<and>
    revokeToken d s wk = (ires, s1, wk1, te) \<and>
    ExecCall q (Inr n) \<in> set te \<and>
    n \<noteq> 1 \<and>
    TokenRevocationJob_range d post (rk\<lparr>numProcessed := numProcessed rk + 1\<rparr>) wk1 = (res, rn, wn, tn) \<longrightarrow>
      (\<exists>msg. ires = Some (New Unknown ''vault.(TokenRevocationJob).revokeToken'' msg) \<and>
         Run TokenRevocationJob d r w =
           (res, rn\<lparr>running := False\<rparr>, wn,
            SearchWhereCall TokenRevocationJob_whereClause TokenRevocationJob_whereArgs (limit r) # tk @ te @
            [TokenRevocationJob_entry s1 (New Unknown ''vault.(TokenRevocationJob).revokeToken'' msg)] @ tn)) \<and>
      numProcessed rk = int (length pre)) \<and>
   (interleaved d (running r) = running r \<and>
    ctx_Err d w = None \<and>
    SearchWhere_creds d CredentialRenewalJob_whereClause CredentialRenewalJob_whereArgs (limit r) w = (Inr (cpre @ cr # cpost), w1) \<and>
    CredentialRenewalJob_range d cpre
        (r\<lparr>running := True, numProcessed := 0, numTotal := int (length (cpre @ cr # cpost))\<rparr>) w1 =
      (Returns None, rk, wk, tk) \<and>
    ctx_Err d wk = None \<and>
    renewCred d cr wk = (io, cr1, wk1, te) \<and>
    ExecCall q (Inr n) \<in> set te \<and>
    n \<noteq> 1 \<and>
    CredentialRenewalJob_range d cpost (rk\<lparr>numProcessed := numProcessed rk + 1\<rparr>) wk1 = (res, rn, wn, tn) \<longrightarrow>
      (\<exists>msg. io = Returns (Some (New Unknown ''vault.(CredentialRenewalJob).renewCred'' msg)) \<and>
         Run CredentialRenewalJob d r w =
           (res, rn\<lparr>running := False\<rparr>, wn,
            SearchWhereCall CredentialRenewalJob_whereClause CredentialRenewalJob_whereArgs (limit r) # tk @ te @
            [CredentialRenewalJob_entry cr1 (New Unknown ''vault.(CredentialRenewalJob).renewCred'' msg)] @ tn)) \<and>
      numProcessed rk = int (length cpre)) \<and>
   (interleaved d (running r) = running r \<and>
    ctx_Err d w = None \<and>
    SearchWhere_creds d CredentialRevocationJob_whereClause CredentialRevocationJob_whereArgs (limit r) w = (Inr (cpre @ cr # cpost), w1) \<and>
    CredentialRevocationJob_range d cpre
        (r\<lparr>running := True, numProcessed := 0, numTotal := int (length (cpre @ cr # cpost))\<rparr>) w1 =
      (Returns None, rk, wk, tk) \<and>
    ctx_Err d wk = None \<and>
    revokeCred d cr wk = (ires, cr1, wk1, te) \<and>
    ExecCall q (Inr n) \<in> set te \<and>
    n \<noteq> 1 \<and>
    CredentialRevocationJob_range d cpost (rk\<lparr>numProcessed := numProcessed rk + 1\<rparr>) wk1 = (res, rn, wn, tn) \<longrightarrow>
      (\<exists>msg. ires = Some (New Unknown ''vault.(CredentialRenewalJob).revokeCred'' msg) \<and>
         Run CredentialRevocationJob d r w =
           (res, rn\<lparr>running := False\<rparr>, wn,
            SearchWhereCall CredentialRevocationJob_whereClause CredentialRevocationJob_whereArgs (limit r) # tk @ te @
            [CredentialRevocationJob_entry cr1 (New Unknown ''vault.(CredentialRenewalJob).revokeCred'' msg)] @ tn)) \<and>
      numProcessed rk = int (length cpre))"
  by (intro conjI)
     (rule Run_inconsistency,
      rule TokenRenewalJob_inconsistent_item_obj,
      rule TokenRevocationJob_inconsistent_item_obj,
      rule CredentialRenewalJob_inconsistent_item_obj,
      rule CredentialRevocationJob_inconsistent_item_obj)

theorem write_inconsistency_logged_witness:
  "Run TokenRenewalJob (scenario None [store1, store1] [] None (Inr 0)) job0 0 =
     (Returns None, \<lparr>limit = 10000, running = False, numTotal = 2, numProcessed = 2\<rparr>, 9,
      [SearchWhereCall TokenRenewalJob_whereClause TokenRenewalJob_whereArgs 10000,
       GetWrapperCall ''p_1'', VaultCall RenewSelf None,
       ExecCall (TokenExpirationUpdate (token1\<lparr>Token.expiration := 3600000000000\<rparr>)) (Inr 0),
       LogError ''error renewing token''
         [(''credential store id'', S ''cs_1''), (''token status'', S ''maintaining''),
          (''error'', E (New Unknown ''vault.(TokenRenewalJob).renewToken'' ''token renewed but failed to update repo''))],
       GetWrapperCall ''p_1'', VaultCall RenewSelf None,
       ExecCall (TokenExpirationUpdate (token1\<lparr>Token.expiration := 3600000000000\<rparr>)) (Inr 0),
       LogError ''error renewing token''
         [(''credential store id'', S ''cs_1''), (''token status'', S ''maintaining''),
          (''error'', E (New Unknown ''vault.(TokenRenewalJob).renewToken'' ''token renewed but failed to update repo''))]])"
proof -
  have a1: "interleaved (scenario None [store1, store1] [] None (Inr 0)) (running job0) = running job0"
    by (simp add: concrete_defs)
  have a2: "ctx_Err (scenario None [store1, store1] [] None (Inr 0)) 0 = None"
    by (simp add: concrete_defs)
  have a3: "SearchWhere_stores (scenario None [store1, store1] [] None (Inr 0)) TokenRenewalJob_whereClause TokenRenewalJob_whereArgs (limit job0) 0 = (Inr (([store1]) @ store1 # ([])), 1)"
    by (simp add: concrete_defs)
  have a4: "TokenRenewalJob_range (scenario None [store1, store1] [] None (Inr 0)) ([store1])
        (job0\<lparr>running := True, numProcessed := 0, numTotal := int (length (([store1]) @ store1 # ([])))\<rparr>) 1 =
      (Returns None, (\<lparr>limit = 10000, running = True, numTotal = 2, numProcessed = 1\<rparr>), 5, ([GetWrapperCall ''p_1'', VaultCall RenewSelf None, ExecCall (TokenExpirationUpdate (token1\<lparr>Token.expiration := 3600000000000\<rparr>)) (Inr 0), LogError ''error renewing token''
         [(''credential store id'', S ''cs_1''), (''token status'', S ''maintaining''),
          (''error'', E (New Unknown ''vault.(TokenRenewalJob).renewToken'' ''token renewed but failed to update repo''))]]))"
    by (simp add: concrete_defs)
  have a5: "ctx_Err (scenario None [store1, store1] [] None (Inr 0)) 5 = None"
    by (simp add: concrete_defs)
  have a6: "renewToken (scenario None [store1, store1] [] None (Inr 0)) store1 5 = ((Some (New Unknown ''vault.(TokenRenewalJob).renewToken'' ''token renewed but failed to update repo'')), store1, 9, ([GetWrapperCall ''p_1'', VaultCall RenewSelf None, ExecCall (TokenExpirationUpdate (token1\<lparr>Token.expiration := 3600000000000\<rparr>)) (Inr 0)]))"
    by (simp add: concrete_defs)
  have a7: "ExecCall (TokenExpirationUpdate (token1\<lparr>Token.expiration := 3600000000000\<rparr>)) (Inr (0::int)) \<in> set ([GetWrapperCall ''p_1'', VaultCall RenewSelf None, ExecCall (TokenExpirationUpdate (token1\<lparr>Token.expiration := 3600000000000\<rparr>)) (Inr 0)])"
    by (simp add: concrete_defs)
  have a8: "(0::int) \<noteq> 1"
    by (simp add: concrete_defs)
  have a9: "TokenRenewalJob_range (scenario None [store1, store1] [] None (Inr 0)) ([]) ((\<lparr>limit = 10000, running = True, numTotal = 2, numProcessed = 1\<rparr>)\<lparr>numProcessed := numProcessed (\<lparr>limit = 10000, running = True, numTotal = 2, numProcessed = 1\<rparr>) + 1\<rparr>) 9 = ((Returns None), (\<lparr>limit = 10000, running = True, numTotal = 2, numProcessed = 2\<rparr>), 9, ([]))"
    by (simp add: concrete_defs)
  note a = write_inconsistency_logged 
        [where d = "scenario None [store1, store1] [] None (Inr 0)" and
          r = job0 and
          w = 0 and
          pre = "[store1]" and
          s = store1 and
          post = "[]" and
          ?w1.0 = 1 and
          rk = "\<lparr>limit = 10000, running = True, numTotal = 2, numProcessed = 1\<rparr>" and
          wk = 5 and
          tk = "[GetWrapperCall ''p_1'', VaultCall RenewSelf None, ExecCall (TokenExpirationUpdate (token1\<lparr>Token.expiration := 3600000000000\<rparr>)) (Inr 0), LogError ''error renewing token''
         [(''credential store id'', S ''cs_1''), (''token status'', S ''maintaining''),
          (''error'', E (New Unknown ''vault.(TokenRenewalJob).renewToken'' ''token renewed but failed to update repo''))]]" and
          ires = "Some (New Unknown ''vault.(TokenRenewalJob).renewToken'' ''token renewed but failed to update repo'')" and
          ?s1.0 = store1 and
          ?wk1.0 = 9 and
          te = "[GetWrapperCall ''p_1'', VaultCall RenewSelf None, ExecCall (TokenExpirationUpdate (token1\<lparr>Token.expiration := 3600000000000\<rparr>)) (Inr 0)]" and
          q = "TokenExpirationUpdate (token1\<lparr>Token.expiration := 3600000000000\<rparr>)" and
          n = "0::int" and
          res = "Returns None" and
          rn = "\<lparr>limit = 10000, running = True, numTotal = 2, numProcessed = 2\<rparr>" and
          wn = 9 and
          tn = "[]", THEN conjunct2, THEN conjunct1]
  from a a1 a2 a3 a4 a5 a6 a7 a8 a9
  have aC: "(\<exists>msg. (Some (New Unknown ''vault.(TokenRenewalJob).renewToken'' ''token renewed but failed to update repo'')) = Some (New Unknown ''vault.(TokenRenewalJob).renewToken'' msg) \<and>
         Run TokenRenewalJob (scenario None [store1, store1] [] None (Inr 0)) job0 0 =
           ((Returns None), (\<lparr>limit = 10000, running = True, numTotal = 2, numProcessed = 2\<rparr>)\<lparr>running := False\<rparr>, 9,
            SearchWhereCall TokenRenewalJob_whereClause TokenRenewalJob_whereArgs (limit job0) # ([GetWrapperCall ''p_1'', VaultCall RenewSelf None, ExecCall (TokenExpirationUpdate (token1\<lparr>Token.expiration := 3600000000000\<rparr>)) (Inr 0), LogError ''error renewing token''
         [(''credential store id'', S ''cs_1''), (''token status'', S ''maintaining''),
          (''error'', E (New Unknown ''vault.(TokenRenewalJob).renewToken'' ''token renewed but failed to update repo''))]]) @ ([GetWrapperCall ''p_1'', VaultCall RenewSelf None, ExecCall (TokenExpirationUpdate (token1\<lparr>Token.expiration := 3600000000000\<rparr>)) (Inr 0)]) @
            [TokenRenewalJob_entry store1 (New Unknown ''vault.(TokenRenewalJob).renewToken'' msg)] @ ([]))) \<and>
      numProcessed (\<lparr>limit = 10000, running = True, numTotal = 2, numProcessed = 1\<rparr>) = int (length ([store1]))"
    by blast
  then show ?thesis
    by (auto simp: TokenRenewalJob_entry_def store1_def job0_def)
qed

subsection \<open>Classified outcomes of the backend\<close>

text \<open>
  Claim C3, at a concrete item: renew-self fails with status 403 and the write of the
  status reports zero rows. \<open>renewToken\<close> returns an error.
\<close>

theorem forbidden_renew_then_failed_write:
  "renewToken (scenario None [] [] (Some (ResponseError 403)) (Inr 0)) store1 0 =
     (Some (New Unknown ''vault.(TokenRenewalJob).renewToken''
              ''token expired but failed to update repo''),
      store1, 4,
      [GetWrapperCall ''p_1'', VaultCall RenewSelf (Some (ResponseError 403)),
       ExecCall (TokenStatusUpdate token1 ''expired'') (Inr 0)])"
  by (simp add: concrete_defs)

text \<open>
  Claim C3, as the code has it. Whenever renew-self fails with a forbidden outcome,
  \<open>renewToken\<close> issues exactly one write, the update of the token's status to
  \<open>expired\<close>, and logs no error itself. It returns no error exactly when that write
  succeeds and reports one row; it returns the wrapped error of the write when the write
  fails, and an \<open>Unknown\<close> error when the write reports another row count.
\<close>

theorem renewToken_forbidden:
  "renewToken d s w = (res, s1, w1, t) \<and> VaultCall RenewSelf (Some e) \<in> set t \<and>
   As_ResponseError e = Some StatusForbidden \<longrightarrow>
     (\<exists>token xr. store_token d s1 = Some token \<and>
        writes t = [ExecCall (Token_updateStatusQuery token ExpiredToken) xr] \<and>
        res = (case xr of
                 Inl xe \<Rightarrow> Some (Wrap xe ''vault.(TokenRenewalJob).renewToken'' None)
               | Inr numRows \<Rightarrow>
                   if numRows \<noteq> 1 then
                     Some (New Unknown ''vault.(TokenRenewalJob).renewToken''
                             ''token expired but failed to update repo'')
                   else None) \<and>
        (res = None \<longleftrightarrow> xr = Inr 1)) \<and>
     \<not> list_ex isLogError t"
  by (auto simp: renewToken_def writes_def errOf_def Let_def split: item_splits_asm)

theorem renewToken_forbidden_witness:
  "renewToken (scenario None [] [] (Some (ResponseError 403)) (Inr 1)) store1 0 =
     (None, store1, 4,
      [GetWrapperCall ''p_1'', VaultCall RenewSelf (Some (ResponseError 403)),
       ExecCall (TokenStatusUpdate token1 ''expired'') (Inr 1)])
   \<and> As_ResponseError (ResponseError 403) = Some StatusForbidden
   \<and> writes [GetWrapperCall ''p_1'', VaultCall RenewSelf (Some (ResponseError 403)),
       ExecCall (TokenStatusUpdate token1 ''expired'') (Inr 1)] =
      [ExecCall (TokenStatusUpdate token1 ''expired'') (Inr 1)]"
  using renewToken_forbidden
    [of "scenario None [] [] (Some (ResponseError 403)) (Inr 1)" store1 0 None store1 4
        "[GetWrapperCall ''p_1'', VaultCall RenewSelf (Some (ResponseError 403)),
          ExecCall (TokenStatusUpdate token1 ''expired'') (Inr 1)]" "ResponseError 403"]
  by (simp add: concrete_defs)

text \<open>
  Claim C5, at a concrete item: revoke-self fails with status 403 and the write of the
  status reports zero rows. \<open>revokeToken\<close> returns an error.
\<close>

theorem forbidden_revoke_then_failed_write:
  "revokeToken (scenario None [] [] (Some (ResponseError 403)) (Inr 0)) store1 0 =
     (Some (New Unknown ''vault.(TokenRevocationJob).revokeToken''
              ''token revoked but failed to update repo''),
      store1, 4,
      [GetWrapperCall ''p_1'', VaultCall RevokeSelf (Some (ResponseError 403)),
       ExecCall (TokenStatusUpdate token1 ''revoked'') (Inr 0)])"
  by (simp add: concrete_defs)

text \<open>
  Claim C5, as the code has it. Whenever revoke-self succeeds or fails with a forbidden
  outcome (the two are treated alike), \<open>revokeToken\<close> produces no error for the
  response and issues exactly one write, the update of the token's status to \<open>revoked\<close>.
  It returns no error exactly when that write succeeds and reports one row; otherwise it
  returns the wrapped error of the write, or an \<open>Unknown\<close> error for another row count.
\<close>

theorem revokeToken_forbidden:
  "revokeToken d s w = (res, s1, w1, t) \<and> VaultCall RevokeSelf verr \<in> set t \<and>
   (verr = None \<or> (\<exists>e. verr = Some e \<and> As_ResponseError e = Some StatusForbidden)) \<longrightarrow>
     (\<exists>token xr. store_token d s1 = Some token \<and>
        writes t = [ExecCall (Token_updateStatusQuery token RevokedToken) xr] \<and>
        res = (case xr of
                 Inl xe \<Rightarrow> Some (Wrap xe ''vault.(TokenRevocationJob).revokeToken'' None)
               | Inr numRows \<Rightarrow>
                   if numRows \<noteq> 1 then
                     Some (New Unknown ''vault.(TokenRevocationJob).revokeToken''
                             ''token revoked but failed to update repo'')
                   else None) \<and>
        (res = None \<longleftrightarrow> xr = Inr 1)) \<and>
     \<not> list_ex isLogError t"
  by (auto simp: revokeToken_def writes_def Let_def split: item_splits_asm)

theorem revokeToken_forbidden_witness:
  "revokeToken (scenario None [] [] (Some (ResponseError 403)) (Inr 1)) store1 0 =
     (None, store1, 4,
      [GetWrapperCall ''p_1'', VaultCall RevokeSelf (Some (ResponseError 403)),
       ExecCall (TokenStatusUpdate token1 ''revoked'') (Inr 1)])
   \<and> As_ResponseError (ResponseError 403) = Some StatusForbidden
   \<and> writes [GetWrapperCall ''p_1'', VaultCall RevokeSelf (Some (ResponseError 403)),
       ExecCall (TokenStatusUpdate token1 ''revoked'') (Inr 1)] =
      [ExecCall (TokenStatusUpdate token1 ''revoked'') (Inr 1)]"
  using revokeToken_forbidden
    [of "scenario None [] [] (Some (ResponseError 403)) (Inr 1)" store1 0 None store1 4
        "[GetWrapperCall ''p_1'', VaultCall RevokeSelf (Some (ResponseError 403)),
          ExecCall (TokenStatusUpdate token1 ''revoked'') (Inr 1)]" "Some (ResponseError 403)"]
  by (simp add: concrete_defs)

text \<open>
  Claim C6, at a concrete item: renew-lease fails with status 400 and the write of the
  status fails. \<open>renewCred\<close> returns an error.
\<close>

theorem bad_request_then_failed_write:
  "renewCred (scenario None [] [] (Some (ResponseError 400)) (Inl (OtherError ''db down''))) cred1 0 =
     (Returns (Some (Wrap (OtherError ''db down'') ''vault.(CredentialRenewalJob).renewCred'' None)),
      cred1, 4,
      [GetWrapperCall ''p_1'',
       VaultCall (RenewLease ''lease/1'' 3600000000000) (Some (ResponseError 400)),
       ExecCall (CredentialStatusUpdate credential1 ''expired'') (Inl (OtherError ''db down''))])"
  by (simp add: concrete_defs)

text \<open>
  Claim C6, as the code has it. Whenever renew-lease fails with a bad-request outcome,
  \<open>renewCred\<close> issues exactly one write, the update of the credential's status to
  \<open>expired\<close>. It returns no error exactly when that write succeeds and reports one row;
  otherwise it returns the wrapped error of the write, or an \<open>Unknown\<close> error for
  another row count.
\<close>

theorem renewCred_bad_request:
  "renewCred d cr w = (res, cr1, w1, t) \<and> VaultCall (RenewLease lid dur) (Some e) \<in> set t \<and>
   As_ResponseError e = Some StatusBadRequest \<longrightarrow>
     (\<exists>xr. writes t =
          [ExecCall (Credential_updateStatusQuery (toCredential d cr1) ExpiredCredential) xr] \<and>
        res = Returns
                (case xr of
                   Inl xe \<Rightarrow> Some (Wrap xe ''vault.(CredentialRenewalJob).renewCred'' None)
                 | Inr numRows \<Rightarrow>
                     if numRows \<noteq> 1 then
                       Some (New Unknown ''vault.(CredentialRenewalJob).renewCred''
                               ''credential expired but failed to update repo'')
                     else None) \<and>
        (res = Returns None \<longleftrightarrow> xr = Inr 1)) \<and>
     \<not> list_ex isLogError t"
  by (auto simp: renewCred_def writes_def errOf_def Let_def split: item_splits_asm)

theorem renewCred_bad_request_witness:
  "renewCred (scenario None [] [] (Some (ResponseError 400)) (Inr 1)) cred1 0 =
     (Returns None, cred1, 4,
      [GetWrapperCall ''p_1'',
       VaultCall (RenewLease ''lease/1'' 3600000000000) (Some (ResponseError 400)),
       ExecCall (CredentialStatusUpdate credential1 ''expired'') (Inr 1)])
   \<and> As_ResponseError (ResponseError 400) = Some StatusBadRequest
   \<and> writes [GetWrapperCall ''p_1'',
       VaultCall (RenewLease ''lease/1'' 3600000000000) (Some (ResponseError 400)),
       ExecCall (CredentialStatusUpdate credential1 ''expired'') (Inr 1)] =
      [ExecCall (CredentialStatusUpdate credential1 ''expired'') (Inr 1)]"
  using renewCred_bad_request
    [of "scenario None [] [] (Some (ResponseError 400)) (Inr 1)" cred1 0 "Returns None" cred1 4
        "[GetWrapperCall ''p_1'',
          VaultCall (RenewLease ''lease/1'' 3600000000000) (Some (ResponseError 400)),
          ExecCall (CredentialStatusUpdate credential1 ''expired'') (Inr 1)]"
        "''lease/1''" 3600000000000 "ResponseError 400"]
  by (simp add: concrete_defs)

subsection \<open>The next run of the renewal jobs\<close>

text \<open>
  Claim C7. For the token renewal and the credential renewal job: when the first row of
  the query holds a negative time until renewal, \<open>NextRunIn\<close> returns 0 and no error;
  when the query fails, it returns the fallback of five minutes together with the
  wrapped error; when the query yields no rows, it returns the fallback and no error.
\<close>

theorem NextRunIn_of_renewal_jobs:
  "(Query d tokenRenewalNextRunInQuery w = Inr (Inr n # rows) \<and> n <s 0 \<longrightarrow>
      NextRunIn TokenRenewalJob d w = (0, None))
   \<and> (Query d tokenRenewalNextRunInQuery w = Inl err \<longrightarrow>
      NextRunIn TokenRenewalJob d w =
        (defaultNextRunIn,
         Some (Wrap (Wrap err ''vault.nextRenewal'' None) ''vault.(TokenRenewalJob).NextRunIn'' None)))
   \<and> (Query d tokenRenewalNextRunInQuery w = Inr [] \<longrightarrow>
      NextRunIn TokenRenewalJob d w = (defaultNextRunIn, None))
   \<and> (Query d credentialRenewalNextRunInQuery w = Inr (Inr n # rows) \<and> n <s 0 \<longrightarrow>
      NextRunIn CredentialRenewalJob d w = (0, None))
   \<and> (Query d credentialRenewalNextRunInQuery w = Inl err \<longrightarrow>
      NextRunIn CredentialRenewalJob d w =
        (defaultNextRunIn,
         Some (Wrap (Wrap err ''vault.nextRenewal'' None) ''vault.(CredentialRenewalJob).NextRunIn'' None)))
   \<and> (Query d credentialRenewalNextRunInQuery w = Inr [] \<longrightarrow>
      NextRunIn CredentialRenewalJob d w = (defaultNextRunIn, None))
   \<and> sint defaultNextRunIn = 5 * 60 * 1000000000"
  by (simp add: NextRunIn_def TokenRenewalJob_NextRunIn_def CredentialRenewalJob_NextRunIn_def
        nextRenewal_def defaultNextRunIn_def Minute_def Second_def)

theorem NextRunIn_of_renewal_jobs_witness:
  "(- 30 :: 64 word) <s 0
   \<and> NextRunIn TokenRenewalJob
     ((scenario None [] [] None (Inr 1))\<lparr>Query := \<lambda>_ _. Inr [Inr (- 30), Inr 40]\<rparr>) (0::nat) = (0, None)
   \<and> NextRunIn CredentialRenewalJob
     ((scenario None [] [] None (Inr 1))\<lparr>Query := \<lambda>_ _. Inl (OtherError ''db down'')\<rparr>) (0::nat) =
       (300000000000,
        Some (Wrap (Wrap (OtherError ''db down'') ''vault.nextRenewal'' None)
                ''vault.(CredentialRenewalJob).NextRunIn'' None))
   \<and> NextRunIn TokenRenewalJob (scenario None [] [] None (Inr 1)) (0::nat) = (300000000000, None)"
proof -
  let ?d1 = "(scenario None [] [] None (Inr 1))\<lparr>Query := \<lambda>_ _. Inr [Inr (- 30), Inr 40]\<rparr>"
  let ?d2 = "(scenario None [] [] None (Inr 1))\<lparr>Query := \<lambda>_ _. Inl (OtherError ''db down'')\<rparr>"
  let ?d3 = "scenario None [] [] None (Inr 1)"
  have neg: "(- 30 :: 64 word) <s 0"
    by (simp add: word_sless_alt)
  have q1: "Query ?d1 tokenRenewalNextRunInQuery 0 = Inr (Inr (- 30) # [Inr 40])"
    by (simp add: scenario_def)
  have q2: "Query ?d2 credentialRenewalNextRunInQuery 0 = Inl (OtherError ''db down'')"
    by (simp add: scenario_def)
  have q3: "Query ?d3 tokenRenewalNextRunInQuery 0 = Inr []"
    by (simp add: scenario_def)
  have fb: "defaultNextRunIn = 300000000000"
    by (simp add: defaultNextRunIn_def Minute_def Second_def)
  from NextRunIn_of_renewal_jobs [where d = ?d1 and w = 0 and n = "- 30" and rows = "[Inr 40]"] q1 neg
  have 1: "NextRunIn TokenRenewalJob ?d1 0 = (0, None)" by blast
  from NextRunIn_of_renewal_jobs [where d = ?d2 and w = 0 and err = "OtherError ''db down''"] q2
  have 2: "NextRunIn CredentialRenewalJob ?d2 0 =
       (defaultNextRunIn,
        Some (Wrap (Wrap (OtherError ''db down'') ''vault.nextRenewal'' None)
                ''vault.(CredentialRenewalJob).NextRunIn'' None))" by blast
  from NextRunIn_of_renewal_jobs [where d = ?d3 and w = 0] q3
  have 3: "NextRunIn TokenRenewalJob ?d3 0 = (defaultNextRunIn, None)" by blast
  from neg 1 2 3 fb show ?thesis by simp
qed

subsection \<open>The progress counters\<close>

text \<open>
  Claim C8, at a concrete run: the batch has two items and the context is done when
  the first item is reached. No item has been processed, and the counters are
  \<open>(0, 2)\<close>, not \<open>(0, 0)\<close>.
\<close>

theorem counters_set_to_batch_size:
  "Run TokenRenewalJob (scenario (Some 1) [store1, store1] [] None (Inr 1)) job0 0 =
     (Returns (Some (Wrap ContextCanceled ''vault.(TokenRenewalJob).Run'' None)),
      \<lparr>limit = 10000, running = False, numTotal = 2, numProcessed = 0\<rparr>, 1,
      [SearchWhereCall TokenRenewalJob_whereClause TokenRenewalJob_whereArgs 10000])
   \<and> Status (jobAfter (Run TokenRenewalJob (scenario (Some 1) [store1, store1] [] None (Inr 1)) job0 0)) =
     \<lparr>Completed = 0, Total = 2\<rparr>"
  by (simp add: concrete_defs)

text \<open>
  Claim C8, as the code has it. For every job kind: once \<open>Run\<close> has passed its guard
  and its first check of the context and the batch has been selected, the counters are
  set, before any item is processed, to zero items processed and the size of the batch
  as total (not to zero and zero); the processed counter is incremented after each item
  whose method returns, with an error or without. So \<open>Status\<close> reports the progress
  live during the run: when the items before some point of the batch have been
  processed, it reads their number and the size of the batch, and the run goes on from
  there. After the run it reads the number of items whose processing was started and
  the size of the batch (one less than the items started when the last one made
  \<open>Run\<close> panic), and both are the size of the batch when \<open>Run\<close> returns nil. A run that
  is rejected by the guard, finds the context done before the selection, or whose
  selection fails, processes no item and leaves the counters as they were.
\<close>

theorem counters_follow_the_batch:
  "(interleaved d (running r) = running r \<and>
    ctx_Err d w = None \<and>
    selection j d r w = (Inr n, w1) \<longrightarrow>
      Total (Status (jobAfter (Run j d r w))) = n \<and>
      started (emitted (Run j d r w)) \<le> n \<and>
      (returned (Run j d r w) \<noteq> Panics \<longrightarrow>
         Completed (Status (jobAfter (Run j d r w))) = started (emitted (Run j d r w))) \<and>
      (returned (Run j d r w) = Panics \<longrightarrow>
         Completed (Status (jobAfter (Run j d r w))) = started (emitted (Run j d r w)) - 1) \<and>
      (returned (Run j d r w) = Returns None \<longrightarrow>
         Status (jobAfter (Run j d r w)) = \<lparr>Completed = n, Total = n\<rparr>) \<and>
      (ctx_Err d w1 \<noteq> None \<longrightarrow>
         Status (jobAfter (Run j d r w)) = \<lparr>Completed = 0, Total = n\<rparr> \<and>
         started (emitted (Run j d r w)) = 0)) \<and>
   ((interleaved d (running r) \<noteq> running r \<or> ctx_Err d w \<noteq> None \<or>
     (\<exists>se. fst (selection j d r w) = Inl se)) \<longrightarrow>
      Status (jobAfter (Run j d r w)) = Status r \<and> started (emitted (Run j d r w)) = 0) \<and>
   (interleaved d (running r) = running r \<and>
    ctx_Err d w = None \<and>
    SearchWhere_stores d TokenRenewalJob_whereClause TokenRenewalJob_whereArgs (limit r) w = (Inr (pre @ post), w1) \<and>
    TokenRenewalJob_range d pre
        (r\<lparr>running := True, numProcessed := 0, numTotal := int (length (pre @ post))\<rparr>) w1 =
      (Returns None, rk, wk, tk) \<and>
    TokenRenewalJob_range d post rk wk = (res, rn, wn, tn) \<longrightarrow>
      Status rk = \<lparr>Completed = int (length pre), Total = int (length (pre @ post))\<rparr> \<and>
      Run TokenRenewalJob d r w = (res, rn\<lparr>running := False\<rparr>, wn, SearchWhereCall TokenRenewalJob_whereClause TokenRenewalJob_whereArgs (limit r) # tk @ tn)) \<and>
   (interleaved d (running r) = running r \<and>
    ctx_Err d w = None \<and>
    SearchWhere_stores d TokenRevocationJob_whereClause TokenRevocationJob_whereArgs (limit r) w = (Inr (pre @ post), w1) \<and>
    TokenRevocationJob_range d pre
        (r\<lparr>running := True, numProcessed := 0, numTotal := int (length (pre @ post))\<rparr>) w1 =
      (Returns None, rk, wk, tk) \<and>
    TokenRevocationJob_range d post rk wk = (res, rn, wn, tn) \<longrightarrow>
      Status rk = \<lparr>Completed = int (length pre), Total = int (length (pre @ post))\<rparr> \<and>
      Run TokenRevocationJob d r w = (res, rn\<lparr>running := False\<rparr>, wn, SearchWhereCall TokenRevocationJob_whereClause TokenRevocationJob_whereArgs (limit r) # tk @ tn)) \<and>
   (interleaved d (running r) = running r \<and>
    ctx_Err d w = None \<and>
    SearchWhere_creds d CredentialRenewalJob_whereClause CredentialRenewalJob_whereArgs (limit r) w = (Inr (cpre @ cpost), w1) \<and>
    CredentialRenewalJob_range d cpre
        (r\<lparr>running := True, numProcessed := 0, numTotal := int (length (cpre @ cpost))\<rparr>) w1 =
      (Returns None, rk, wk, tk) \<and>
    CredentialRenewalJob_range d cpost rk wk = (res, rn, wn, tn) \<longrightarrow>
      Status rk = \<lparr>Completed = int (length cpre), Total = int (length (cpre @ cpost))\<rparr> \<and>
      Run CredentialRenewalJob d r w = (res, rn\<lparr>running := False\<rparr>, wn, SearchWhereCall CredentialRenewalJob_whereClause CredentialRenewalJob_whereArgs (limit r) # tk @ tn)) \<and>
   (interleaved d (running r) = running r \<and>
    ctx_Err d w = None \<and>
    SearchWhere_creds d CredentialRevocationJob_whereClause CredentialRevocationJob_whereArgs (limit r) w = (Inr (cpre @ cpost), w1) \<and>
    CredentialRevocationJob_range d cpre
        (r\<lparr>running := True, numProcessed := 0, numTotal := int (length (cpre @ cpost))\<rparr>) w1 =
      (Returns None, rk, wk, tk) \<and>
    CredentialRevocationJob_range d cpost rk wk = (res, rn, wn, tn) \<longrightarrow>
      Status rk = \<lparr>Completed = int (length cpre), Total = int (length (cpre @ cpost))\<rparr> \<and>
      Run CredentialRevocationJob d r w = (res, rn\<lparr>running := False\<rparr>, wn, SearchWhereCall CredentialRevocationJob_whereClause CredentialRevocationJob_whereArgs (limit r) # tk @ tn))"
  by (intro conjI)
     (rule Run_counters,
      rule Run_unchanged,
      rule TokenRenewalJob_live_obj,
      rule TokenRevocationJob_live_obj,
      rule CredentialRenewalJob_live_obj,
      rule CredentialRevocationJob_live_obj)

theorem counters_follow_the_batch_witness:
  "Status \<lparr>limit = 10000, running = True, numTotal = 2, numProcessed = 1\<rparr> = \<lparr>Completed = 1, Total = 2\<rparr>
   \<and> Run CredentialRevocationJob (scenario None [] [cred1, cred1] None (Inl (OtherError ''db down''))) job0 0 =
     (Returns None, \<lparr>limit = 10000, running = False, numTotal = 2, numProcessed = 2\<rparr>, 9,
      [SearchWhereCall CredentialRevocationJob_whereClause CredentialRevocationJob_whereArgs 10000,
       GetWrapperCall ''p_1'', VaultCall (RevokeLease ''lease/1'') None,
       ExecCall (CredentialStatusUpdate credential1 ''revoked'') (Inl (OtherError ''db down'')),
       LogError ''error revoking credential''
         [(''credential id'', S ''cred_1''),
          (''error'', E (Wrap (OtherError ''db down'') ''vault.(CredentialRenewalJob).revokeCred'' None))],
       GetWrapperCall ''p_1'', VaultCall (RevokeLease ''lease/1'') None,
       ExecCall (CredentialStatusUpdate credential1 ''revoked'') (Inl (OtherError ''db down'')),
       LogError ''error revoking credential''
         [(''credential id'', S ''cred_1''),
          (''error'', E (Wrap (OtherError ''db down'') ''vault.(CredentialRenewalJob).revokeCred'' None))]])
   \<and> Status (jobAfter (Run CredentialRevocationJob (scenario None [] [cred1, cred1] None (Inl (OtherError ''db down''))) job0 0)) =
     \<lparr>Completed = 2, Total = 2\<rparr>
   \<and> Status (jobAfter (Run CredentialRevocationJob
        (scenario (Some 0) [] [cred1, cred1] None (Inr 1)) job0 0)) =
     \<lparr>Completed = 5, Total = 5\<rparr>"
proof -
  have a1: "interleaved (scenario None [] [cred1, cred1] None (Inl (OtherError ''db down''))) (running job0) = running job0"
    by (simp add: concrete_defs)
  have a2: "ctx_Err (scenario None [] [cred1, cred1] None (Inl (OtherError ''db down''))) 0 = None"
    by (simp add: concrete_defs)
  have a3: "SearchWhere_creds (scenario None [] [cred1, cred1] None (Inl (OtherError ''db down''))) CredentialRevocationJob_whereClause CredentialRevocationJob_whereArgs (limit job0) 0 = (Inr (([cred1]) @ ([cred1])), 1)"
    by (simp add: concrete_defs)
  have a4: "CredentialRevocationJob_range (scenario None [] [cred1, cred1] None (Inl (OtherError ''db down''))) ([cred1])
        (job0\<lparr>running := True, numProcessed := 0, numTotal := int (length (([cred1]) @ ([cred1])))\<rparr>) 1 =
      (Returns None, (\<lparr>limit = 10000, running = True, numTotal = 2, numProcessed = 1\<rparr>), 5, ([GetWrapperCall ''p_1'', VaultCall (RevokeLease ''lease/1'') None,
       ExecCall (CredentialStatusUpdate credential1 ''revoked'') (Inl (OtherError ''db down'')),
       LogError ''error revoking credential''
         [(''credential id'', S ''cred_1''),
          (''error'', E (Wrap (OtherError ''db down'') ''vault.(CredentialRenewalJob).revokeCred'' None))]]))"
    by (simp add: concrete_defs)
  have a5: "CredentialRevocationJob_range (scenario None [] [cred1, cred1] None (Inl (OtherError ''db down''))) ([cred1]) (\<lparr>limit = 10000, running = True, numTotal = 2, numProcessed = 1\<rparr>) 5 = ((Returns None), (\<lparr>limit = 10000, running = True, numTotal = 2, numProcessed = 2\<rparr>), 9, ([GetWrapperCall ''p_1'', VaultCall (RevokeLease ''lease/1'') None,
       ExecCall (CredentialStatusUpdate credential1 ''revoked'') (Inl (OtherError ''db down'')),
       LogError ''error revoking credential''
         [(''credential id'', S ''cred_1''),
          (''error'', E (Wrap (OtherError ''db down'') ''vault.(CredentialRenewalJob).revokeCred'' None))]]))"
    by (simp add: concrete_defs)
  note a = counters_follow_the_batch 
        [where d = "scenario None [] [cred1, cred1] None (Inl (OtherError ''db down''))" and
          r = job0 and
          w = 0 and
          cpre = "[cred1]" and
          cpost = "[cred1]" and
          ?w1.0 = 1 and
          rk = "\<lparr>limit = 10000, running = True, numTotal = 2, numProcessed = 1\<rparr>" and
          wk = 5 and
          tk = "[GetWrapperCall ''p_1'', VaultCall (RevokeLease ''lease/1'') None,
       ExecCall (CredentialStatusUpdate credential1 ''revoked'') (Inl (OtherError ''db down'')),
       LogError ''error revoking credential''
         [(''credential id'', S ''cred_1''),
          (''error'', E (Wrap (OtherError ''db down'') ''vault.(CredentialRenewalJob).revokeCred'' None))]]" and
          res = "Returns None" and
          rn = "\<lparr>limit = 10000, running = True, numTotal = 2, numProcessed = 2\<rparr>" and
          wn = 9 and
          tn = "[GetWrapperCall ''p_1'', VaultCall (RevokeLease ''lease/1'') None,
       ExecCall (CredentialStatusUpdate credential1 ''revoked'') (Inl (OtherError ''db down'')),
       LogError ''error revoking credential''
         [(''credential id'', S ''cred_1''),
          (''error'', E (Wrap (OtherError ''db down'') ''vault.(CredentialRenewalJob).revokeCred'' None))]]", THEN conjunct2, THEN conjunct2, THEN conjunct2, THEN conjunct2, THEN conjunct2]
  from a a1 a2 a3 a4 a5
  have aC: "Status (\<lparr>limit = 10000, running = True, numTotal = 2, numProcessed = 1\<rparr>) = \<lparr>Completed = int (length ([cred1])), Total = int (length (([cred1]) @ ([cred1])))\<rparr> \<and>
      Run CredentialRevocationJob (scenario None [] [cred1, cred1] None (Inl (OtherError ''db down''))) job0 0 = ((Returns None), (\<lparr>limit = 10000, running = True, numTotal = 2, numProcessed = 2\<rparr>)\<lparr>running := False\<rparr>, 9, SearchWhereCall CredentialRevocationJob_whereClause CredentialRevocationJob_whereArgs (limit job0) # ([GetWrapperCall ''p_1'', VaultCall (RevokeLease ''lease/1'') None,
       ExecCall (CredentialStatusUpdate credential1 ''revoked'') (Inl (OtherError ''db down'')),
       LogError ''error revoking credential''
         [(''credential id'', S ''cred_1''),
          (''error'', E (Wrap (OtherError ''db down'') ''vault.(CredentialRenewalJob).revokeCred'' None))]]) @ ([GetWrapperCall ''p_1'', VaultCall (RevokeLease ''lease/1'') None,
       ExecCall (CredentialStatusUpdate credential1 ''revoked'') (Inl (OtherError ''db down'')),
       LogError ''error revoking credential''
         [(''credential id'', S ''cred_1''),
          (''error'', E (Wrap (OtherError ''db down'') ''vault.(CredentialRenewalJob).revokeCred'' None))]]))"
    by blast
  have fin: "ctx_Err (scenario (Some 0) [] [cred1, cred1] None (Inr 1)) 0 \<noteq> None"
    by (simp add: scenario_def)
  note b = counters_follow_the_batch
        [where d = "scenario (Some 0) [] [cred1, cred1] None (Inr 1)" and r = job0 and w = 0 and
          j = CredentialRevocationJob, THEN conjunct2, THEN conjunct1]
  from b fin
  have bC: "Status (jobAfter (Run CredentialRevocationJob
        (scenario (Some 0) [] [cred1, cred1] None (Inr 1)) job0 0)) = Status job0"
    by blast
  from aC bC show ?thesis
    by (simp add: jobAfter_def Status_def job0_def)
qed

subsection \<open>Cancellation\<close>

text \<open>
  Claim C9, at a concrete call: the context is already done, and another goroutine sets
  the \<open>running\<close> flag between the \<open>Load\<close> and the \<open>CAS\<close> of this call. \<open>Run\<close> returns
  the already-running error, not the error of the context.
\<close>

theorem done_context_behind_the_guard:
  "ctx_Err ((scenario (Some 0) [store1] [] None (Inr 1))\<lparr>interleaved := \<lambda>_. True\<rparr>) 0 =
     Some ContextCanceled
   \<and> Run TokenRenewalJob
       ((scenario (Some 0) [store1] [] None (Inr 1))\<lparr>interleaved := \<lambda>_. True\<rparr>) job0 0 =
     (Returns (Some (New JobAlreadyRunning ''vault.(TokenRenewalJob).Run'' ''job already running'')),
      \<lparr>limit = 10000, running = True, numTotal = 5, numProcessed = 5\<rparr>, 0, [])"
  by (simp add: concrete_defs)

text \<open>
  Claim C9, as the code has it. For every job kind: when the context is already done as
  \<open>Run\<close> is invoked and the guard admits the call, \<open>Run\<close> returns the error of the
  context, wrapped under the operation name of \<open>Run\<close>; nothing has been emitted, so that
  neither the selection query nor any item was started; the outside state is as before,
  and so is the job apart from the cleared flag, so that the counters keep their prior
  values. (When the guard rejects the call, \<open>Run\<close> returns the already-running error,
  equally with nothing emitted and the counters as they were.) The same check before
  each item stops the run: when the run has processed the items before some item of the
  batch and finds the context done there, \<open>Run\<close> returns the wrapped error of the
  context; it has emitted the selection and the events of the items before, and nothing
  of that item or a later one; the counters read the number of items before.
\<close>

theorem Run_with_done_context:
  "(interleaved d (running r) = running r \<and>
    ctx_Err d w = Some c \<longrightarrow>
      Run j d r w = (Returns (Some (Wrap c (Run_op j) None)), r\<lparr>running := False\<rparr>, w, []) \<and>
      Status (jobAfter (Run j d r w)) = Status r) \<and>
   (interleaved d (running r) \<noteq> running r \<longrightarrow>
      Run j d r w =
        (Returns (Some (New JobAlreadyRunning (Run_op j) ''job already running'')),
         r\<lparr>running := interleaved d (running r)\<rparr>, w, [])) \<and>
   (interleaved d (running r) = running r \<and>
    ctx_Err d w = None \<and>
    SearchWhere_stores d TokenRenewalJob_whereClause TokenRenewalJob_whereArgs (limit r) w = (Inr (pre @ s # post), w1) \<and>
    TokenRenewalJob_range d pre
        (r\<lparr>running := True, numProcessed := 0, numTotal := int (length (pre @ s # post))\<rparr>) w1 =
      (Returns None, rk, wk, tk) \<and>
    ctx_Err d wk = Some c \<longrightarrow>
      Run TokenRenewalJob d r w =
        (Returns (Some (Wrap c ''vault.(TokenRenewalJob).Run'' None)), rk\<lparr>running := False\<rparr>, wk, SearchWhereCall TokenRenewalJob_whereClause TokenRenewalJob_whereArgs (limit r) # tk) \<and>
      started tk = int (length pre) \<and>
      Status rk = \<lparr>Completed = int (length pre), Total = int (length (pre @ s # post))\<rparr>) \<and>
   (interleaved d (running r) = running r \<and>
    ctx_Err d w = None \<and>
    SearchWhere_stores d TokenRevocationJob_whereClause TokenRevocationJob_whereArgs (limit r) w = (Inr (pre @ s # post), w1) \<and>
    TokenRevocationJob_range d pre
        (r\<lparr>running := True, numProcessed := 0, numTotal := int (length (pre @ s # post))\<rparr>) w1 =
      (Returns None, rk, wk, tk) \<and>
    ctx_Err d wk = Some c \<longrightarrow>
      Run TokenRevocationJob d r w =
        (Returns (Some (Wrap c ''vault.(TokenRevocationJob).Run'' None)), rk\<lparr>running := False\<rparr>, wk, SearchWhereCall TokenRevocationJob_whereClause TokenRevocationJob_whereArgs (limit r) # tk) \<and>
      started tk = int (length pre) \<and>
      Status rk = \<lparr>Completed = int (length pre), Total = int (length (pre @ s # post))\<rparr>) \<and>
   (interleaved d (running r) = running r \<and>
    ctx_Err d w = None \<and>
    SearchWhere_creds d CredentialRenewalJob_whereClause CredentialRenewalJob_whereArgs (limit r) w = (Inr (cpre @ cr # cpost), w1) \<and>
    CredentialRenewalJob_range d cpre
        (r\<lparr>running := True, numProcessed := 0, numTotal := int (length (cpre @ cr # cpost))\<rparr>) w1 =
      (Returns None, rk, wk, tk) \<and>
    ctx_Err d wk = Some c \<longrightarrow>
      Run CredentialRenewalJob d r w =
        (Returns (Some (Wrap c ''vault.(CredentialRenewalJob).Run'' None)), rk\<lparr>running := False\<rparr>, wk, SearchWhereCall CredentialRenewalJob_whereClause CredentialRenewalJob_whereArgs (limit r) # tk) \<and>
      started tk = int (length cpre) \<and>
      Status rk = \<lparr>Completed = int (length cpre), Total = int (length (cpre @ cr # cpost))\<rparr>) \<and>
   (interleaved d (running r) = running r \<and>
    ctx_Err d w = None \<and>
    SearchWhere_creds d CredentialRevocationJob_whereClause CredentialRevocationJob_whereArgs (limit r) w = (Inr (cpre @ cr # cpost), w1) \<and>
    CredentialRevocationJob_range d cpre
        (r\<lparr>running := True, numProcessed := 0, numTotal := int (length (cpre @ cr # cpost))\<rparr>) w1 =
      (Returns None, rk, wk, tk) \<and>
    ctx_Err d wk = Some c \<longrightarrow>
      Run CredentialRevocationJob d r w =
        (Returns (Some (Wrap c ''vault.(CredentialRevocationJob).Run'' None)), rk\<lparr>running := False\<rparr>, wk, SearchWhereCall CredentialRevocationJob_whereClause CredentialRevocationJob_whereArgs (limit r) # tk) \<and>
      started tk = int (length cpre) \<and>
      Status rk = \<lparr>Completed = int (length cpre), Total = int (length (cpre @ cr # cpost))\<rparr>)"
  by (intro conjI)
     (rule Run_cancelled,
      rule Run_rejected,
      rule TokenRenewalJob_mid_cancel_obj,
      rule TokenRevocationJob_mid_cancel_obj,
      rule CredentialRenewalJob_mid_cancel_obj,
      rule CredentialRevocationJob_mid_cancel_obj)

theorem Run_with_done_context_witness:
  "Run TokenRevocationJob (scenario (Some 5) [store1, store1] [] None (Inr 1)) job0 0 =
     (Returns (Some (Wrap ContextCanceled ''vault.(TokenRevocationJob).Run'' None)),
      \<lparr>limit = 10000, running = False, numTotal = 2, numProcessed = 1\<rparr>, 5,
      [SearchWhereCall TokenRevocationJob_whereClause TokenRevocationJob_whereArgs 10000,
       GetWrapperCall ''p_1'', VaultCall RevokeSelf None,
       ExecCall (TokenStatusUpdate token1 ''revoked'') (Inr 1)])
   \<and> Run TokenRevocationJob (scenario (Some 0) [store1] [cred1] None (Inr 1)) job0 0 =
       (Returns (Some (Wrap ContextCanceled ''vault.(TokenRevocationJob).Run'' None)),
        job0, 0, [])"
proof -
  have a1: "interleaved (scenario (Some 5) [store1, store1] [] None (Inr 1)) (running job0) = running job0"
    by (simp add: concrete_defs)
  have a2: "ctx_Err (scenario (Some 5) [store1, store1] [] None (Inr 1)) 0 = None"
    by (simp add: concrete_defs)
  have a3: "SearchWhere_stores (scenario (Some 5) [store1, store1] [] None (Inr 1)) TokenRevocationJob_whereClause TokenRevocationJob_whereArgs (limit job0) 0 = (Inr (([store1]) @ store1 # ([])), 1)"
    by (simp add: concrete_defs)
  have a4: "TokenRevocationJob_range (scenario (Some 5) [store1, store1] [] None (Inr 1)) ([store1])
        (job0\<lparr>running := True, numProcessed := 0, numTotal := int (length (([store1]) @ store1 # ([])))\<rparr>) 1 =
      (Returns None, (\<lparr>limit = 10000, running = True, numTotal = 2, numProcessed = 1\<rparr>), 5, ([GetWrapperCall ''p_1'', VaultCall RevokeSelf None,
       ExecCall (TokenStatusUpdate token1 ''revoked'') (Inr 1)]))"
    by (simp add: concrete_defs)
  have a5: "ctx_Err (scenario (Some 5) [store1, store1] [] None (Inr 1)) 5 = Some ContextCanceled"
    by (simp add: concrete_defs)
  note a = Run_with_done_context 
        [where d = "scenario (Some 5) [store1, store1] [] None (Inr 1)" and
          r = job0 and
          w = 0 and
          pre = "[store1]" and
          s = store1 and
          post = "[]" and
          ?w1.0 = 1 and
          rk = "\<lparr>limit = 10000, running = True, numTotal = 2, numProcessed = 1\<rparr>" and
          wk = 5 and
          tk = "[GetWrapperCall ''p_1'', VaultCall RevokeSelf None,
       ExecCall (TokenStatusUpdate token1 ''revoked'') (Inr 1)]" and
          c = ContextCanceled, THEN conjunct2, THEN conjunct2, THEN conjunct2, THEN conjunct1]
  from a a1 a2 a3 a4 a5
  have aC: "Run TokenRevocationJob (scenario (Some 5) [store1, store1] [] None (Inr 1)) job0 0 =
        (Returns (Some (Wrap ContextCanceled ''vault.(TokenRevocationJob).Run'' None)), (\<lparr>limit = 10000, running = True, numTotal = 2, numProcessed = 1\<rparr>)\<lparr>running := False\<rparr>, 5, SearchWhereCall TokenRevocationJob_whereClause TokenRevocationJob_whereArgs (limit job0) # ([GetWrapperCall ''p_1'', VaultCall RevokeSelf None,
       ExecCall (TokenStatusUpdate token1 ''revoked'') (Inr 1)])) \<and>
      started ([GetWrapperCall ''p_1'', VaultCall RevokeSelf None,
       ExecCall (TokenStatusUpdate token1 ''revoked'') (Inr 1)]) = int (length ([store1])) \<and>
      Status (\<lparr>limit = 10000, running = True, numTotal = 2, numProcessed = 1\<rparr>) = \<lparr>Completed = int (length ([store1])), Total = int (length (([store1]) @ store1 # ([])))\<rparr>"
    by blast
  have b1: "interleaved (scenario (Some 0) [store1] [cred1] None (Inr 1)) (running job0) = running job0"
    by (simp add: concrete_defs)
  have b2: "ctx_Err (scenario (Some 0) [store1] [cred1] None (Inr 1)) 0 = Some ContextCanceled"
    by (simp add: concrete_defs)
  note b = Run_with_done_context 
        [where d = "scenario (Some 0) [store1] [cred1] None (Inr 1)" and
          r = job0 and
          w = 0 and
          c = ContextCanceled and
          j = TokenRevocationJob, THEN conjunct1]
  from b b1 b2
  have bC: "Run TokenRevocationJob (scenario (Some 0) [store1] [cred1] None (Inr 1)) job0 0 = (Returns (Some (Wrap ContextCanceled (Run_op TokenRevocationJob) None)), job0\<lparr>running := False\<rparr>, 0, []) \<and>
      Status (jobAfter (Run TokenRevocationJob (scenario (Some 0) [store1] [cred1] None (Inr 1)) job0 0)) = Status job0"
    by blast
  from aC bC show ?thesis
    by (simp add: job0_def Run_op_def)
qed

subsection \<open>Errors of \<open>Run\<close>\<close>



end
